theory Spec2Isabelle
  imports Complex_Main "HOL-Library.AList" "HOL-Library.Log_Nat"
begin

section \<open>Conventions of the embedding\<close>

text \<open>
  The program is the character model of a life simulation, written in Python
  (\<^verbatim>\<open>src/models\<close>: personality, experience, trauma, relationships, npc).

  \<^item> A Python \<^verbatim>\<open>float\<close> is modelled as an exact \<open>real\<close>: every formula of the
    source is kept, without rounding. The exception is \<^verbatim>\<open>gain_experience\<close>, which
    is also modelled with the rounding of binary64 arithmetic
    (\<open>gain_experience_binary64\<close>), because the order of its successive gains
    depends on it. A Python \<^verbatim>\<open>int\<close> is an \<open>int\<close>.
  \<^item> A dataclass is a \<^theory_text>\<open>record\<close> with the fields of the source, in order; its
    \<^verbatim>\<open>__post_init__\<close> is a function into \<open>py_error + _\<close>.
  \<^item> A method that mutates \<^verbatim>\<open>self\<close> returns the pair (outcome, object after the
    call). The outcome is \<open>Inl e\<close> when the source raises \<open>e\<close>; the second
    component is the object as the raise leaves it, so a write made before a
    raise stays visible.
  \<^item> A \<^verbatim>\<open>dict\<close> whose order matters is an association list with distinct keys;
    \<^verbatim>\<open>d[k] = v\<close> is \<open>AList.update\<close> (overwrite in place, or append).
  \<^item> A \<^verbatim>\<open>datetime\<close> is held as its ISO-8601 text, the form the source writes
    with \<^verbatim>\<open>isoformat()\<close>; the clock reading \<^verbatim>\<open>datetime.now()\<close> is a parameter
    \<open>now\<close> of the function that takes it, and the parser
    \<^verbatim>\<open>datetime.fromisoformat\<close> a parameter \<open>fromisoformat\<close> (\<open>None\<close> on a malformed
    text).
\<close>

datatype py_error =
  ValueError | KeyError | TypeError | IndexError | OverflowError | AttributeError

section \<open>personality.py\<close>

text \<open>
  \<^verbatim>\<open>PersonalityTraits\<close>: eight traits. The class is an ordinary (not frozen,
  no \<^verbatim>\<open>__slots__\<close>) dataclass, and \<^verbatim>\<open>set_trait\<close> goes through \<^verbatim>\<open>hasattr\<close> and
  \<^verbatim>\<open>setattr\<close>, so the instance can receive attributes beyond its fields:
  \<open>instance_attrs\<close> holds them (empty after construction).
\<close>

record PersonalityTraits =
  greed :: real
  sociability :: real
  laziness :: real
  ambition :: real
  forgiveness :: real
  courage :: real
  analytical :: real
  impulsiveness :: real
  instance_attrs :: "(string \<times> real) list"

definition in_unit_range :: "real \<Rightarrow> bool" where
  "in_unit_range v = (0.0 \<le> v \<and> v \<le> 1.0)"

definition PersonalityTraits_values :: "PersonalityTraits \<Rightarrow> real list" where
  "PersonalityTraits_values p =
     [greed p, sociability p, laziness p, ambition p,
      forgiveness p, courage p, analytical p, impulsiveness p]"

definition PersonalityTraits_post_init :: "PersonalityTraits \<Rightarrow> py_error + PersonalityTraits" where
  "PersonalityTraits_post_init p =
     (if list_all in_unit_range (PersonalityTraits_values p) then Inr p else Inl ValueError)"

definition PersonalityTraits_default :: PersonalityTraits where
  "PersonalityTraits_default =
     \<lparr>greed = 0.5, sociability = 0.5, laziness = 0.5, ambition = 0.5,
      forgiveness = 0.5, courage = 0.5, analytical = 0.5, impulsiveness = 0.5,
      instance_attrs = []\<rparr>"

section \<open>trauma.py\<close>

subsection \<open>TraumaMemory\<close>

text \<open>
  An entry of \<open>healing_activities\<close> is the pair (source, realized healing); the
  source renders it as the text \<^verbatim>\<open>f"{healing_source}:{actual_healing:.3f}"\<close>.
\<close>

record TraumaMemory =
  event_type :: string
  original_impact :: real
  current_impact :: real
  age_when_occurred :: int
  description :: string
  related_npcs :: "string list"
  healing_activities :: "(string \<times> real) list"
  timestamp :: string

definition TraumaMemory_post_init :: "TraumaMemory \<Rightarrow> py_error + TraumaMemory" where
  "TraumaMemory_post_init m =
     (if original_impact m < 0 then Inl ValueError
      else if current_impact m < 0 then Inl ValueError
      else if current_impact m > original_impact m then Inl ValueError
      else if age_when_occurred m < 0 then Inl ValueError
      else Inr m)"

definition scar_threshold :: "TraumaMemory \<Rightarrow> real" where
  "scar_threshold m =
     (if original_impact m \<le> 0.5 then 0.0
      else if original_impact m \<le> 1.0 then original_impact m * 0.1
      else original_impact m * 0.3)"

definition is_fully_healed :: "TraumaMemory \<Rightarrow> bool" where
  "is_fully_healed m = (current_impact m \<le> scar_threshold m)"

definition apply_healing ::
  "real \<Rightarrow> string \<Rightarrow> TraumaMemory \<Rightarrow> (py_error + unit) \<times> TraumaMemory" where
  "apply_healing healing_amount healing_source m =
     (if healing_amount < 0 then (Inl ValueError, m)
      else
        let old_impact = current_impact m;
            m1 = m\<lparr>current_impact := max (scar_threshold m) (current_impact m - healing_amount)\<rparr>;
            actual_healing = old_impact - current_impact m1
        in if actual_healing > 0
           then (Inr (),
                 m1\<lparr>healing_activities :=
                      healing_activities m1 @ [(healing_source, actual_healing)]\<rparr>)
           else (Inr (), m1))"

subsection \<open>TraumaState\<close>

record TraumaState =
  memories :: "TraumaMemory list"
  healing_progress :: "(string \<times> real) list"
  last_healing_activity :: "string option"
  natural_healing_rate :: real

definition TraumaState_default :: TraumaState where
  "TraumaState_default =
     \<lparr>memories = [], healing_progress = [], last_healing_activity = None,
      natural_healing_rate = 0.001\<rparr>"

definition add_trauma ::
  "string \<Rightarrow> real \<Rightarrow> int \<Rightarrow> string \<Rightarrow> string list option \<Rightarrow> string \<Rightarrow> TraumaState
     \<Rightarrow> (py_error + TraumaMemory) \<times> TraumaState" where
  "add_trauma ev impact age_now descr related now s =
     (if impact < 0 then (Inl ValueError, s)
      else if age_now < 0 then (Inl ValueError, s)
      else
        case TraumaMemory_post_init
               \<lparr>event_type = ev, original_impact = impact, current_impact = impact,
                age_when_occurred = age_now, description = descr,
                related_npcs = (case related of None \<Rightarrow> [] | Some [] \<Rightarrow> [] | Some r \<Rightarrow> r),
                healing_activities = [], timestamp = now\<rparr> of
          Inl e \<Rightarrow> (Inl e, s)
        | Inr memory \<Rightarrow> (Inr memory, s\<lparr>memories := memories s @ [memory]\<rparr>))"

text \<open>
  \<^verbatim>\<open>for memory in self.memories: ...\<close> with a body that mutates the memory and may
  raise: the memories before the raising one keep their new values, the raising
  one is as its call left it, the rest are untouched.
\<close>

fun for_each_memory ::
  "(TraumaMemory \<Rightarrow> (py_error + unit) \<times> TraumaMemory) \<Rightarrow> TraumaMemory list
     \<Rightarrow> (py_error + unit) \<times> TraumaMemory list" where
  "for_each_memory body [] = (Inr (), [])"
| "for_each_memory body (m # ms) =
     (case body m of
        (Inl e, m') \<Rightarrow> (Inl e, m' # ms)
      | (Inr u, m') \<Rightarrow> (case for_each_memory body ms of (r, ms') \<Rightarrow> (r, m' # ms')))"

text \<open>
  \<^verbatim>\<open>float * int\<close> converts the int to a float first and raises OverflowError when
  the int is too large for a double, that is when it rounds to \<open>2 ^ 1024\<close> or
  beyond. This is the one place of the model where a float meets an int of
  unbounded size.
\<close>

definition int_too_large_for_float :: "int \<Rightarrow> bool" where
  "int_too_large_for_float k = (\<bar>k\<bar> \<ge> 2 ^ 1024 - 2 ^ 970)"

definition apply_daily_healing ::
  "PersonalityTraits \<Rightarrow> int \<Rightarrow> TraumaState \<Rightarrow> (py_error + unit) \<times> TraumaState" where
  "apply_daily_healing personality_traits days_passed s =
     (let healing_multiplier =
            forgiveness personality_traits * 0.5 +
            (1.0 - impulsiveness personality_traits) * 0.3 +
            analytical personality_traits * 0.2 +
            (1.0 - laziness personality_traits) * 0.2
      in if int_too_large_for_float days_passed then (Inl OverflowError, s)
         else
           let daily_healing = natural_healing_rate s * healing_multiplier * of_int days_passed
           in case for_each_memory
                     (\<lambda>memory. if \<not> is_fully_healed memory
                                then apply_healing daily_healing ''natural_healing'' memory
                                else (Inr (), memory))
                     (memories s) of
                (r, ms) \<Rightarrow> (r, s\<lparr>memories := ms\<rparr>))"

definition activity_effectiveness :: "(string \<times> string list \<times> real) list" where
  "activity_effectiveness =
     [(''prayer'', [''guilt'', ''loss_of_purpose'', ''moral_failure''], 0.8),
      (''meditation'', [''anxiety'', ''leadership_failure'', ''social_rejection''], 0.9),
      (''socializing'', [''social_rejection'', ''isolation'', ''betrayal''], 0.7),
      (''helping_others'', [''guilt'', ''selfishness'', ''leadership_failure''], 0.8),
      (''crafting'', [''depression'', ''purposelessness'', ''resource_loss''], 0.6),
      (''storytelling'', [''all''], 1.0),
      (''physical_exercise'', [''anxiety'', ''depression'', ''violence''], 0.7)]"

definition activity_config :: "string \<Rightarrow> string list \<times> real" where
  "activity_config activity =
     (case map_of activity_effectiveness activity of
        Some c \<Rightarrow> c
      | None \<Rightarrow> ([], 0.5))"

definition activity_effect ::
  "string \<Rightarrow> PersonalityTraits option \<Rightarrow> TraumaMemory \<Rightarrow> real" where
  "activity_effect activity personality_traits memory =
     (let effective_types = fst (activity_config activity);
          base_effectiveness = snd (activity_config activity);
          effectiveness =
            (if ''all'' \<in> set effective_types \<or> event_type memory \<in> set effective_types
             then base_effectiveness * 1.5
             else base_effectiveness * 0.5)
      in case personality_traits of
           None \<Rightarrow> effectiveness
         | Some p \<Rightarrow>
             if activity = ''socializing'' \<and> sociability p > 0.7 then effectiveness * 1.3
             else if activity = ''meditation'' \<and> analytical p > 0.7 then effectiveness * 1.2
             else if activity = ''helping_others'' \<and> forgiveness p > 0.7 then effectiveness * 1.2
             else effectiveness)"

definition apply_activity_healing ::
  "string \<Rightarrow> real \<Rightarrow> PersonalityTraits option \<Rightarrow> TraumaState
     \<Rightarrow> (py_error + unit) \<times> TraumaState" where
  "apply_activity_healing activity healing_amount personality_traits s =
     (if healing_amount < 0 then (Inl ValueError, s)
      else
        let s1 = s\<lparr>last_healing_activity := Some activity\<rparr>
        in case for_each_memory
                  (\<lambda>memory.
                     if \<not> is_fully_healed memory
                     then apply_healing
                            (healing_amount * activity_effect activity personality_traits memory)
                            (''activity_'' @ activity) memory
                     else (Inr (), memory))
                  (memories s1) of
             (r, ms) \<Rightarrow> (r, s1\<lparr>memories := ms\<rparr>))"

definition counter_mappings :: "(string \<times> string list) list" where
  "counter_mappings =
     [(''betrayal'', [''trust_restoration'', ''loyalty_demonstrated'']),
      (''leadership_failure'', [''leadership_success'', ''recognition'']),
      (''social_rejection'', [''social_acceptance'', ''friendship_formed'']),
      (''resource_loss'', [''resource_security'', ''abundance_experienced'']),
      (''violence'', [''safety_provided'', ''protection_received'']),
      (''abandonment'', [''loyalty_shown'', ''commitment_demonstrated''])]"

text \<open>
  The outer loop of \<^verbatim>\<open>apply_counter_experience_healing\<close> over the mapping; the
  inner loop runs over \<^verbatim>\<open>get_trauma_memories_by_type\<close>, a list of references
  into \<open>memories\<close>, so it is a pass over \<open>memories\<close> that skips the other types.
\<close>

fun counter_loop ::
  "(string \<times> string list) list \<Rightarrow> string \<Rightarrow> real \<Rightarrow> TraumaMemory list
     \<Rightarrow> (py_error + unit) \<times> TraumaMemory list" where
  "counter_loop [] counter_event_type positive_impact ms = (Inr (), ms)"
| "counter_loop ((trauma_type, counter_types) # rest) counter_event_type positive_impact ms =
     (if counter_event_type \<in> set counter_types
      then
        (case for_each_memory
                (\<lambda>memory.
                   if event_type memory = trauma_type \<and> \<not> is_fully_healed memory
                   then apply_healing
                          (min (positive_impact * 0.6) (current_impact memory * 0.8))
                          (''counter_experience_'' @ counter_event_type) memory
                   else (Inr (), memory))
                ms of
           (Inl e, ms') \<Rightarrow> (Inl e, ms')
         | (Inr u, ms') \<Rightarrow> counter_loop rest counter_event_type positive_impact ms')
      else counter_loop rest counter_event_type positive_impact ms)"

definition apply_counter_experience_healing ::
  "string \<Rightarrow> real \<Rightarrow> string \<Rightarrow> TraumaState \<Rightarrow> (py_error + unit) \<times> TraumaState" where
  "apply_counter_experience_healing counter_event_type positive_impact descr s =
     (if positive_impact < 0 then (Inl ValueError, s)
      else case counter_loop counter_mappings counter_event_type positive_impact (memories s) of
             (r, ms) \<Rightarrow> (r, s\<lparr>memories := ms\<rparr>))"

subsection \<open>Sequences of healing calls\<close>

text \<open>
  One healing call on a ledger: \<^verbatim>\<open>memories[i].apply_healing(amount, source)\<close>
  (an index out of range raises), or one of the three ledger-level healers.
  \<open>run_healing\<close> makes the calls in order; a caller may catch a raise and go
  on, so every call sees the state the previous one left.
\<close>

datatype healing_call =
    Apply_Healing nat real string
  | Daily_Healing PersonalityTraits int
  | Activity_Healing string real "PersonalityTraits option"
  | Counter_Healing string real string

fun healing_step :: "healing_call \<Rightarrow> TraumaState \<Rightarrow> (py_error + unit) \<times> TraumaState" where
  "healing_step (Apply_Healing i amount src) s =
     (if i < length (memories s)
      then (case apply_healing amount src (memories s ! i) of
              (r, m') \<Rightarrow> (r, s\<lparr>memories := (memories s)[i := m']\<rparr>))
      else (Inl IndexError, s))"
| "healing_step (Daily_Healing p days) s = apply_daily_healing p days s"
| "healing_step (Activity_Healing activity amount p) s = apply_activity_healing activity amount p s"
| "healing_step (Counter_Healing ev impact descr) s =
     apply_counter_experience_healing ev impact descr s"

fun run_healing :: "healing_call list \<Rightarrow> TraumaState \<Rightarrow> TraumaState" where
  "run_healing [] s = s"
| "run_healing (c # cs) s = run_healing cs (snd (healing_step c s))"

subsection \<open>Predicates and instances for the healing claims\<close>

text \<open>
  \<open>healing_outcome m m'\<close>: what any healing leaves of a memory \<open>m\<close>, whatever
  \<open>m\<close> is: the original impact is the same and the current impact lies between
  the smaller and the larger of the scar threshold and the impact it had.
  \<open>within_scar_bounds\<close>: the memory sits between its scar threshold and its
  original impact. \<open>healed_from m m'\<close>: \<open>m'\<close> has the original impact of \<open>m\<close>, an
  impact no higher than that of \<open>m\<close>, and is within the bounds.
\<close>

definition healing_outcome :: "TraumaMemory \<Rightarrow> TraumaMemory \<Rightarrow> bool" where
  "healing_outcome m m' =
     (original_impact m' = original_impact m \<and>
      min (scar_threshold m) (current_impact m) \<le> current_impact m' \<and>
      current_impact m' \<le> max (scar_threshold m) (current_impact m))"

definition within_scar_bounds :: "TraumaMemory \<Rightarrow> bool" where
  "within_scar_bounds m =
     (scar_threshold m \<le> current_impact m \<and> current_impact m \<le> original_impact m)"

definition healed_from :: "TraumaMemory \<Rightarrow> TraumaMemory \<Rightarrow> bool" where
  "healed_from m m' =
     (original_impact m' = original_impact m \<and>
      scar_threshold m' \<le> current_impact m' \<and>
      current_impact m' \<le> original_impact m' \<and>
      current_impact m' \<le> current_impact m)"

text \<open>Repeated \<^verbatim>\<open>memory.apply_healing(amount, source)\<close>, one call per amount.\<close>

fun apply_healings :: "real list \<Rightarrow> string \<Rightarrow> TraumaMemory \<Rightarrow> TraumaMemory" where
  "apply_healings [] src m = m"
| "apply_healings (a # as) src m = apply_healings as src (snd (apply_healing a src m))"

text \<open>
  \<^verbatim>\<open>TraumaMemory('violence', 2.0, 0.1, 20, 'old wound')\<close>: accepted by
  \<^verbatim>\<open>__post_init__\<close>, with a current impact under the scar threshold 0.6.
\<close>

definition old_wound :: TraumaMemory where
  "old_wound =
     \<lparr>event_type = ''violence'', original_impact = 2.0, current_impact = 0.1,
      age_when_occurred = 20, description = ''old wound'', related_npcs = [],
      healing_activities = [], timestamp = ''2024-01-01T00:00:00''\<rparr>"

text \<open>
  \<^verbatim>\<open>TraumaMemory('betrayal', 0.8, 0.8, 25, 'Betrayed by close ally')\<close>, the memory of
  the first test of \<^verbatim>\<open>test_trauma.py\<close>.
\<close>

definition betrayal_memory :: TraumaMemory where
  "betrayal_memory =
     \<lparr>event_type = ''betrayal'', original_impact = 0.8, current_impact = 0.8,
      age_when_occurred = 25, description = ''Betrayed by close ally'', related_npcs = [],
      healing_activities = [], timestamp = ''2024-01-01T00:00:00''\<rparr>"

definition betrayal_ledger :: TraumaState where
  "betrayal_ledger = TraumaState_default\<lparr>memories := [betrayal_memory]\<rparr>"

text \<open>A ledger that holds both: the old wound below its threshold, then the betrayal.\<close>

definition mixed_ledger :: TraumaState where
  "mixed_ledger = TraumaState_default\<lparr>memories := [old_wound, betrayal_memory]\<rparr>"

text \<open>One call of each kind, the first on the old wound, the second on the betrayal.\<close>

definition mixed_calls :: "healing_call list" where
  "mixed_calls =
     [Apply_Healing 0 0.0 ''rest'',
      Apply_Healing 1 0.2 ''therapy_session'',
      Daily_Healing PersonalityTraits_default 30,
      Activity_Healing ''socializing'' 0.1 None,
      Counter_Healing ''trust_restoration'' 0.5 ''Ally proved trustworthy'']"

section \<open>personality.py: access to a trait by name\<close>

text \<open>
  \<^verbatim>\<open>hasattr(self, name)\<close> holds for every attribute of the instance: the eight
  fields, whatever \<^verbatim>\<open>setattr\<close> has stored, the methods the class body declares, and
  the attributes every instance of a dataclass has through \<^verbatim>\<open>object\<close> and the
  decorator (\<open>object_attributes\<close>, the names present in every Python version that
  has dataclasses; a name that only later versions add, such as
  \<^verbatim>\<open>__match_args__\<close>, is left out).

  \<^verbatim>\<open>setattr(self, name, value)\<close> with a float stores the value in the instance
  dictionary, except for three of the inherited names: \<^verbatim>\<open>__class__\<close> and
  \<^verbatim>\<open>__dict__\<close> refuse a float with TypeError, and \<^verbatim>\<open>__weakref__\<close> is read-only
  (AttributeError).
\<close>

definition object_attributes :: "string list" where
  "object_attributes =
     [''__class__'', ''__dataclass_fields__'', ''__dataclass_params__'', ''__delattr__'',
      ''__dict__'', ''__dir__'', ''__doc__'', ''__eq__'', ''__format__'', ''__ge__'',
      ''__getattribute__'', ''__gt__'', ''__hash__'', ''__init__'', ''__init_subclass__'',
      ''__le__'', ''__lt__'', ''__module__'', ''__ne__'', ''__new__'', ''__reduce__'',
      ''__reduce_ex__'', ''__repr__'', ''__setattr__'', ''__sizeof__'', ''__str__'',
      ''__subclasshook__'', ''__weakref__'']"

definition trait_names :: "string list" where
  "trait_names =
     [''greed'', ''sociability'', ''laziness'', ''ambition'',
      ''forgiveness'', ''courage'', ''analytical'', ''impulsiveness'']"

definition PersonalityTraits_methods :: "string list" where
  "PersonalityTraits_methods =
     [''__post_init__'', ''generate_random'', ''from_archetype'', ''get_trait'', ''set_trait'',
      ''get_dominant_traits'', ''get_weak_traits'', ''get_personality_summary'',
      ''to_dict'', ''from_dict'', ''to_json'', ''from_json'']"

definition PersonalityTraits_hasattr :: "PersonalityTraits \<Rightarrow> string \<Rightarrow> bool" where
  "PersonalityTraits_hasattr p n =
     (n \<in> set trait_names \<or> n \<in> set PersonalityTraits_methods \<or>
      n \<in> set object_attributes \<or> n \<in> set (map fst (instance_attrs p)))"

definition PersonalityTraits_setattr ::
  "string \<Rightarrow> real \<Rightarrow> PersonalityTraits \<Rightarrow> PersonalityTraits" where
  "PersonalityTraits_setattr n v p =
     (if n = ''greed'' then p\<lparr>greed := v\<rparr>
      else if n = ''sociability'' then p\<lparr>sociability := v\<rparr>
      else if n = ''laziness'' then p\<lparr>laziness := v\<rparr>
      else if n = ''ambition'' then p\<lparr>ambition := v\<rparr>
      else if n = ''forgiveness'' then p\<lparr>forgiveness := v\<rparr>
      else if n = ''courage'' then p\<lparr>courage := v\<rparr>
      else if n = ''analytical'' then p\<lparr>analytical := v\<rparr>
      else if n = ''impulsiveness'' then p\<lparr>impulsiveness := v\<rparr>
      else p\<lparr>instance_attrs := AList.update n v (instance_attrs p)\<rparr>)"

definition set_trait ::
  "string \<Rightarrow> real \<Rightarrow> PersonalityTraits \<Rightarrow> (py_error + unit) \<times> PersonalityTraits" where
  "set_trait trait_name v p =
     (if \<not> PersonalityTraits_hasattr p trait_name then (Inl ValueError, p)
      else if \<not> (0.0 \<le> v \<and> v \<le> 1.0) then (Inl ValueError, p)
      else if trait_name = ''__class__'' \<or> trait_name = ''__dict__'' then (Inl TypeError, p)
      else if trait_name = ''__weakref__'' then (Inl AttributeError, p)
      else (Inr (), PersonalityTraits_setattr trait_name v p))"

section \<open>experience.py\<close>

text \<open>An entry of \<open>experience_history\<close>, with the keys of the source's dict.\<close>

record experience_event =
  category :: string
  amount_attempted :: real
  amount_gained :: real
  source :: string
  success :: bool
  old_level :: real
  new_level :: real

record ExperienceLevels =
  leadership :: real
  negotiation :: real
  resource_management :: real
  crafting :: real
  social_manipulation :: real
  survival :: real
  combat :: real
  experience_history :: "experience_event list"

definition get_experience_dict :: "ExperienceLevels \<Rightarrow> (string \<times> real) list" where
  "get_experience_dict e =
     [(''leadership'', leadership e),
      (''negotiation'', negotiation e),
      (''resource_management'', resource_management e),
      (''crafting'', crafting e),
      (''social_manipulation'', social_manipulation e),
      (''survival'', survival e),
      (''combat'', combat e)]"

definition ExperienceLevels_post_init :: "ExperienceLevels \<Rightarrow> py_error + ExperienceLevels" where
  "ExperienceLevels_post_init e =
     (if list_all in_unit_range (map snd (get_experience_dict e)) then Inr e else Inl ValueError)"

definition ExperienceLevels_default :: ExperienceLevels where
  "ExperienceLevels_default =
     \<lparr>leadership = 0.0, negotiation = 0.0, resource_management = 0.0, crafting = 0.0,
      social_manipulation = 0.0, survival = 0.0, combat = 0.0, experience_history = []\<rparr>"

text \<open>\<^verbatim>\<open>setattr(self, category, new_level)\<close>, reached only for a category of the dict.\<close>

definition ExperienceLevels_setattr ::
  "string \<Rightarrow> real \<Rightarrow> ExperienceLevels \<Rightarrow> ExperienceLevels" where
  "ExperienceLevels_setattr n v e =
     (if n = ''leadership'' then e\<lparr>leadership := v\<rparr>
      else if n = ''negotiation'' then e\<lparr>negotiation := v\<rparr>
      else if n = ''resource_management'' then e\<lparr>resource_management := v\<rparr>
      else if n = ''crafting'' then e\<lparr>crafting := v\<rparr>
      else if n = ''social_manipulation'' then e\<lparr>social_manipulation := v\<rparr>
      else if n = ''survival'' then e\<lparr>survival := v\<rparr>
      else if n = ''combat'' then e\<lparr>combat := v\<rparr>
      else e)"

definition gain_experience ::
  "string \<Rightarrow> real \<Rightarrow> string \<Rightarrow> bool \<Rightarrow> ExperienceLevels
     \<Rightarrow> (py_error + bool) \<times> ExperienceLevels" where
  "gain_experience cat amount src ok e =
     (case map_of (get_experience_dict e) cat of
        None \<Rightarrow> (Inl ValueError, e)
      | Some old \<Rightarrow>
          if amount < 0 then (Inl ValueError, e)
          else
            let diminishing_factor = 1.0 - (old * 0.3);
                actual_gain = amount * diminishing_factor;
                new = min 1.0 (old + actual_gain);
                e1 = ExperienceLevels_setattr cat new e;
                e2 = e1\<lparr>experience_history := experience_history e1 @
                       [\<lparr>category = cat, amount_attempted = amount,
                         amount_gained = new - old, source = src, success = ok,
                         old_level = old, new_level = new\<rparr>]\<rparr>;
                significant_threshold = 0.05
            in (Inr (new - old \<ge> significant_threshold), e2))"

text \<open>The same \<^verbatim>\<open>gain_experience\<close> call made \<open>n\<close> times in a row.\<close>

fun gain_repeatedly ::
  "nat \<Rightarrow> string \<Rightarrow> real \<Rightarrow> string \<Rightarrow> bool \<Rightarrow> ExperienceLevels \<Rightarrow> ExperienceLevels" where
  "gain_repeatedly 0 cat amount src ok e = e"
| "gain_repeatedly (Suc n) cat amount src ok e =
     gain_repeatedly n cat amount src ok (snd (gain_experience cat amount src ok e))"

text \<open>The amounts the calls made since \<open>e\<close> have realized, oldest first.\<close>

definition gains_since :: "ExperienceLevels \<Rightarrow> ExperienceLevels \<Rightarrow> real list" where
  "gains_since e e' =
     map amount_gained (drop (length (experience_history e)) (experience_history e'))"

text \<open>The keys of \<^verbatim>\<open>_get_experience_dict()\<close>: the valid categories.\<close>

definition experience_categories :: "string list" where
  "experience_categories =
     [''leadership'', ''negotiation'', ''resource_management'', ''crafting'',
      ''social_manipulation'', ''survival'', ''combat'']"

text \<open>
  The realized gains of \<open>n\<close> calls with amount \<open>a\<close> from level \<open>l\<close>, as a function
  of the level alone (used to describe the history the calls write).
\<close>

fun realized_gains :: "nat \<Rightarrow> real \<Rightarrow> real \<Rightarrow> real list" where
  "realized_gains 0 a l = []"
| "realized_gains (Suc n) a l =
     (min 1 (l + a * (1 - l * 0.3)) - l) # realized_gains n a (min 1 (l + a * (1 - l * 0.3)))"

section \<open>Binary64 arithmetic\<close>

text \<open>
  A Python \<^verbatim>\<open>float\<close> is an IEEE 754 binary64 number, and an arithmetic operation
  on floats gives the exact result rounded to the nearest binary64 number, a tie
  going to the even significand. \<open>binary64 x\<close> is that rounding of the real \<open>x\<close>:
  \<open>x\<close> is rounded to a multiple of \<open>2 ^ e\<close>, where \<open>e\<close> is the exponent of the last
  bit of a 53-bit significand, and \<open>- 1074\<close> in the subnormal range. Overflow is
  not modelled: \<open>binary64\<close> is the rounding of a real of magnitude below
  \<open>2 ^ 1024 - 2 ^ 970\<close>; no operation of \<^verbatim>\<open>gain_experience\<close> on a level in [0, 1]
  and a finite amount reaches that. Infinite and NaN amounts are outside the
  model.

  \<open>pow2 e\<close> is \<open>2 ^ e\<close> for an integer \<open>e\<close>; \<open>floor_log2 x\<close> is the integer part of
  the binary logarithm of \<open>x > 0\<close>, computed from the bit length of an integer.
\<close>

definition pow2 :: "int \<Rightarrow> real" where
  "pow2 e = (if 0 \<le> e then 2 ^ nat e else 1 / 2 ^ nat (- e))"

definition floor_log2 :: "real \<Rightarrow> int" where
  "floor_log2 x = (if 1 \<le> x then bitlen \<lfloor>x\<rfloor> - 1 else - bitlen (\<lceil>1 / x\<rceil> - 1))"

definition round_half_even :: "real \<Rightarrow> int" where
  "round_half_even y =
     (let f = \<lfloor>y\<rfloor>; r = y - of_int f
      in if r < 1 / 2 then f else if 1 / 2 < r then f + 1 else if even f then f else f + 1)"

definition ulp_exponent :: "real \<Rightarrow> int" where
  "ulp_exponent x = max (floor_log2 \<bar>x\<bar> - 52) (- 1074)"

definition binary64 :: "real \<Rightarrow> real" where
  "binary64 x =
     (if x = 0 then 0
      else of_int (round_half_even (x / pow2 (ulp_exponent x))) * pow2 (ulp_exponent x))"

subsection \<open>gain_experience on floats\<close>

text \<open>
  \<^verbatim>\<open>gain_experience\<close> with the rounding of each operation: the literal \<^verbatim>\<open>0.3\<close> is
  the binary64 number nearest to 3/10, and the product, the difference, the
  second product and the sum are each rounded; \<^verbatim>\<open>min\<close> and the comparisons are
  exact. The three local variables of the method are functions of the amount
  and of the old level.
\<close>

definition diminishing_factor_binary64 :: "real \<Rightarrow> real" where
  "diminishing_factor_binary64 old = binary64 (1.0 - binary64 (old * binary64 0.3))"

definition actual_gain_binary64 :: "real \<Rightarrow> real \<Rightarrow> real" where
  "actual_gain_binary64 amount old = binary64 (amount * diminishing_factor_binary64 old)"

definition new_level_binary64 :: "real \<Rightarrow> real \<Rightarrow> real" where
  "new_level_binary64 amount old = min 1.0 (binary64 (old + actual_gain_binary64 amount old))"

definition gain_experience_binary64 ::
  "string \<Rightarrow> real \<Rightarrow> string \<Rightarrow> bool \<Rightarrow> ExperienceLevels
     \<Rightarrow> (py_error + bool) \<times> ExperienceLevels" where
  "gain_experience_binary64 cat amount src ok e =
     (case map_of (get_experience_dict e) cat of
        None \<Rightarrow> (Inl ValueError, e)
      | Some old \<Rightarrow>
          if amount < 0 then (Inl ValueError, e)
          else
            let new = new_level_binary64 amount old;
                e1 = ExperienceLevels_setattr cat new e;
                e2 = e1\<lparr>experience_history := experience_history e1 @
                       [\<lparr>category = cat, amount_attempted = amount,
                         amount_gained = binary64 (new - old), source = src, success = ok,
                         old_level = old, new_level = new\<rparr>]\<rparr>;
                significant_threshold = binary64 0.05
            in (Inr (binary64 (new - old) \<ge> significant_threshold), e2))"

text \<open>The same call made \<open>n\<close> times in a row, and the history entries it appends.\<close>

fun gain_repeatedly_binary64 ::
  "nat \<Rightarrow> string \<Rightarrow> real \<Rightarrow> string \<Rightarrow> bool \<Rightarrow> ExperienceLevels \<Rightarrow> ExperienceLevels" where
  "gain_repeatedly_binary64 0 cat amount src ok e = e"
| "gain_repeatedly_binary64 (Suc n) cat amount src ok e =
     gain_repeatedly_binary64 n cat amount src ok
       (snd (gain_experience_binary64 cat amount src ok e))"

definition entries_since :: "ExperienceLevels \<Rightarrow> ExperienceLevels \<Rightarrow> experience_event list" where
  "entries_since e e' = drop (length (experience_history e)) (experience_history e')"

text \<open>
  The entries that \<open>n\<close> calls append, as a function of the level before the
  first call (used to describe the history the calls write).
\<close>

fun gain_entries ::
  "nat \<Rightarrow> string \<Rightarrow> real \<Rightarrow> string \<Rightarrow> bool \<Rightarrow> real \<Rightarrow> experience_event list" where
  "gain_entries 0 cat amount src ok old = []"
| "gain_entries (Suc n) cat amount src ok old =
     \<lparr>category = cat, amount_attempted = amount,
      amount_gained = binary64 (new_level_binary64 amount old - old), source = src,
      success = ok, old_level = old, new_level = new_level_binary64 amount old\<rparr> #
     gain_entries n cat amount src ok (new_level_binary64 amount old)"

text \<open>Every level of the tracker is a binary64 number.\<close>

definition binary64_levels :: "ExperienceLevels \<Rightarrow> bool" where
  "binary64_levels e = list_all (\<lambda>v. binary64 v = v) (map snd (get_experience_dict e))"

text \<open>
  A tracker whose leadership is the largest float below 0.125
  (\<^verbatim>\<open>0.12499999999999999\<close>, that is \<open>1 / 8 - 1 / 2 ^ 56\<close>).
\<close>

definition low_level :: ExperienceLevels where
  "low_level = ExperienceLevels_default\<lparr>leadership := 1 / 8 - 1 / 2 ^ 56\<rparr>"
section \<open>relationships.py\<close>

subsection \<open>RelationshipDimensions\<close>

text \<open>
  An entry of \<open>relationship_history\<close>, with the keys of the source's dict (its
  key \<^verbatim>\<open>'timestamp'\<close> is the field \<open>change_timestamp\<close> here).
\<close>

record relationship_change =
  dimension :: string
  old_value :: real
  new_value :: real
  change :: real
  reason :: string
  change_timestamp :: string

record RelationshipDimensions =
  trust :: real
  respect :: real
  affection :: real
  dependency :: real
  fear :: real
  relationship_history :: "relationship_change list"

definition RelationshipDimensions_post_init ::
  "RelationshipDimensions \<Rightarrow> py_error + RelationshipDimensions" where
  "RelationshipDimensions_post_init r =
     (if list_all in_unit_range [trust r, respect r, affection r, dependency r, fear r]
      then Inr r else Inl ValueError)"

definition RelationshipDimensions_default :: RelationshipDimensions where
  "RelationshipDimensions_default =
     \<lparr>trust = 0.5, respect = 0.5, affection = 0.5, dependency = 0.0, fear = 0.0,
      relationship_history = []\<rparr>"

definition get_overall_sentiment :: "RelationshipDimensions \<Rightarrow> real" where
  "get_overall_sentiment r =
     (let positive = (trust r + respect r + affection r) / 3.0;
          negative = fear r;
          sentiment = (positive * 2 - 1.0) - negative
      in max (- 1.0) (min 1.0 sentiment))"

definition get_closeness :: "RelationshipDimensions \<Rightarrow> real" where
  "get_closeness r =
     (let base_closeness = (affection r + trust r + dependency r) / 3.0;
          fear_penalty = fear r * 0.5
      in max 0.0 (base_closeness - fear_penalty))"

definition get_influence_potential :: "RelationshipDimensions \<Rightarrow> real" where
  "get_influence_potential r =
     (let positive_influence = (respect r + trust r) / 2.0;
          fear_influence = fear r * 0.8
      in max positive_influence fear_influence)"

definition get_relationship_type :: "RelationshipDimensions \<Rightarrow> string" where
  "get_relationship_type r =
     (let sentiment = get_overall_sentiment r;
          closeness = get_closeness r
      in if fear r > 0.7 then (if sentiment < - 0.3 then ''feared enemy'' else ''feared authority'')
         else if sentiment > 0.6 \<and> closeness > 0.7
              then (if affection r > 0.8 then ''close friend'' else ''trusted ally'')
         else if sentiment > 0.3 \<and> closeness > 0.5 then ''friend''
         else if sentiment > 0.0 then ''acquaintance''
         else if sentiment > - 0.3 then ''neutral''
         else if sentiment > - 0.6 then ''disliked''
         else ''enemy'')"

text \<open>
  \<^verbatim>\<open>update_dimension\<close> tests \<^verbatim>\<open>hasattr(self, dimension)\<close>: the attributes of the
  instance are its six fields and the attributes of the class: the methods the
  class body declares and those every dataclass instance has through \<^verbatim>\<open>object\<close>
  and the decorator (\<open>object_attributes\<close>). \<^verbatim>\<open>getattr\<close> gives a number for the
  five dimensions only: for another attribute (a list, a bound method, a class,
  a text) the sum \<^verbatim>\<open>current_value + adjusted_change\<close> raises TypeError. The change
  is a \<open>real\<close> here, so the \<^verbatim>\<open>isinstance\<close> test on it always passes.
\<close>

definition dimension_names :: "string list" where
  "dimension_names = [''trust'', ''respect'', ''affection'', ''dependency'', ''fear'']"

definition RelationshipDimensions_attributes :: "string list" where
  "RelationshipDimensions_attributes =
     dimension_names @
     [''relationship_history'', ''__post_init__'', ''get_overall_sentiment'', ''get_closeness'',
      ''get_influence_potential'', ''get_relationship_type'', ''update_dimension'',
      ''apply_relationship_event'', ''get_recent_changes'', ''to_dict'', ''from_dict''] @
     object_attributes"

definition RelationshipDimensions_getattr :: "string \<Rightarrow> RelationshipDimensions \<Rightarrow> real option" where
  "RelationshipDimensions_getattr n r =
     map_of [(''trust'', trust r), (''respect'', respect r), (''affection'', affection r),
             (''dependency'', dependency r), (''fear'', fear r)] n"

definition RelationshipDimensions_setattr ::
  "string \<Rightarrow> real \<Rightarrow> RelationshipDimensions \<Rightarrow> RelationshipDimensions" where
  "RelationshipDimensions_setattr n v r =
     (if n = ''trust'' then r\<lparr>trust := v\<rparr>
      else if n = ''respect'' then r\<lparr>respect := v\<rparr>
      else if n = ''affection'' then r\<lparr>affection := v\<rparr>
      else if n = ''dependency'' then r\<lparr>dependency := v\<rparr>
      else if n = ''fear'' then r\<lparr>fear := v\<rparr>
      else r)"

definition update_dimension ::
  "string \<Rightarrow> real \<Rightarrow> string \<Rightarrow> bool \<Rightarrow> string \<Rightarrow> RelationshipDimensions
     \<Rightarrow> (py_error + unit) \<times> RelationshipDimensions" where
  "update_dimension dim_name delta why closeness_multiplier now r =
     (if dim_name \<notin> set RelationshipDimensions_attributes then (Inl ValueError, r)
      else
        case RelationshipDimensions_getattr dim_name r of
          None \<Rightarrow> (Inl TypeError, r)
        | Some current_value \<Rightarrow>
            let adjusted_change =
                  (if closeness_multiplier
                   then delta * (1.0 + get_closeness r)
                   else delta);
                new = max 0.0 (min 1.0 (current_value + adjusted_change));
                old = current_value;
                r1 = RelationshipDimensions_setattr dim_name new r
            in (Inr (),
                r1\<lparr>relationship_history := relationship_history r1 @
                     [\<lparr>dimension = dim_name, old_value = old, new_value = new,
                       change = adjusted_change, reason = why,
                       change_timestamp = now\<rparr>]\<rparr>))"

definition relationship_events :: "(string \<times> (string \<times> real) list) list" where
  "relationship_events =
     [(''helped_in_crisis'',
         [(''trust'', 0.15), (''respect'', 0.1), (''affection'', 0.1), (''dependency'', 0.05)]),
      (''betrayed_trust'',
         [(''trust'', - 0.4), (''respect'', - 0.2), (''affection'', - 0.3), (''fear'', 0.1)]),
      (''shared_resources'',
         [(''trust'', 0.08), (''affection'', 0.06), (''dependency'', 0.03)]),
      (''competed_for_leadership'',
         [(''respect'', 0.05), (''fear'', 0.03), (''trust'', - 0.05)]),
      (''saved_from_danger'',
         [(''trust'', 0.25), (''respect'', 0.2), (''affection'', 0.2), (''dependency'', 0.15)]),
      (''public_humiliation'',
         [(''respect'', - 0.3), (''affection'', - 0.2), (''fear'', 0.1)]),
      (''kept_secret'',
         [(''trust'', 0.2), (''affection'', 0.1)]),
      (''broke_promise'',
         [(''trust'', - 0.25), (''respect'', - 0.1), (''affection'', - 0.15)]),
      (''showed_vulnerability'',
         [(''affection'', 0.1), (''trust'', 0.05), (''fear'', - 0.05)]),
      (''demonstrated_competence'',
         [(''respect'', 0.15), (''trust'', 0.05)])]"

text \<open>
  \<^verbatim>\<open>for dimension, base_change in changes.items(): self.update_dimension(...)\<close>.
  \<open>clock k\<close> is the \<open>k\<close>-th reading of \<^verbatim>\<open>datetime.now()\<close> within the call.
\<close>

fun apply_changes ::
  "(string \<times> real) list \<Rightarrow> real \<Rightarrow> string \<Rightarrow> (nat \<Rightarrow> string) \<Rightarrow> nat \<Rightarrow> RelationshipDimensions
     \<Rightarrow> (py_error + unit) \<times> RelationshipDimensions" where
  "apply_changes [] impact_strength why clock k r = (Inr (), r)"
| "apply_changes ((dim_name, base_change) # rest) impact_strength why clock k r =
     (case update_dimension dim_name (base_change * impact_strength) why True (clock k) r of
        (Inl e, r') \<Rightarrow> (Inl e, r')
      | (Inr u, r') \<Rightarrow> apply_changes rest impact_strength why clock (Suc k) r')"

definition apply_relationship_event ::
  "string \<Rightarrow> real \<Rightarrow> (nat \<Rightarrow> string) \<Rightarrow> RelationshipDimensions
     \<Rightarrow> (py_error + unit) \<times> RelationshipDimensions" where
  "apply_relationship_event ev impact_strength clock r =
     (case map_of relationship_events ev of
        None \<Rightarrow> (Inl ValueError, r)
      | Some changes \<Rightarrow> apply_changes changes impact_strength ev clock 0 r)"

subsection \<open>RelationshipMatrix\<close>

record RelationshipMatrix =
  relationships :: "(string \<times> RelationshipDimensions) list"

definition RelationshipMatrix_default :: RelationshipMatrix where
  "RelationshipMatrix_default = \<lparr>relationships = []\<rparr>"

definition get_relationship ::
  "string \<Rightarrow> RelationshipMatrix \<Rightarrow> RelationshipDimensions \<times> RelationshipMatrix" where
  "get_relationship target_npc_id m =
     (case map_of (relationships m) target_npc_id of
        None \<Rightarrow>
          (RelationshipDimensions_default,
           m\<lparr>relationships :=
                AList.update target_npc_id RelationshipDimensions_default (relationships m)\<rparr>)
      | Some r \<Rightarrow> (r, m))"

text \<open>
  The two methods below fetch the entry (creating it when absent) and then call
  the entry's method, which mutates the entry inside the dict.
\<close>

definition update_relationship ::
  "string \<Rightarrow> string \<Rightarrow> real \<Rightarrow> string \<Rightarrow> string \<Rightarrow> RelationshipMatrix
     \<Rightarrow> (py_error + unit) \<times> RelationshipMatrix" where
  "update_relationship target_npc_id dim_name delta why now m =
     (case get_relationship target_npc_id m of
        (relationship, m1) \<Rightarrow>
          (case update_dimension dim_name delta why True now relationship of
             (res, relationship') \<Rightarrow>
               (res, m1\<lparr>relationships :=
                          AList.update target_npc_id relationship' (relationships m1)\<rparr>)))"

definition matrix_apply_relationship_event ::
  "string \<Rightarrow> string \<Rightarrow> real \<Rightarrow> (nat \<Rightarrow> string) \<Rightarrow> RelationshipMatrix
     \<Rightarrow> (py_error + unit) \<times> RelationshipMatrix" where
  "matrix_apply_relationship_event target_npc_id ev impact_strength clock m =
     (case get_relationship target_npc_id m of
        (relationship, m1) \<Rightarrow>
          (case apply_relationship_event ev impact_strength clock relationship of
             (res, relationship') \<Rightarrow>
               (res, m1\<lparr>relationships :=
                          AList.update target_npc_id relationship' (relationships m1)\<rparr>)))"

definition calculate_social_isolation :: "RelationshipMatrix \<Rightarrow> real" where
  "calculate_social_isolation m =
     (if relationships m = [] then 1.0
      else
        let (total_closeness, positive_relationships) =
              foldl (\<lambda>(total, positive) rel.
                       (total + get_closeness rel,
                        if get_overall_sentiment rel > 0.0 then positive + 1 else positive))
                    (0.0, 0 :: int) (map snd (relationships m));
            average_closeness = total_closeness / of_nat (length (relationships m));
            positive_ratio = of_int positive_relationships / of_nat (length (relationships m));
            social_connection = (average_closeness + positive_ratio) / 2.0
        in 1.0 - social_connection)"

definition calculate_social_influence :: "RelationshipMatrix \<Rightarrow> real" where
  "calculate_social_influence m =
     (if relationships m = [] then 0.0
      else
        let total_influence = sum_list (map (\<lambda>(npc_id, rel). get_influence_potential rel)
                                (relationships m));
            average_influence = total_influence / of_nat (length (relationships m));
            relationship_bonus = min 1.0 (of_nat (length (relationships m)) / 20.0)
        in min 1.0 (average_influence * (1.0 + relationship_bonus)))"

section \<open>action_definitions.py and the experience table\<close>

datatype ActionType =
    GATHER_FOOD | GATHER_MATERIALS | CRAFT_TOOLS | BUILD_SHELTER
  | HELP_RANDOM_NPC | SHARE_RESOURCES | START_CONVERSATION | FORM_ALLIANCE
  | VOTE_ON_PROPOSAL | PROPOSE_NEW_RULE | CHALLENGE_LEADERSHIP | SUPPORT_LEADER
  | REST | PRACTICE_SKILLS | OBSERVE_OTHERS | DO_NOTHING

fun action_value :: "ActionType \<Rightarrow> string" where
  "action_value GATHER_FOOD = ''gather_food''"
| "action_value GATHER_MATERIALS = ''gather_materials''"
| "action_value CRAFT_TOOLS = ''craft_tools''"
| "action_value BUILD_SHELTER = ''build_shelter''"
| "action_value HELP_RANDOM_NPC = ''help_random_npc''"
| "action_value SHARE_RESOURCES = ''share_resources''"
| "action_value START_CONVERSATION = ''start_conversation''"
| "action_value FORM_ALLIANCE = ''form_alliance''"
| "action_value VOTE_ON_PROPOSAL = ''vote_on_proposal''"
| "action_value PROPOSE_NEW_RULE = ''propose_new_rule''"
| "action_value CHALLENGE_LEADERSHIP = ''challenge_leadership''"
| "action_value SUPPORT_LEADER = ''support_leader''"
| "action_value REST = ''rest''"
| "action_value PRACTICE_SKILLS = ''practice_skills''"
| "action_value OBSERVE_OTHERS = ''observe_others''"
| "action_value DO_NOTHING = ''do_nothing''"

text \<open>A metadata dict; its key \<^verbatim>\<open>'category'\<close> is the field \<open>action_category\<close> here.\<close>

record action_metadata =
  energy_cost :: real
  base_success_rate :: real
  action_category :: string

definition ACTION_METADATA :: "(ActionType \<times> action_metadata) list" where
  "ACTION_METADATA =
     [(GATHER_FOOD,
         \<lparr>energy_cost = 0.3, base_success_rate = 0.7, action_category = ''resource''\<rparr>),
      (GATHER_MATERIALS,
         \<lparr>energy_cost = 0.4, base_success_rate = 0.8, action_category = ''resource''\<rparr>),
      (CRAFT_TOOLS,
         \<lparr>energy_cost = 0.2, base_success_rate = 0.6, action_category = ''resource''\<rparr>),
      (BUILD_SHELTER,
         \<lparr>energy_cost = 0.5, base_success_rate = 0.5, action_category = ''resource''\<rparr>),
      (HELP_RANDOM_NPC,
         \<lparr>energy_cost = 0.2, base_success_rate = 0.8, action_category = ''social''\<rparr>),
      (SHARE_RESOURCES,
         \<lparr>energy_cost = 0.1, base_success_rate = 0.9, action_category = ''social''\<rparr>),
      (START_CONVERSATION,
         \<lparr>energy_cost = 0.1, base_success_rate = 0.7, action_category = ''social''\<rparr>),
      (FORM_ALLIANCE,
         \<lparr>energy_cost = 0.1, base_success_rate = 0.4, action_category = ''social''\<rparr>),
      (VOTE_ON_PROPOSAL,
         \<lparr>energy_cost = 0.05, base_success_rate = 0.9, action_category = ''governance''\<rparr>),
      (PROPOSE_NEW_RULE,
         \<lparr>energy_cost = 0.15, base_success_rate = 0.3, action_category = ''governance''\<rparr>),
      (CHALLENGE_LEADERSHIP,
         \<lparr>energy_cost = 0.3, base_success_rate = 0.2, action_category = ''governance''\<rparr>),
      (SUPPORT_LEADER,
         \<lparr>energy_cost = 0.1, base_success_rate = 0.8, action_category = ''governance''\<rparr>),
      (REST,
         \<lparr>energy_cost = - 0.4, base_success_rate = 0.95, action_category = ''personal''\<rparr>),
      (PRACTICE_SKILLS,
         \<lparr>energy_cost = 0.2, base_success_rate = 0.9, action_category = ''personal''\<rparr>),
      (OBSERVE_OTHERS,
         \<lparr>energy_cost = 0.05, base_success_rate = 0.8, action_category = ''personal''\<rparr>),
      (DO_NOTHING,
         \<lparr>energy_cost = 0.0, base_success_rate = 1.0, action_category = ''personal''\<rparr>)]"

definition get_action_metadata :: "ActionType \<Rightarrow> action_metadata" where
  "get_action_metadata action =
     (case map_of ACTION_METADATA action of
        Some metadata \<Rightarrow> metadata
      | None \<Rightarrow>
          \<lparr>energy_cost = 0.1, base_success_rate = 0.5, action_category = ''unknown''\<rparr>)"

definition EXPERIENCE_MAPPINGS :: "(ActionType \<times> (string \<times> real) list) list" where
  "EXPERIENCE_MAPPINGS =
     [(GATHER_FOOD, [(''survival'', 0.02), (''resource_management'', 0.015)]),
      (GATHER_MATERIALS, [(''survival'', 0.01), (''resource_management'', 0.025)]),
      (CRAFT_TOOLS, [(''crafting'', 0.03), (''resource_management'', 0.01)]),
      (BUILD_SHELTER,
         [(''crafting'', 0.025), (''survival'', 0.015), (''resource_management'', 0.01)]),
      (HELP_RANDOM_NPC,
         [(''social_manipulation'', 0.01), (''negotiation'', 0.01), (''leadership'', 0.005)]),
      (SHARE_RESOURCES,
         [(''negotiation'', 0.01), (''leadership'', 0.005), (''resource_management'', 0.005)]),
      (START_CONVERSATION, [(''social_manipulation'', 0.015), (''negotiation'', 0.01)]),
      (FORM_ALLIANCE,
         [(''negotiation'', 0.025), (''social_manipulation'', 0.015), (''leadership'', 0.015)]),
      (VOTE_ON_PROPOSAL, [(''leadership'', 0.005)]),
      (PROPOSE_NEW_RULE, [(''leadership'', 0.03), (''negotiation'', 0.015)]),
      (CHALLENGE_LEADERSHIP,
         [(''leadership'', 0.04), (''combat'', 0.01), (''social_manipulation'', 0.01)]),
      (SUPPORT_LEADER, [(''leadership'', 0.01), (''negotiation'', 0.005)]),
      (PRACTICE_SKILLS, [(''leadership'', 0.01), (''crafting'', 0.01), (''survival'', 0.01)]),
      (OBSERVE_OTHERS, [(''social_manipulation'', 0.02), (''leadership'', 0.005)])]"

text \<open>
  \<^verbatim>\<open>gain_experience_from_action\<close>: the class body defines it twice; the second
  definition, which returns the dict of significance flags, is the one in force.
\<close>

fun gain_from_mappings ::
  "(string \<times> real) list \<Rightarrow> ActionType \<Rightarrow> bool \<Rightarrow> (string \<times> bool) list \<Rightarrow> ExperienceLevels
     \<Rightarrow> (py_error + (string \<times> bool) list) \<times> ExperienceLevels" where
  "gain_from_mappings [] action ok experience_results e = (Inr experience_results, e)"
| "gain_from_mappings ((cat, base_amount) # rest) action ok experience_results e =
     (let success_multiplier = (if ok then 1.0 else 0.3);
          actual_amount = base_amount * success_multiplier
      in if actual_amount > 0
         then (case gain_experience cat actual_amount (''action_'' @ action_value action) ok e of
                 (Inl err, e') \<Rightarrow> (Inl err, e')
               | (Inr significant, e') \<Rightarrow>
                   gain_from_mappings rest action ok
                     (AList.update cat significant experience_results) e')
         else gain_from_mappings rest action ok experience_results e)"

definition gain_experience_from_action ::
  "ActionType \<Rightarrow> bool \<Rightarrow> ExperienceLevels
     \<Rightarrow> (py_error + (string \<times> bool) list) \<times> ExperienceLevels" where
  "gain_experience_from_action action ok e =
     (let action_mappings =
            (case map_of EXPERIENCE_MAPPINGS action of Some m \<Rightarrow> m | None \<Rightarrow> [])
      in gain_from_mappings action_mappings action ok [] e)"

section \<open>npc.py\<close>

text \<open>
  \<^verbatim>\<open>NPCState\<close>. Its field \<^verbatim>\<open>relationships\<close> is \<open>relationship_matrix\<close> here, the
  record \<open>RelationshipMatrix\<close> having a field \<open>relationships\<close> of its own.
\<close>

record NPCState =
  npc_id :: string
  name :: string
  age :: int
  health :: real
  hunger_level :: real
  energy_level :: real
  personality :: PersonalityTraits
  experience :: ExperienceLevels
  trauma :: TraumaState
  relationship_matrix :: RelationshipMatrix
  last_action :: "string option"
  last_action_success :: "bool option"
  days_alive :: int
  creation_timestamp :: string

definition NPCState_post_init :: "NPCState \<Rightarrow> py_error + NPCState" where
  "NPCState_post_init n =
     (if age n < 0 then Inl ValueError
      else if \<not> list_all in_unit_range [health n, hunger_level n, energy_level n]
      then Inl ValueError
      else if name n = [] then Inr (n\<lparr>name := ''NPC_'' @ npc_id n\<rparr>)
      else Inr n)"

definition update_physical_state :: "real \<Rightarrow> real \<Rightarrow> real \<Rightarrow> NPCState \<Rightarrow> NPCState" where
  "update_physical_state health_change hunger_change energy_change n =
     n\<lparr>health := max 0.0 (min 1.0 (health n + health_change)),
       hunger_level := max 0.0 (min 1.0 (hunger_level n + hunger_change)),
       energy_level := max 0.0 (min 1.0 (energy_level n + energy_change))\<rparr>"

text \<open>
  The \<^verbatim>\<open>outcome_data\<close> dict of \<^verbatim>\<open>perform_action\<close>, with the keys the source reads;
  \<open>None\<close> is an absent key. The dict under \<^verbatim>\<open>'traumatic_event'\<close> has the keys
  \<^verbatim>\<open>'type'\<close>, \<^verbatim>\<open>'impact'\<close>, \<^verbatim>\<open>'description'\<close>, \<^verbatim>\<open>'related_npcs'\<close>.
\<close>

record trauma_data =
  td_type :: "string option"
  td_impact :: "real option"
  td_description :: "string option"
  td_related_npcs :: "string list option"

record outcome_data =
  food_gained :: "real option"
  target_npc :: "string option"
  traumatic_event :: "trauma_data option"

definition no_outcome :: outcome_data where
  "no_outcome = \<lparr>food_gained = None, target_npc = None, traumatic_event = None\<rparr>"

definition apply_action_physical_effects ::
  "ActionType \<Rightarrow> bool \<Rightarrow> outcome_data \<Rightarrow> NPCState \<Rightarrow> NPCState" where
  "apply_action_physical_effects action ok outcome n =
     (let metadata = get_action_metadata action;
          cost = energy_cost metadata;
          n1 = update_physical_state 0.0 0.0 (- cost) n
      in if action = GATHER_FOOD \<and> ok
         then (let hunger_reduction = (case food_gained outcome of Some f \<Rightarrow> f | None \<Rightarrow> 0.1)
               in update_physical_state 0.0 (- hunger_reduction) 0.0 n1)
         else if action = REST
         then (let energy_restoration = (if ok then 0.4 else 0.2);
                   health_restoration = (if health n1 < 0.8 then 0.1 else 0.0)
               in update_physical_state health_restoration 0.0 energy_restoration n1)
         else if action \<in> set [BUILD_SHELTER, CRAFT_TOOLS] \<and> ok
         then update_physical_state 0.02 0.0 0.0 n1
         else n1)"

definition action_relationship_map :: "bool \<Rightarrow> (ActionType \<times> string) list" where
  "action_relationship_map ok =
     [(HELP_RANDOM_NPC, if ok then ''helped_in_crisis'' else ''failed_to_help''),
      (SHARE_RESOURCES, if ok then ''shared_resources'' else ''refused_sharing''),
      (FORM_ALLIANCE, if ok then ''formed_alliance'' else ''rejected_alliance''),
      (START_CONVERSATION, if ok then ''positive_interaction'' else ''awkward_interaction'')]"

text \<open>
  A call on \<^verbatim>\<open>self.relationships\<close>: run it on the matrix and store the matrix back.
\<close>

definition on_matrix ::
  "(RelationshipMatrix \<Rightarrow> (py_error + unit) \<times> RelationshipMatrix) \<Rightarrow> NPCState
     \<Rightarrow> (py_error + unit) \<times> NPCState" where
  "on_matrix f n =
     (case f (relationship_matrix n) of (res, m') \<Rightarrow> (res, n\<lparr>relationship_matrix := m'\<rparr>))"

definition apply_action_relationship_effects ::
  "ActionType \<Rightarrow> bool \<Rightarrow> outcome_data \<Rightarrow> (nat \<Rightarrow> string) \<Rightarrow> NPCState
     \<Rightarrow> (py_error + unit) \<times> NPCState" where
  "apply_action_relationship_effects action ok outcome clock n =
     (case target_npc outcome of
        None \<Rightarrow> (Inr (), n)
      | Some target \<Rightarrow>
          if target = [] then (Inr (), n)
          else
            (case map_of (action_relationship_map ok) action of
              None \<Rightarrow> (Inr (), n)
            | Some ev \<Rightarrow>
                if ev = ''helped_in_crisis''
                then on_matrix (matrix_apply_relationship_event target ''helped_in_crisis'' 1.0 clock) n
                else if ev = ''shared_resources''
                then on_matrix (matrix_apply_relationship_event target ''shared_resources'' 1.0 clock) n
                else if ev = ''formed_alliance''
                then (case on_matrix (update_relationship target ''trust'' 0.1
                                        ''formed_alliance'' (clock 0)) n of
                        (Inl e, n') \<Rightarrow> (Inl e, n')
                      | (Inr u, n') \<Rightarrow>
                          on_matrix (update_relationship target ''respect'' 0.05
                                       ''formed_alliance'' (clock 1)) n')
                else if ev = ''positive_interaction''
                then on_matrix (update_relationship target ''affection'' 0.05
                                  ''conversation'' (clock 0)) n
                else (Inr (), n)))"

definition process_traumatic_event ::
  "trauma_data \<Rightarrow> string \<Rightarrow> NPCState \<Rightarrow> (py_error + unit) \<times> NPCState" where
  "process_traumatic_event td now n =
     (let trauma_type = (case td_type td of Some t \<Rightarrow> t | None \<Rightarrow> ''generic'');
          impact = (case td_impact td of Some i \<Rightarrow> i | None \<Rightarrow> 0.5);
          descr = (case td_description td of Some d \<Rightarrow> d
                                           | None \<Rightarrow> ''Experienced '' @ trauma_type);
          related = (case td_related_npcs td of Some r \<Rightarrow> r | None \<Rightarrow> [])
      in case add_trauma trauma_type impact (age n) descr (Some related) now (trauma n) of
           (Inl e, t') \<Rightarrow> (Inl e, n\<lparr>trauma := t'\<rparr>)
         | (Inr memory, t') \<Rightarrow> (Inr (), n\<lparr>trauma := t'\<rparr>))"

text \<open>
  \<^verbatim>\<open>perform_action\<close>. \<open>clock\<close> gives the readings of \<^verbatim>\<open>datetime.now()\<close> during the
  relationship updates, \<open>now\<close> the reading when a trauma memory is created.
\<close>

definition perform_action ::
  "ActionType \<Rightarrow> bool \<Rightarrow> outcome_data option \<Rightarrow> (nat \<Rightarrow> string) \<Rightarrow> string \<Rightarrow> NPCState
     \<Rightarrow> (py_error + (string \<times> bool) list) \<times> NPCState" where
  "perform_action action ok outcome_opt clock now n =
     (let n1 = n\<lparr>last_action := Some (action_value action), last_action_success := Some ok\<rparr>;
          outcome = (case outcome_opt of Some d \<Rightarrow> d | None \<Rightarrow> no_outcome)
      in case gain_experience_from_action action ok (experience n1) of
           (Inl e, ex') \<Rightarrow> (Inl e, n1\<lparr>experience := ex'\<rparr>)
         | (Inr experience_results, ex') \<Rightarrow>
             let n2 = n1\<lparr>experience := ex'\<rparr>;
                 n3 = apply_action_physical_effects action ok outcome n2
             in (case (if target_npc outcome \<noteq> None
                      then apply_action_relationship_effects action ok outcome clock n3
                      else (Inr (), n3)) of
                  (Inl e, n4) \<Rightarrow> (Inl e, n4)
                | (Inr u, n4) \<Rightarrow>
                    (case traumatic_event outcome of
                       None \<Rightarrow> (Inr experience_results, n4)
                     | Some td \<Rightarrow>
                         (case process_traumatic_event td now n4 of
                            (Inl e, n5) \<Rightarrow> (Inl e, n5)
                          | (Inr u', n5) \<Rightarrow> (Inr experience_results, n5)))))"

subsection \<open>interact_with_npc\<close>

definition interaction_effects :: "(string \<times> (string \<times> (string \<times> real) list) list) list" where
  "interaction_effects =
     [(''casual_conversation'',
         [(''success'', [(''affection'', 0.05), (''trust'', 0.02)]),
          (''failure'', [(''affection'', - 0.02)])]),
      (''help_request'',
         [(''success'', [(''trust'', 0.1), (''dependency'', 0.05), (''affection'', 0.08)]),
          (''failure'', [(''trust'', - 0.05), (''respect'', - 0.03)])]),
      (''resource_sharing'',
         [(''success'', [(''trust'', 0.08), (''affection'', 0.06), (''dependency'', 0.03)]),
          (''failure'', [(''trust'', - 0.1), (''affection'', - 0.05)])]),
      (''conflict'',
         [(''success'', [(''fear'', 0.1), (''respect'', 0.05), (''affection'', - 0.1)]),
          (''failure'', [(''fear'', - 0.05), (''respect'', - 0.1), (''trust'', - 0.05)])]),
      (''betrayal'',
         [(''success'', [(''trust'', - 0.4), (''affection'', - 0.3), (''fear'', 0.2),
                         (''respect'', - 0.2)])])]"

text \<open>
  The dict \<^verbatim>\<open>interact_with_npc\<close> returns: the error payload \<^verbatim>\<open>{'error': ...}\<close>, or the
  report with the keys \<^verbatim>\<open>interaction_type\<close>, \<^verbatim>\<open>outcome\<close>, \<^verbatim>\<open>relationship_changes\<close>,
  \<^verbatim>\<open>new_relationship_type\<close>.
\<close>

datatype interaction_result =
    Interaction_Error string
  | Interaction_Report string string "(string \<times> real) list" string

fun apply_effects ::
  "(string \<times> real) list \<Rightarrow> string \<Rightarrow> string \<Rightarrow> (nat \<Rightarrow> string) \<Rightarrow> nat \<Rightarrow> RelationshipMatrix
     \<Rightarrow> (py_error + unit) \<times> RelationshipMatrix" where
  "apply_effects [] target why clock k m = (Inr (), m)"
| "apply_effects ((dim_name, delta) # rest) target why clock k m =
     (case update_relationship target dim_name delta why (clock k) m of
        (Inl e, m') \<Rightarrow> (Inl e, m')
      | (Inr u, m') \<Rightarrow> apply_effects rest target why clock (Suc k) m')"

definition interact_with_npc ::
  "string \<Rightarrow> string \<Rightarrow> string \<Rightarrow> (nat \<Rightarrow> string) \<Rightarrow> string \<Rightarrow> NPCState
     \<Rightarrow> (py_error + interaction_result) \<times> NPCState" where
  "interact_with_npc target_npc_id interaction_type outcome clock now n =
     (case map_of interaction_effects interaction_type of
        None \<Rightarrow> (Inr (Interaction_Error (''Unknown interaction type: '' @ interaction_type)), n)
      | Some by_outcome \<Rightarrow>
          let effects = (case map_of by_outcome outcome of Some e \<Rightarrow> e | None \<Rightarrow> [])
          in (case on_matrix (apply_effects effects target_npc_id
                               (interaction_type @ ''_'' @ outcome) clock 0) n of
               (Inl e, n1) \<Rightarrow> (Inl e, n1)
             | (Inr u, n1) \<Rightarrow>
                 (case (if interaction_type = ''betrayal'' \<and> outcome = ''success''
                        then process_traumatic_event
                               \<lparr>td_type = Some ''betrayal'', td_impact = Some 0.6,
                                td_description = Some (''Betrayed by '' @ target_npc_id),
                                td_related_npcs = Some [target_npc_id]\<rparr> now n1
                        else (Inr (), n1)) of
                    (Inl e, n2) \<Rightarrow> (Inl e, n2)
                  | (Inr u', n2) \<Rightarrow>
                      (case get_relationship target_npc_id (relationship_matrix n2) of
                         (relationship, m') \<Rightarrow>
                           (Inr (Interaction_Report interaction_type outcome effects
                                   (get_relationship_type relationship)),
                            n2\<lparr>relationship_matrix := m'\<rparr>)))))"

subsection \<open>Construction with the defaults of the dataclass\<close>

text \<open>
  \<^verbatim>\<open>NPCState(npc_id=i)\<close> before \<^verbatim>\<open>__post_init__\<close>: every other field at its default,
  the creation time read from the clock.
\<close>

definition NPCState_defaults :: "string \<Rightarrow> string \<Rightarrow> NPCState" where
  "NPCState_defaults i now =
     \<lparr>npc_id = i, name = [], age = 25, health = 0.8, hunger_level = 0.5, energy_level = 0.7,
      personality = PersonalityTraits_default, experience = ExperienceLevels_default,
      trauma = TraumaState_default, relationship_matrix = RelationshipMatrix_default,
      last_action = None, last_action_success = None, days_alive = 0,
      creation_timestamp = now\<rparr>"

text \<open>\<^verbatim>\<open>NPCState(npc_id='npc_1')\<close> after \<^verbatim>\<open>__post_init__\<close>, created at the given time.\<close>

definition example_npc :: NPCState where
  "example_npc = (NPCState_defaults ''npc_1'' ''2024-01-01T00:00:00'')\<lparr>name := ''NPC_npc_1''\<rparr>"

section \<open>Serialization: to_dict and from_dict\<close>

text \<open>
  The dict a \<^verbatim>\<open>to_dict\<close> writes and a \<^verbatim>\<open>from_dict\<close> reads is a record with one
  optional field per key: \<open>None\<close> is a missing key, \<open>Some v\<close> a key whose value
  has the type \<^verbatim>\<open>to_dict\<close> gives it. \<^verbatim>\<open>data[k]\<close> is \<open>dict_item\<close> (KeyError when the
  key is missing), \<^verbatim>\<open>data.get(k, default)\<close> is \<open>dict_get\<close>.
\<close>

definition dict_item :: "'a option \<Rightarrow> py_error + 'a" where
  "dict_item v = (case v of None \<Rightarrow> Inl KeyError | Some x \<Rightarrow> Inr x)"

definition dict_get :: "'a \<Rightarrow> 'a option \<Rightarrow> 'a" where
  "dict_get dflt v = (case v of None \<Rightarrow> dflt | Some x \<Rightarrow> x)"

text \<open>Sequencing of two steps the first of which may raise.\<close>

definition and_then :: "py_error + 'a \<Rightarrow> ('a \<Rightarrow> py_error + 'b) \<Rightarrow> py_error + 'b" where
  "and_then r f = (case r of Inl e \<Rightarrow> Inl e | Inr x \<Rightarrow> f x)"

text \<open>
  \<^verbatim>\<open>datetime.fromisoformat(date_string)\<close>. The parser of the standard library is a
  parameter \<open>fromisoformat\<close> of every function that reads a time: it gives the
  datetime read (as its ISO text), or \<open>None\<close> when the text is malformed, and then
  the call raises ValueError.
\<close>

definition datetime_fromisoformat ::
  "(string \<Rightarrow> string option) \<Rightarrow> string \<Rightarrow> py_error + string" where
  "datetime_fromisoformat fromisoformat date_string =
     (case fromisoformat date_string of None \<Rightarrow> Inl ValueError | Some stamp \<Rightarrow> Inr stamp)"

subsection \<open>PersonalityTraits\<close>

record personality_dict =
  pd_greed :: "real option"
  pd_sociability :: "real option"
  pd_laziness :: "real option"
  pd_ambition :: "real option"
  pd_forgiveness :: "real option"
  pd_courage :: "real option"
  pd_analytical :: "real option"
  pd_impulsiveness :: "real option"

text \<open>
  \<^verbatim>\<open>self.to_dict()\<close> looks \<^verbatim>\<open>to_dict\<close> up on the instance first: when \<^verbatim>\<open>setattr\<close> has
  stored a number under that name, the call raises TypeError.
\<close>

definition PersonalityTraits_to_dict :: "PersonalityTraits \<Rightarrow> py_error + personality_dict" where
  "PersonalityTraits_to_dict p =
     (if ''to_dict'' \<in> set (map fst (instance_attrs p)) then Inl TypeError
      else Inr \<lparr>pd_greed = Some (greed p), pd_sociability = Some (sociability p),
                pd_laziness = Some (laziness p), pd_ambition = Some (ambition p),
                pd_forgiveness = Some (forgiveness p), pd_courage = Some (courage p),
                pd_analytical = Some (analytical p),
                pd_impulsiveness = Some (impulsiveness p)\<rparr>)"

definition PersonalityTraits_from_dict :: "personality_dict \<Rightarrow> py_error + PersonalityTraits" where
  "PersonalityTraits_from_dict d =
     PersonalityTraits_post_init
       \<lparr>greed = dict_get 0.5 (pd_greed d), sociability = dict_get 0.5 (pd_sociability d),
        laziness = dict_get 0.5 (pd_laziness d), ambition = dict_get 0.5 (pd_ambition d),
        forgiveness = dict_get 0.5 (pd_forgiveness d), courage = dict_get 0.5 (pd_courage d),
        analytical = dict_get 0.5 (pd_analytical d),
        impulsiveness = dict_get 0.5 (pd_impulsiveness d), instance_attrs = []\<rparr>"

subsection \<open>ExperienceLevels\<close>

record levels_dict =
  ld_leadership :: "real option"
  ld_negotiation :: "real option"
  ld_resource_management :: "real option"
  ld_crafting :: "real option"
  ld_social_manipulation :: "real option"
  ld_survival :: "real option"
  ld_combat :: "real option"

record experience_dict =
  ed_experience_levels :: "levels_dict option"
  ed_experience_history :: "experience_event list option"

definition no_levels :: levels_dict where
  "no_levels =
     \<lparr>ld_leadership = None, ld_negotiation = None, ld_resource_management = None,
      ld_crafting = None, ld_social_manipulation = None, ld_survival = None,
      ld_combat = None\<rparr>"

definition ExperienceLevels_to_dict :: "ExperienceLevels \<Rightarrow> experience_dict" where
  "ExperienceLevels_to_dict e =
     \<lparr>ed_experience_levels =
        Some \<lparr>ld_leadership = Some (leadership e), ld_negotiation = Some (negotiation e),
              ld_resource_management = Some (resource_management e),
              ld_crafting = Some (crafting e),
              ld_social_manipulation = Some (social_manipulation e),
              ld_survival = Some (survival e), ld_combat = Some (combat e)\<rparr>,
      ed_experience_history = Some (experience_history e)\<rparr>"

definition ExperienceLevels_from_dict :: "experience_dict \<Rightarrow> py_error + ExperienceLevels" where
  "ExperienceLevels_from_dict d =
     (let levels = dict_get no_levels (ed_experience_levels d);
          history = dict_get [] (ed_experience_history d)
      in and_then
           (ExperienceLevels_post_init
              \<lparr>leadership = dict_get 0.0 (ld_leadership levels),
               negotiation = dict_get 0.0 (ld_negotiation levels),
               resource_management = dict_get 0.0 (ld_resource_management levels),
               crafting = dict_get 0.0 (ld_crafting levels),
               social_manipulation = dict_get 0.0 (ld_social_manipulation levels),
               survival = dict_get 0.0 (ld_survival levels),
               combat = dict_get 0.0 (ld_combat levels),
               experience_history = []\<rparr>)
           (\<lambda>instance. Inr (instance\<lparr>experience_history := history\<rparr>)))"

subsection \<open>TraumaMemory and TraumaState\<close>

record memory_dict =
  md_event_type :: "string option"
  md_original_impact :: "real option"
  md_current_impact :: "real option"
  md_age_when_occurred :: "int option"
  md_description :: "string option"
  md_related_npcs :: "string list option"
  md_healing_activities :: "(string \<times> real) list option"
  md_timestamp :: "string option"

definition TraumaMemory_to_dict :: "TraumaMemory \<Rightarrow> memory_dict" where
  "TraumaMemory_to_dict m =
     \<lparr>md_event_type = Some (event_type m), md_original_impact = Some (original_impact m),
      md_current_impact = Some (current_impact m),
      md_age_when_occurred = Some (age_when_occurred m),
      md_description = Some (description m), md_related_npcs = Some (related_npcs m),
      md_healing_activities = Some (healing_activities m),
      md_timestamp = Some (timestamp m)\<rparr>"

text \<open>
  \<^verbatim>\<open>TraumaMemory.from_dict\<close> parses the timestamp (the one of the dict, or the clock
  reading \<open>now\<close> written with \<^verbatim>\<open>isoformat()\<close>) in its first statement, before it
  reads the five required keys: a malformed timestamp raises ValueError whatever
  else the dict holds.
\<close>

definition TraumaMemory_from_dict ::
  "(string \<Rightarrow> string option) \<Rightarrow> string \<Rightarrow> memory_dict \<Rightarrow> py_error + TraumaMemory" where
  "TraumaMemory_from_dict fromisoformat now d =
     and_then (datetime_fromisoformat fromisoformat (dict_get now (md_timestamp d))) (\<lambda>stamp.
     and_then (dict_item (md_event_type d)) (\<lambda>ev.
     and_then (dict_item (md_original_impact d)) (\<lambda>original.
     and_then (dict_item (md_current_impact d)) (\<lambda>current.
     and_then (dict_item (md_age_when_occurred d)) (\<lambda>a.
     and_then (dict_item (md_description d)) (\<lambda>descr.
       TraumaMemory_post_init
         \<lparr>event_type = ev, original_impact = original, current_impact = current,
          age_when_occurred = a, description = descr,
          related_npcs = dict_get [] (md_related_npcs d),
          healing_activities = dict_get [] (md_healing_activities d),
          timestamp = stamp\<rparr>))))))"

text \<open>
  The dict of a ledger. The value under \<^verbatim>\<open>'last_healing_activity'\<close> may itself be
  \<^verbatim>\<open>None\<close>: \<open>Some None\<close>.
\<close>

record ledger_dict =
  sd_memories :: "memory_dict list option"
  sd_healing_progress :: "(string \<times> real) list option"
  sd_last_healing_activity :: "string option option"
  sd_natural_healing_rate :: "real option"

definition TraumaState_to_dict :: "TraumaState \<Rightarrow> ledger_dict" where
  "TraumaState_to_dict s =
     \<lparr>sd_memories = Some (map TraumaMemory_to_dict (memories s)),
      sd_healing_progress = Some (healing_progress s),
      sd_last_healing_activity = Some (last_healing_activity s),
      sd_natural_healing_rate = Some (natural_healing_rate s)\<rparr>"

text \<open>
  \<^verbatim>\<open>for memory_data in data.get('memories', []): ...append(TraumaMemory.from_dict(...))\<close>;
  the \<open>k\<close>-th record reads the clock as \<open>clock k\<close>.
\<close>

fun memories_from_dicts ::
  "(string \<Rightarrow> string option) \<Rightarrow> (nat \<Rightarrow> string) \<Rightarrow> nat \<Rightarrow> memory_dict list
     \<Rightarrow> py_error + TraumaMemory list" where
  "memories_from_dicts fromisoformat clock k [] = Inr []"
| "memories_from_dicts fromisoformat clock k (d # ds) =
     and_then (TraumaMemory_from_dict fromisoformat (clock k) d) (\<lambda>memory.
     and_then (memories_from_dicts fromisoformat clock (Suc k) ds)
       (\<lambda>rest. Inr (memory # rest)))"

definition TraumaState_from_dict ::
  "(string \<Rightarrow> string option) \<Rightarrow> (nat \<Rightarrow> string) \<Rightarrow> ledger_dict \<Rightarrow> py_error + TraumaState" where
  "TraumaState_from_dict fromisoformat clock d =
     (let trauma_state =
            TraumaState_default
              \<lparr>healing_progress := dict_get [] (sd_healing_progress d),
               last_healing_activity := dict_get None (sd_last_healing_activity d),
               natural_healing_rate := dict_get 0.001 (sd_natural_healing_rate d)\<rparr>
      in and_then (memories_from_dicts fromisoformat clock 0 (dict_get [] (sd_memories d)))
           (\<lambda>ms. Inr (trauma_state\<lparr>memories := memories trauma_state @ ms\<rparr>)))"

subsection \<open>RelationshipDimensions and RelationshipMatrix\<close>

record dimensions_dict =
  dd_trust :: "real option"
  dd_respect :: "real option"
  dd_affection :: "real option"
  dd_dependency :: "real option"
  dd_fear :: "real option"
  dd_relationship_history :: "relationship_change list option"

definition RelationshipDimensions_to_dict :: "RelationshipDimensions \<Rightarrow> dimensions_dict" where
  "RelationshipDimensions_to_dict r =
     \<lparr>dd_trust = Some (trust r), dd_respect = Some (respect r),
      dd_affection = Some (affection r), dd_dependency = Some (dependency r),
      dd_fear = Some (fear r), dd_relationship_history = Some (relationship_history r)\<rparr>"

definition RelationshipDimensions_from_dict ::
  "dimensions_dict \<Rightarrow> py_error + RelationshipDimensions" where
  "RelationshipDimensions_from_dict d =
     RelationshipDimensions_post_init
       \<lparr>trust = dict_get 0.5 (dd_trust d), respect = dict_get 0.5 (dd_respect d),
        affection = dict_get 0.5 (dd_affection d), dependency = dict_get 0.0 (dd_dependency d),
        fear = dict_get 0.0 (dd_fear d),
        relationship_history = dict_get [] (dd_relationship_history d)\<rparr>"

text \<open>
  The dict of a matrix maps a partner id to the dict of the entry. The
  comprehension of \<^verbatim>\<open>to_dict\<close> runs over the items of a dict, whose keys are
  distinct, so it is a map over the items.
\<close>

definition RelationshipMatrix_to_dict ::
  "RelationshipMatrix \<Rightarrow> (string \<times> dimensions_dict) list" where
  "RelationshipMatrix_to_dict m =
     map (\<lambda>(partner, rel). (partner, RelationshipDimensions_to_dict rel)) (relationships m)"

fun matrix_from_items ::
  "(string \<times> dimensions_dict) list \<Rightarrow> RelationshipMatrix \<Rightarrow> py_error + RelationshipMatrix" where
  "matrix_from_items [] matrix = Inr matrix"
| "matrix_from_items ((partner, rel_data) # rest) matrix =
     and_then (RelationshipDimensions_from_dict rel_data) (\<lambda>rel.
       matrix_from_items rest
         (matrix\<lparr>relationships := AList.update partner rel (relationships matrix)\<rparr>))"

definition RelationshipMatrix_from_dict ::
  "(string \<times> dimensions_dict) list \<Rightarrow> py_error + RelationshipMatrix" where
  "RelationshipMatrix_from_dict d = matrix_from_items d RelationshipMatrix_default"

subsection \<open>NPCState\<close>

record npc_dict =
  nd_npc_id :: "string option"
  nd_name :: "string option"
  nd_age :: "int option"
  nd_health :: "real option"
  nd_hunger_level :: "real option"
  nd_energy_level :: "real option"
  nd_personality :: "personality_dict option"
  nd_experience :: "experience_dict option"
  nd_trauma :: "ledger_dict option"
  nd_relationships :: "(string \<times> dimensions_dict) list option"
  nd_last_action :: "string option option"
  nd_last_action_success :: "bool option option"
  nd_days_alive :: "int option"
  nd_creation_timestamp :: "string option"

definition NPCState_to_dict :: "NPCState \<Rightarrow> py_error + npc_dict" where
  "NPCState_to_dict n =
     and_then (PersonalityTraits_to_dict (personality n)) (\<lambda>pd.
       Inr \<lparr>nd_npc_id = Some (npc_id n), nd_name = Some (name n), nd_age = Some (age n),
            nd_health = Some (health n), nd_hunger_level = Some (hunger_level n),
            nd_energy_level = Some (energy_level n),
            nd_personality = Some pd,
            nd_experience = Some (ExperienceLevels_to_dict (experience n)),
            nd_trauma = Some (TraumaState_to_dict (trauma n)),
            nd_relationships = Some (RelationshipMatrix_to_dict (relationship_matrix n)),
            nd_last_action = Some (last_action n),
            nd_last_action_success = Some (last_action_success n),
            nd_days_alive = Some (days_alive n),
            nd_creation_timestamp = Some (creation_timestamp n)\<rparr>)"

text \<open>
  \<^verbatim>\<open>NPCState.from_dict\<close>: the arguments of the constructor call are evaluated in
  order (\<^verbatim>\<open>data['npc_id']\<close> first, the parse of the creation time last), then the
  constructor runs with the scalar fields (the four subsystems at their default
  factories), then each subsystem present in the dict replaces the default.
  \<open>now\<close> is the clock reading for a missing creation time, \<open>clock\<close> the readings
  for the memories of the ledger.
\<close>

definition NPCState_from_dict ::
  "(string \<Rightarrow> string option) \<Rightarrow> string \<Rightarrow> (nat \<Rightarrow> string) \<Rightarrow> npc_dict
     \<Rightarrow> py_error + NPCState" where
  "NPCState_from_dict fromisoformat now clock d =
     and_then (dict_item (nd_npc_id d)) (\<lambda>i.
     and_then (datetime_fromisoformat fromisoformat
                 (dict_get now (nd_creation_timestamp d))) (\<lambda>created.
     and_then
       (NPCState_post_init
          ((NPCState_defaults i created)
             \<lparr>name := dict_get [] (nd_name d),
              age := dict_get 25 (nd_age d),
              health := dict_get 0.8 (nd_health d),
              hunger_level := dict_get 0.5 (nd_hunger_level d),
              energy_level := dict_get 0.7 (nd_energy_level d),
              last_action := dict_get None (nd_last_action d),
              last_action_success := dict_get None (nd_last_action_success d),
              days_alive := dict_get 0 (nd_days_alive d)\<rparr>)) (\<lambda>npc.
     and_then
       (case nd_personality d of
          None \<Rightarrow> Inr npc
        | Some pd \<Rightarrow> and_then (PersonalityTraits_from_dict pd)
                       (\<lambda>p. Inr (npc\<lparr>personality := p\<rparr>))) (\<lambda>npc1.
     and_then
       (case nd_experience d of
          None \<Rightarrow> Inr npc1
        | Some ed \<Rightarrow> and_then (ExperienceLevels_from_dict ed)
                       (\<lambda>e. Inr (npc1\<lparr>experience := e\<rparr>))) (\<lambda>npc2.
     and_then
       (case nd_trauma d of
          None \<Rightarrow> Inr npc2
        | Some td \<Rightarrow> and_then (TraumaState_from_dict fromisoformat clock td)
                       (\<lambda>t. Inr (npc2\<lparr>trauma := t\<rparr>))) (\<lambda>npc3.
       (case nd_relationships d of
          None \<Rightarrow> Inr npc3
        | Some rd \<Rightarrow> and_then (RelationshipMatrix_from_dict rd)
                       (\<lambda>m. Inr (npc3\<lparr>relationship_matrix := m\<rparr>)))))))))"

subsection \<open>Well-formed values\<close>

text \<open>
  What the constructors establish: each value passes its own \<^verbatim>\<open>__post_init__\<close>
  unchanged (ranges, a non-empty name), and the keys of the relationships dict
  are distinct (they are the keys of a Python dict). That the personality
  carries no attribute beyond its fields also holds after construction, but it
  is no part of these predicates: \<^verbatim>\<open>set_trait\<close> does not keep it.
\<close>

definition TraumaState_valid :: "TraumaState \<Rightarrow> bool" where
  "TraumaState_valid s = list_all (\<lambda>m. TraumaMemory_post_init m = Inr m) (memories s)"

definition RelationshipMatrix_valid :: "RelationshipMatrix \<Rightarrow> bool" where
  "RelationshipMatrix_valid m =
     (distinct (map fst (relationships m)) \<and>
      list_all (\<lambda>r. RelationshipDimensions_post_init r = Inr r) (map snd (relationships m)))"

definition NPCState_valid :: "NPCState \<Rightarrow> bool" where
  "NPCState_valid n =
     (NPCState_post_init n = Inr n \<and>
      PersonalityTraits_post_init (personality n) = Inr (personality n) \<and>
      ExperienceLevels_post_init (experience n) = Inr (experience n) \<and>
      TraumaState_valid (trauma n) \<and>
      RelationshipMatrix_valid (relationship_matrix n))"

text \<open>
  The fields of a personality, without what \<^verbatim>\<open>setattr\<close> has added to the
  instance: the equality of a dataclass compares the fields only, so two
  characters are equal field for field when their \<open>NPCState_fields\<close> agree.
\<close>

definition PersonalityTraits_fields :: "PersonalityTraits \<Rightarrow> PersonalityTraits" where
  "PersonalityTraits_fields p = p\<lparr>instance_attrs := []\<rparr>"

definition NPCState_fields :: "NPCState \<Rightarrow> NPCState" where
  "NPCState_fields n = n\<lparr>personality := PersonalityTraits_fields (personality n)\<rparr>"

subsection \<open>Instances\<close>

text \<open>
  \<open>printed fromisoformat t\<close>: the text \<open>t\<close> is one that \<^verbatim>\<open>isoformat()\<close> wrote, so the
  parser reads it back as the same time. It holds of every time stored in a
  value, for the parser of the standard library.
\<close>

definition printed :: "(string \<Rightarrow> string option) \<Rightarrow> string \<Rightarrow> bool" where
  "printed fromisoformat t = (fromisoformat t = Some t)"

text \<open>
  A parser for the examples: it accepts a text of 19 characters with \<^verbatim>\<open>T\<close> at the
  place where \<^verbatim>\<open>isoformat()\<close> puts it, and refuses every other text.
\<close>

definition example_fromisoformat :: "string \<Rightarrow> string option" where
  "example_fromisoformat t = (if length t = 19 \<and> t ! 10 = CHR ''T'' then Some t else None)"

text \<open>
  A matrix with one neutral entry; a character with one trauma and one
  relationship; the character \<^verbatim>\<open>NPCState(npc_id='npc_1')\<close> after
  \<^verbatim>\<open>npc.personality.set_trait('to_dict', 0.5)\<close>; the empty dict \<^verbatim>\<open>{}\<close> read as the
  dict of a character.
\<close>

definition alice_matrix :: RelationshipMatrix where
  "alice_matrix = \<lparr>relationships = [(''alice'', RelationshipDimensions_default)]\<rparr>"

definition seasoned_npc :: NPCState where
  "seasoned_npc = example_npc\<lparr>trauma := betrayal_ledger, relationship_matrix := alice_matrix\<rparr>"

definition shadowed_npc :: NPCState where
  "shadowed_npc =
     example_npc\<lparr>personality := snd (set_trait ''to_dict'' 0.5 (personality example_npc))\<rparr>"

definition no_npc_fields :: npc_dict where
  "no_npc_fields =
     \<lparr>nd_npc_id = None, nd_name = None, nd_age = None, nd_health = None,
      nd_hunger_level = None, nd_energy_level = None, nd_personality = None,
      nd_experience = None, nd_trauma = None, nd_relationships = None,
      nd_last_action = None, nd_last_action_success = None, nd_days_alive = None,
      nd_creation_timestamp = None\<rparr>"

text \<open>
  Persisted records with fields missing: the dict of a memory with its five
  required keys only, and the empty dict read as the dict of an entry, of a
  personality, of an experience tracker and of a ledger.
\<close>

definition no_memory_optional_fields :: memory_dict where
  "no_memory_optional_fields =
     \<lparr>md_event_type = Some ''betrayal'', md_original_impact = Some 0.8,
      md_current_impact = Some 0.8, md_age_when_occurred = Some 25,
      md_description = Some ''Betrayed by close ally'', md_related_npcs = None,
      md_healing_activities = None, md_timestamp = None\<rparr>"

definition no_dimension_fields :: dimensions_dict where
  "no_dimension_fields =
     \<lparr>dd_trust = None, dd_respect = None, dd_affection = None, dd_dependency = None,
      dd_fear = None, dd_relationship_history = None\<rparr>"

definition no_personality_fields :: personality_dict where
  "no_personality_fields =
     \<lparr>pd_greed = None, pd_sociability = None, pd_laziness = None, pd_ambition = None,
      pd_forgiveness = None, pd_courage = None, pd_analytical = None,
      pd_impulsiveness = None\<rparr>"

definition no_experience_fields :: experience_dict where
  "no_experience_fields = \<lparr>ed_experience_levels = None, ed_experience_history = None\<rparr>"

definition no_ledger_fields :: ledger_dict where
  "no_ledger_fields =
     \<lparr>sd_memories = None, sd_healing_progress = None, sd_last_healing_activity = None,
      sd_natural_healing_rate = None\<rparr>"


text \<open>
  The dict of a character that holds its \<^verbatim>\<open>npc_id\<close> and four nested dicts with
  fields missing: an empty personality, an empty experience tracker, a ledger
  with one memory that has its five required keys only, and one relationship
  entry that is the empty dict.
\<close>

definition sparse_ledger_dict :: ledger_dict where
  "sparse_ledger_dict = no_ledger_fields\<lparr>sd_memories := Some [no_memory_optional_fields]\<rparr>"

definition sparse_npc_dict :: npc_dict where
  "sparse_npc_dict =
     no_npc_fields
       \<lparr>nd_npc_id := Some ''npc_1'',
        nd_personality := Some no_personality_fields,
        nd_experience := Some no_experience_fields,
        nd_trauma := Some sparse_ledger_dict,
        nd_relationships := Some [(''alice'', no_dimension_fields)]\<rparr>"

subsection \<open>Records with missing fields: what reconstruction is to give\<close>

text \<open>
  The statement of claim C8, written out. \<open>_with_defaults\<close> is the value the
  claim promises for a dict: each key that is present keeps its value, each
  missing key takes the default of the dataclass (for a time, the clock reading),
  and a nested dict is filled the same way. \<open>_dict_ok\<close> is the condition under
  which the promise can be kept: the keys without a default are present, the
  values that are present are in the range the constructors accept, and the
  times parse. These definitions follow the claim, not the code; the theorem
  compares them with \<^verbatim>\<open>from_dict\<close>.
\<close>

definition dimensions_dict_ok :: "dimensions_dict \<Rightarrow> bool" where
  "dimensions_dict_ok d =
     list_all (pred_option in_unit_range)
       [dd_trust d, dd_respect d, dd_affection d, dd_dependency d, dd_fear d]"

definition dimensions_with_defaults :: "dimensions_dict \<Rightarrow> RelationshipDimensions" where
  "dimensions_with_defaults d =
     \<lparr>trust = dict_get 0.5 (dd_trust d), respect = dict_get 0.5 (dd_respect d),
      affection = dict_get 0.5 (dd_affection d), dependency = dict_get 0.0 (dd_dependency d),
      fear = dict_get 0.0 (dd_fear d),
      relationship_history = dict_get [] (dd_relationship_history d)\<rparr>"

definition matrix_dict_ok :: "(string \<times> dimensions_dict) list \<Rightarrow> bool" where
  "matrix_dict_ok d = (distinct (map fst d) \<and> list_all dimensions_dict_ok (map snd d))"

definition matrix_with_defaults :: "(string \<times> dimensions_dict) list \<Rightarrow> RelationshipMatrix" where
  "matrix_with_defaults d =
     \<lparr>relationships = map (\<lambda>(partner, rel). (partner, dimensions_with_defaults rel)) d\<rparr>"

definition personality_dict_ok :: "personality_dict \<Rightarrow> bool" where
  "personality_dict_ok d =
     list_all (pred_option in_unit_range)
       [pd_greed d, pd_sociability d, pd_laziness d, pd_ambition d,
        pd_forgiveness d, pd_courage d, pd_analytical d, pd_impulsiveness d]"

definition personality_with_defaults :: "personality_dict \<Rightarrow> PersonalityTraits" where
  "personality_with_defaults d =
     \<lparr>greed = dict_get 0.5 (pd_greed d), sociability = dict_get 0.5 (pd_sociability d),
      laziness = dict_get 0.5 (pd_laziness d), ambition = dict_get 0.5 (pd_ambition d),
      forgiveness = dict_get 0.5 (pd_forgiveness d), courage = dict_get 0.5 (pd_courage d),
      analytical = dict_get 0.5 (pd_analytical d),
      impulsiveness = dict_get 0.5 (pd_impulsiveness d), instance_attrs = []\<rparr>"

definition levels_dict_ok :: "levels_dict \<Rightarrow> bool" where
  "levels_dict_ok lv =
     list_all (pred_option in_unit_range)
       [ld_leadership lv, ld_negotiation lv, ld_resource_management lv, ld_crafting lv,
        ld_social_manipulation lv, ld_survival lv, ld_combat lv]"

definition experience_dict_ok :: "experience_dict \<Rightarrow> bool" where
  "experience_dict_ok d = pred_option levels_dict_ok (ed_experience_levels d)"

definition experience_with_defaults :: "experience_dict \<Rightarrow> ExperienceLevels" where
  "experience_with_defaults d =
     (let lv = dict_get no_levels (ed_experience_levels d)
      in \<lparr>leadership = dict_get 0.0 (ld_leadership lv),
          negotiation = dict_get 0.0 (ld_negotiation lv),
          resource_management = dict_get 0.0 (ld_resource_management lv),
          crafting = dict_get 0.0 (ld_crafting lv),
          social_manipulation = dict_get 0.0 (ld_social_manipulation lv),
          survival = dict_get 0.0 (ld_survival lv),
          combat = dict_get 0.0 (ld_combat lv),
          experience_history = dict_get [] (ed_experience_history d)\<rparr>)"

text \<open>
  A memory has five keys without a default. Its time is the one of the dict or
  the clock reading, as the parser reads it.
\<close>

definition memory_required_keys :: "memory_dict \<Rightarrow> bool" where
  "memory_required_keys d =
     (md_event_type d \<noteq> None \<and> md_original_impact d \<noteq> None \<and>
      md_current_impact d \<noteq> None \<and> md_age_when_occurred d \<noteq> None \<and>
      md_description d \<noteq> None)"

definition memory_dict_ok ::
  "(string \<Rightarrow> string option) \<Rightarrow> string \<Rightarrow> memory_dict \<Rightarrow> bool" where
  "memory_dict_ok fromisoformat now d =
     (memory_required_keys d \<and>
      fromisoformat (dict_get now (md_timestamp d)) \<noteq> None \<and>
      0 \<le> the (md_current_impact d) \<and>
      the (md_current_impact d) \<le> the (md_original_impact d) \<and>
      0 \<le> the (md_age_when_occurred d))"

definition memory_with_defaults ::
  "(string \<Rightarrow> string option) \<Rightarrow> string \<Rightarrow> memory_dict \<Rightarrow> TraumaMemory" where
  "memory_with_defaults fromisoformat now d =
     \<lparr>event_type = the (md_event_type d), original_impact = the (md_original_impact d),
      current_impact = the (md_current_impact d),
      age_when_occurred = the (md_age_when_occurred d),
      description = the (md_description d),
      related_npcs = dict_get [] (md_related_npcs d),
      healing_activities = dict_get [] (md_healing_activities d),
      timestamp = the (fromisoformat (dict_get now (md_timestamp d)))\<rparr>"

text \<open>The memories of a ledger, the \<open>k\<close>-th read when the clock shows \<open>clock k\<close>.\<close>

fun memory_dicts_ok ::
  "(string \<Rightarrow> string option) \<Rightarrow> (nat \<Rightarrow> string) \<Rightarrow> nat \<Rightarrow> memory_dict list \<Rightarrow> bool" where
  "memory_dicts_ok fromisoformat clock k [] = True"
| "memory_dicts_ok fromisoformat clock k (d # ds) =
     (memory_dict_ok fromisoformat (clock k) d \<and>
      memory_dicts_ok fromisoformat clock (Suc k) ds)"

fun memories_with_defaults ::
  "(string \<Rightarrow> string option) \<Rightarrow> (nat \<Rightarrow> string) \<Rightarrow> nat \<Rightarrow> memory_dict list
     \<Rightarrow> TraumaMemory list" where
  "memories_with_defaults fromisoformat clock k [] = []"
| "memories_with_defaults fromisoformat clock k (d # ds) =
     memory_with_defaults fromisoformat (clock k) d #
     memories_with_defaults fromisoformat clock (Suc k) ds"

definition ledger_dict_ok ::
  "(string \<Rightarrow> string option) \<Rightarrow> (nat \<Rightarrow> string) \<Rightarrow> ledger_dict \<Rightarrow> bool" where
  "ledger_dict_ok fromisoformat clock d =
     memory_dicts_ok fromisoformat clock 0 (dict_get [] (sd_memories d))"

definition ledger_with_defaults ::
  "(string \<Rightarrow> string option) \<Rightarrow> (nat \<Rightarrow> string) \<Rightarrow> ledger_dict \<Rightarrow> TraumaState" where
  "ledger_with_defaults fromisoformat clock d =
     \<lparr>memories = memories_with_defaults fromisoformat clock 0 (dict_get [] (sd_memories d)),
      healing_progress = dict_get [] (sd_healing_progress d),
      last_healing_activity = dict_get None (sd_last_healing_activity d),
      natural_healing_rate = dict_get 0.001 (sd_natural_healing_rate d)\<rparr>"

text \<open>
  A character has one key without a default, \<^verbatim>\<open>npc_id\<close>. A missing or empty name
  becomes \<^verbatim>\<open>NPC_<id>\<close>; a missing nested dict gives the subsystem of a new
  character.
\<close>

definition npc_dict_ok ::
  "(string \<Rightarrow> string option) \<Rightarrow> string \<Rightarrow> (nat \<Rightarrow> string) \<Rightarrow> npc_dict \<Rightarrow> bool" where
  "npc_dict_ok fromisoformat now clock d =
     (nd_npc_id d \<noteq> None \<and>
      fromisoformat (dict_get now (nd_creation_timestamp d)) \<noteq> None \<and>
      pred_option (\<lambda>a. 0 \<le> a) (nd_age d) \<and>
      list_all (pred_option in_unit_range) [nd_health d, nd_hunger_level d, nd_energy_level d] \<and>
      pred_option personality_dict_ok (nd_personality d) \<and>
      pred_option experience_dict_ok (nd_experience d) \<and>
      pred_option (ledger_dict_ok fromisoformat clock) (nd_trauma d) \<and>
      pred_option matrix_dict_ok (nd_relationships d))"

definition npc_with_defaults ::
  "(string \<Rightarrow> string option) \<Rightarrow> string \<Rightarrow> (nat \<Rightarrow> string) \<Rightarrow> npc_dict \<Rightarrow> NPCState" where
  "npc_with_defaults fromisoformat now clock d =
     \<lparr>npc_id = the (nd_npc_id d),
      name = (if dict_get [] (nd_name d) = [] then ''NPC_'' @ the (nd_npc_id d)
              else dict_get [] (nd_name d)),
      age = dict_get 25 (nd_age d),
      health = dict_get 0.8 (nd_health d),
      hunger_level = dict_get 0.5 (nd_hunger_level d),
      energy_level = dict_get 0.7 (nd_energy_level d),
      personality =
        (case nd_personality d of None \<Rightarrow> PersonalityTraits_default
         | Some pd \<Rightarrow> personality_with_defaults pd),
      experience =
        (case nd_experience d of None \<Rightarrow> ExperienceLevels_default
         | Some ed \<Rightarrow> experience_with_defaults ed),
      trauma =
        (case nd_trauma d of None \<Rightarrow> TraumaState_default
         | Some td \<Rightarrow> ledger_with_defaults fromisoformat clock td),
      relationship_matrix =
        (case nd_relationships d of None \<Rightarrow> RelationshipMatrix_default
         | Some rd \<Rightarrow> matrix_with_defaults rd),
      last_action = dict_get None (nd_last_action d),
      last_action_success = dict_get None (nd_last_action_success d),
      days_alive = dict_get 0 (nd_days_alive d),
      creation_timestamp = the (fromisoformat (dict_get now (nd_creation_timestamp d)))\<rparr>"
section \<open>Healing keeps a memory between its scar threshold and its original impact\<close>

lemma scar_threshold_update [simp]:
  "scar_threshold (m\<lparr>current_impact := c\<rparr>) = scar_threshold m"
  "scar_threshold (m\<lparr>healing_activities := h\<rparr>) = scar_threshold m"
  by (simp_all add: scar_threshold_def)

lemma scar_threshold_cong:
  "original_impact m' = original_impact m \<Longrightarrow> scar_threshold m' = scar_threshold m"
  by (simp add: scar_threshold_def)

lemma healing_outcome_refl: "healing_outcome m m"
  by (simp add: healing_outcome_def)

lemma healing_outcome_trans:
  assumes "healing_outcome a b" "healing_outcome b c"
  shows "healing_outcome a c"
proof -
  have "original_impact b = original_impact a"
    using assms(1) by (simp add: healing_outcome_def)
  then have s: "scar_threshold b = scar_threshold a"
    by (rule scar_threshold_cong)
  show ?thesis
    using assms unfolding healing_outcome_def s
    by (auto simp add: min_def max_def split: if_splits)
qed

lemma healing_outcome_healed_from:
  assumes "healing_outcome m m'" "within_scar_bounds m"
  shows "healed_from m m'"
proof -
  have "original_impact m' = original_impact m"
    using assms(1) by (simp add: healing_outcome_def)
  then have s: "scar_threshold m' = scar_threshold m"
    by (rule scar_threshold_cong)
  show ?thesis
    using assms unfolding healing_outcome_def within_scar_bounds_def healed_from_def s
    by (auto simp add: min_def max_def split: if_splits)
qed

lemma apply_healing_outcome: "healing_outcome m (snd (apply_healing a src m))"
  by (auto simp add: apply_healing_def healing_outcome_def Let_def)

lemma list_all2_healing_outcome_refl: "list_all2 healing_outcome ms ms"
  by (induction ms) (simp_all add: healing_outcome_refl)

lemma list_all2_healing_outcome_trans:
  "list_all2 healing_outcome xs ys \<Longrightarrow> list_all2 healing_outcome ys zs \<Longrightarrow>
   list_all2 healing_outcome xs zs"
  by (rule list_all2_trans [OF healing_outcome_trans])

lemma for_each_memory_outcome:
  assumes body: "\<And>m. healing_outcome m (snd (body m))"
  shows "list_all2 healing_outcome ms (snd (for_each_memory body ms))"
proof (induction ms)
  case Nil
  show ?case by simp
next
  case (Cons m ms)
  have 1: "healing_outcome m (snd (body m))" by (rule body)
  have 3: "list_all2 healing_outcome ms ms" by (rule list_all2_healing_outcome_refl)
  show ?case using 1 Cons.IH 3
    by (cases "body m"; cases "for_each_memory body ms") (auto split: sum.splits)
qed

lemma apply_daily_healing_outcome:
  "list_all2 healing_outcome (memories s) (memories (snd (apply_daily_healing p d s)))"
  unfolding apply_daily_healing_def Let_def
  apply (simp add: split_beta list_all2_healing_outcome_refl)
  apply (intro impI)
  apply (rule for_each_memory_outcome)
  apply (simp add: apply_healing_outcome healing_outcome_refl)
  done

lemma apply_activity_healing_outcome:
  "list_all2 healing_outcome (memories s) (memories (snd (apply_activity_healing act a p s)))"
  unfolding apply_activity_healing_def Let_def
  apply (simp add: split_beta list_all2_healing_outcome_refl)
  apply (intro impI)
  apply (rule for_each_memory_outcome)
  apply (simp add: apply_healing_outcome healing_outcome_refl)
  done

lemma counter_loop_outcome:
  "list_all2 healing_outcome ms (snd (counter_loop maps ev pos ms))"
proof (induction maps arbitrary: ms)
  case Nil
  show ?case by (simp add: list_all2_healing_outcome_refl)
next
  case (Cons tc rest)
  obtain trauma_type counter_types where tc: "tc = (trauma_type, counter_types)"
    by (cases tc)
  let ?body = "\<lambda>memory.
     if event_type memory = trauma_type \<and> \<not> is_fully_healed memory
     then apply_healing (min (pos * 0.6) (current_impact memory * 0.8))
            (''counter_experience_'' @ ev) memory
     else (Inr (), memory)"
  have step: "list_all2 healing_outcome ms (snd (for_each_memory ?body ms))"
    by (rule for_each_memory_outcome) (simp add: apply_healing_outcome healing_outcome_refl)
  show ?case
  proof (cases "ev \<in> set counter_types")
    case False
    then show ?thesis using Cons.IH [of ms] by (simp add: tc)
  next
    case True
    obtain r ms' where res: "for_each_memory ?body ms = (r, ms')"
      by (cases "for_each_memory ?body ms")
    have h1: "list_all2 healing_outcome ms ms'" using step by (simp add: res)
    show ?thesis
    proof (cases r)
      case (Inl e)
      then show ?thesis using True h1 by (simp add: tc res)
    next
      case (Inr u)
      have "list_all2 healing_outcome ms' (snd (counter_loop rest ev pos ms'))"
        by (rule Cons.IH)
      then show ?thesis
        using True Inr h1 by (simp add: tc res list_all2_healing_outcome_trans)
    qed
  qed
qed

lemma apply_counter_experience_healing_outcome:
  "list_all2 healing_outcome (memories s)
     (memories (snd (apply_counter_experience_healing ev pos d s)))"
  unfolding apply_counter_experience_healing_def
  using counter_loop_outcome [of "memories s" counter_mappings ev pos]
  by (simp add: split_beta list_all2_healing_outcome_refl)

lemma healing_step_outcome:
  "list_all2 healing_outcome (memories s) (memories (snd (healing_step c s)))"
proof (cases c)
  case (Apply_Healing i amount src)
  show ?thesis
  proof (cases "i < length (memories s)")
    case False
    then show ?thesis
      by (simp add: Apply_Healing list_all2_healing_outcome_refl)
  next
    case True
    have "healing_outcome (memories s ! i) (snd (apply_healing amount src (memories s ! i)))"
      by (rule apply_healing_outcome)
    then have "list_all2 healing_outcome ((memories s)[i := memories s ! i])
                 ((memories s)[i := snd (apply_healing amount src (memories s ! i))])"
      by (rule list_all2_update_cong [OF list_all2_healing_outcome_refl])
    then show ?thesis
      using True by (simp add: Apply_Healing split_beta)
  qed
next
  case (Daily_Healing p days)
  then show ?thesis using apply_daily_healing_outcome by simp
next
  case (Activity_Healing activity amount p)
  then show ?thesis using apply_activity_healing_outcome by simp
next
  case (Counter_Healing ev impact descr)
  then show ?thesis using apply_counter_experience_healing_outcome by simp
qed

lemma run_healing_outcome:
  "list_all2 healing_outcome (memories s) (memories (run_healing calls s))"
proof (induction calls arbitrary: s)
  case Nil
  show ?case by (simp add: list_all2_healing_outcome_refl)
next
  case (Cons c cs)
  have 1: "list_all2 healing_outcome (memories s) (memories (snd (healing_step c s)))"
    by (rule healing_step_outcome)
  have 2: "list_all2 healing_outcome (memories (snd (healing_step c s)))
             (memories (run_healing cs (snd (healing_step c s))))"
    by (rule Cons.IH)
  show ?case using list_all2_healing_outcome_trans [OF 1 2] by simp
qed

text \<open>
  Claim C1, as stated, fails: \<^verbatim>\<open>__post_init__\<close> accepts any current impact
  between 0 and the original impact, also one under the scar threshold. The
  memory \<open>old_wound\<close> (original 2.0, current 0.1, threshold 0.6) is accepted, is
  below its threshold, and \<^verbatim>\<open>apply_healing(0.0, ...)\<close> raises its impact to 0.6.
\<close>

theorem healing_below_scar_counterexample:
  "TraumaMemory_post_init old_wound = Inr old_wound \<and>
   current_impact old_wound < scar_threshold old_wound \<and>
   fst (apply_healing 0.0 ''rest'' old_wound) = Inr () \<and>
   current_impact old_wound < current_impact (snd (apply_healing 0.0 ''rest'' old_wound))"
  by (simp add: TraumaMemory_post_init_def old_wound_def scar_threshold_def
      apply_healing_def Let_def)

text \<open>
  Claim C1, amended, memory by memory: after any finite sequence of healing calls
  on a ledger (\<^verbatim>\<open>apply_healing\<close> on one of its memories, daily healing, activity
  healing, counter-experience healing, with any arguments, whether a call
  returns or raises) the ledger has the same number of memories, and each
  memory, whatever the other memories are, keeps its original impact and has a
  current impact between the smaller and the larger of its scar threshold and
  the impact it started with. So a memory that starts at or above its scar
  threshold and at or below its original impact (as every memory made by
  \<^verbatim>\<open>add_trauma\<close> does, since it starts at its original impact) never goes below
  its scar threshold, never exceeds its original impact, and never rises.
\<close>

theorem healing_sequence_keeps_scar_bounds:
  "list_all2
     (\<lambda>m m'. healing_outcome m m' \<and> (within_scar_bounds m \<longrightarrow> healed_from m m'))
     (memories s) (memories (run_healing calls s))"
  by (rule list_all2_mono [OF run_healing_outcome]) (simp add: healing_outcome_healed_from)

theorem healing_sequence_keeps_scar_bounds_witness:
  "within_scar_bounds betrayal_memory \<and>
   memories mixed_ledger ! 1 = betrayal_memory \<and>
   length (memories (run_healing mixed_calls mixed_ledger)) = 2 \<and>
   healed_from betrayal_memory (memories (run_healing mixed_calls mixed_ledger) ! 1)"
proof -
  have h: "within_scar_bounds betrayal_memory"
    by (simp add: betrayal_memory_def within_scar_bounds_def scar_threshold_def)
  have m: "memories mixed_ledger = [old_wound, betrayal_memory]"
    by (simp add: mixed_ledger_def TraumaState_default_def)
  note all = healing_sequence_keeps_scar_bounds [of mixed_ledger mixed_calls]
  have len: "length (memories (run_healing mixed_calls mixed_ledger)) = 2"
    using list_all2_lengthD [OF all] by (simp add: m)
  have "within_scar_bounds (memories mixed_ledger ! 1) \<longrightarrow>
        healed_from (memories mixed_ledger ! 1)
          (memories (run_healing mixed_calls mixed_ledger) ! 1)"
    using list_all2_nthD [OF all, of 1] by (simp add: m)
  then have "healed_from betrayal_memory (memories (run_healing mixed_calls mixed_ledger) ! 1)"
    using h by (simp add: m)
  then show ?thesis using h len by (simp add: m)
qed

section \<open>The scar threshold of a moderate trauma; unrecognized activities\<close>

lemma apply_healing_current:
  "0 \<le> a \<Longrightarrow> current_impact (snd (apply_healing a src m)) =
     max (scar_threshold m) (current_impact m - a)"
  by (simp add: apply_healing_def Let_def)

lemma apply_healing_scar [simp]:
  "scar_threshold (snd (apply_healing a src m)) = scar_threshold m"
  by (simp add: apply_healing_def Let_def)

lemma apply_healings_current:
  "list_all (\<lambda>a. 0 \<le> a) amounts \<Longrightarrow> scar_threshold m \<le> current_impact m \<Longrightarrow>
   current_impact (apply_healings amounts src m) =
     max (scar_threshold m) (current_impact m - sum_list amounts)"
proof (induction amounts arbitrary: m)
  case Nil
  then show ?case by simp
next
  case (Cons a as)
  have a: "0 \<le> a" and as: "list_all (\<lambda>a. 0 \<le> a) as" using Cons.prems by simp_all
  have nn: "0 \<le> sum_list as" using as by (induction as) simp_all
  let ?m = "snd (apply_healing a src m)"
  have cur: "current_impact ?m = max (scar_threshold m) (current_impact m - a)"
    by (rule apply_healing_current [OF a])
  have "scar_threshold ?m \<le> current_impact ?m" by (simp add: cur)
  from Cons.IH [OF as this]
  have "current_impact (apply_healings as src ?m) =
          max (scar_threshold m) (max (scar_threshold m) (current_impact m - a) - sum_list as)"
    by (simp add: cur)
  also have "\<dots> = max (scar_threshold m) (current_impact m - (a + sum_list as))"
    using nn by (auto simp add: max_def)
  finally show ?case by simp
qed

text \<open>
  Claim C2, amended: a TraumaMemory created with original impact 0.8 (and so
  current impact 0.8) has scar threshold 0.08, 10% of 0.8, since 0.8 is not
  above 1.0; after repeated \<^verbatim>\<open>apply_healing\<close> calls with non-negative amounts
  its current impact is \<open>max 0.08 (0.8 - total)\<close>: it never goes below 0.08, and
  it is exactly 0.08 once the amounts add up to 0.72 or more.
\<close>

theorem scar_of_eight_tenths:
  "original_impact m = 0.8 \<Longrightarrow> current_impact m = 0.8 \<Longrightarrow>
   list_all (\<lambda>a. 0 \<le> a) amounts \<Longrightarrow>
   scar_threshold m = 0.08 \<and>
   current_impact (apply_healings amounts src m) = max 0.08 (0.8 - sum_list amounts)"
proof -
  assume o: "original_impact m = 0.8" and c: "current_impact m = 0.8"
    and a: "list_all (\<lambda>a. 0 \<le> a) amounts"
  have s: "scar_threshold m = 0.08" by (simp add: scar_threshold_def o)
  have "scar_threshold m \<le> current_impact m" by (simp add: s c)
  from apply_healings_current [OF a this] show ?thesis by (simp add: s c)
qed

theorem scar_of_eight_tenths_witness:
  "original_impact betrayal_memory = 0.8 \<and> current_impact betrayal_memory = 0.8 \<and>
   list_all (\<lambda>a. 0 \<le> a) [0.2, 0.3, 0.5 :: real] \<and>
   scar_threshold betrayal_memory = 0.08 \<and>
   current_impact (apply_healings [0.2, 0.3, 0.5] ''therapy_session'' betrayal_memory) = 0.08"
proof -
  have 1: "original_impact betrayal_memory = 0.8" by (simp add: betrayal_memory_def)
  have 2: "current_impact betrayal_memory = 0.8" by (simp add: betrayal_memory_def)
  have 3: "list_all (\<lambda>a. 0 \<le> a) [0.2, 0.3, 0.5 :: real]" by simp
  show ?thesis
    using 1 2 3 scar_of_eight_tenths [OF 1 2 3, of "''therapy_session''"] by simp
qed

text \<open>
  Claim C2, as stated, fails: the threshold of that memory is 0.08, not 0.24, and
  one \<^verbatim>\<open>apply_healing(0.7, ...)\<close> takes the impact to 0.1, below 0.24.
\<close>

theorem scar_of_eight_tenths_counterexample:
  "scar_threshold betrayal_memory = 0.08 \<and>
   fst (apply_healing 0.7 ''therapy_session'' betrayal_memory) = Inr () \<and>
   current_impact (snd (apply_healing 0.7 ''therapy_session'' betrayal_memory)) = 0.1 \<and>
   current_impact (snd (apply_healing 0.7 ''therapy_session'' betrayal_memory)) < 0.24"
  by (simp add: betrayal_memory_def scar_threshold_def apply_healing_def Let_def)

lemma for_each_memory_total:
  "(\<And>m. fst (body m) = Inr ()) \<Longrightarrow>
   for_each_memory body ms = (Inr (), map (\<lambda>m. snd (body m)) ms)"
proof (induction ms)
  case Nil
  show ?case by simp
next
  case (Cons m ms)
  obtain m' where b: "body m = (Inr (), m')"
    using Cons.prems [of m] by (cases "body m") auto
  show ?case using Cons.IH [OF Cons.prems] by (simp add: b)
qed

lemma activity_effect_unrecognized:
  assumes "activity \<notin> {''prayer'', ''meditation'', ''socializing'', ''helping_others'',
                        ''crafting'', ''storytelling'', ''physical_exercise''}"
  shows "activity_effect activity traits m = 0.25"
proof -
  have "map_of activity_effectiveness activity = None"
    using assms by (simp add: activity_effectiveness_def)
  then have cfg: "activity_config activity = ([], 0.5)"
    by (simp add: activity_config_def)
  show ?thesis
    using assms by (simp add: activity_effect_def cfg Let_def split: option.splits)
qed

text \<open>
  Claim C10: for an activity that is none of the seven recognized ones and a
  non-negative amount, \<^verbatim>\<open>apply_activity_healing\<close> returns without raising, sets
  \<open>last_healing_activity\<close> to the activity, leaves a fully healed memory as it is
  and takes every other memory to
  \<open>max scar_threshold (current_impact - amount * 0.25)\<close>, whatever the traits.
\<close>

theorem unrecognized_activity_heals_quarter:
  assumes "activity \<notin> {''prayer'', ''meditation'', ''socializing'', ''helping_others'',
                        ''crafting'', ''storytelling'', ''physical_exercise''}"
    and "0 \<le> amount"
  shows "fst (apply_activity_healing activity amount traits s) = Inr () \<and>
         last_healing_activity (snd (apply_activity_healing activity amount traits s)) =
           Some activity \<and>
         map current_impact (memories (snd (apply_activity_healing activity amount traits s))) =
           map (\<lambda>m. if is_fully_healed m then current_impact m
                     else max (scar_threshold m) (current_impact m - amount * 0.25))
               (memories s) \<and>
         map original_impact (memories (snd (apply_activity_healing activity amount traits s))) =
           map original_impact (memories s)"
proof -
  let ?body = "\<lambda>memory.
     if \<not> is_fully_healed memory
     then apply_healing (amount * activity_effect activity traits memory)
            (''activity_'' @ activity) memory
     else (Inr (), memory)"
  have total: "\<And>m. fst (?body m) = Inr ()"
    using assms(2) by (simp add: apply_healing_def Let_def activity_effect_unrecognized [OF assms(1)])
  have loop: "for_each_memory ?body ms = (Inr (), map (\<lambda>m. snd (?body m)) ms)" for ms
    by (rule for_each_memory_total [OF total])
  have cur: "current_impact (snd (?body m)) =
      (if is_fully_healed m then current_impact m
       else max (scar_threshold m) (current_impact m - amount * 0.25))" for m
    using assms(2) by (simp add: apply_healing_current activity_effect_unrecognized [OF assms(1)])
  have orig: "original_impact (snd (?body m)) = original_impact m" for m
    by (simp add: apply_healing_def Let_def)
  show ?thesis
    using assms(2) unfolding apply_activity_healing_def Let_def
    by (simp add: loop cur orig comp_def del: max.absorb1 max.absorb2 max.absorb3 max.absorb4)
qed

theorem unrecognized_activity_heals_quarter_witness:
  "''gardening'' \<notin> {''prayer'', ''meditation'', ''socializing'', ''helping_others'',
                      ''crafting'', ''storytelling'', ''physical_exercise''} \<and>
   (0::real) \<le> 0.4 \<and>
   fst (apply_activity_healing ''gardening'' 0.4 None betrayal_ledger) = Inr () \<and>
   last_healing_activity (snd (apply_activity_healing ''gardening'' 0.4 None betrayal_ledger)) =
     Some ''gardening'' \<and>
   map current_impact
     (memories (snd (apply_activity_healing ''gardening'' 0.4 None betrayal_ledger))) = [0.7]"
proof -
  have 1: "''gardening'' \<notin> {''prayer'', ''meditation'', ''socializing'', ''helping_others'',
                      ''crafting'', ''storytelling'', ''physical_exercise''}"
    by simp
  have 2: "(0::real) \<le> 0.4" by simp
  show ?thesis
    using 1 2 unrecognized_activity_heals_quarter [OF 1 2, of None betrayal_ledger]
    by (simp add: betrayal_ledger_def betrayal_memory_def TraumaState_default_def
        is_fully_healed_def scar_threshold_def)
qed

section \<open>Diminishing returns of experience\<close>

subsection \<open>In exact arithmetic\<close>

lemma gain_step_bounds:
  fixes l a :: real
  assumes "0 \<le> l" "l \<le> 1" "0 \<le> a"
  shows "l \<le> min 1 (l + a * (1 - l * 0.3))" "min 1 (l + a * (1 - l * 0.3)) \<le> 1"
proof -
  have "0 \<le> 1 - l * 0.3" using assms by simp
  then have "0 \<le> a * (1 - l * 0.3)" using assms(3) by simp
  then show "l \<le> min 1 (l + a * (1 - l * 0.3))" using assms(2) by simp
  show "min 1 (l + a * (1 - l * 0.3)) \<le> 1" by simp
qed

lemma gain_delta_antimono:
  fixes l l' a :: real
  assumes "l \<le> l'" "0 \<le> a"
  shows "min 1 (l' + a * (1 - l' * 0.3)) - l' \<le> min 1 (l + a * (1 - l * 0.3)) - l"
proof -
  have "a * (1 - l' * 0.3) \<le> a * (1 - l * 0.3)"
    using assms by (intro mult_left_mono) simp_all
  then show ?thesis using assms(1) by (simp add: min_def)
qed

lemma map_of_setattr:
  "cat \<in> set experience_categories \<Longrightarrow>
   map_of (get_experience_dict (ExperienceLevels_setattr cat v e)) cat = Some v"
  by (auto simp add: experience_categories_def get_experience_dict_def ExperienceLevels_setattr_def)

lemma map_of_category:
  "cat \<in> set experience_categories \<Longrightarrow> \<exists>l. map_of (get_experience_dict e) cat = Some l"
  by (auto simp add: experience_categories_def get_experience_dict_def)

lemma history_setattr [simp]:
  "experience_history (ExperienceLevels_setattr cat v e) = experience_history e"
  by (simp add: ExperienceLevels_setattr_def)

lemma gain_experience_step:
  assumes "map_of (get_experience_dict e) cat = Some l" "0 \<le> a" "cat \<in> set experience_categories"
  shows "map_of (get_experience_dict (snd (gain_experience cat a src ok e))) cat =
           Some (min 1 (l + a * (1 - l * 0.3)))"
    and "map amount_gained (experience_history (snd (gain_experience cat a src ok e))) =
           map amount_gained (experience_history e) @ [min 1 (l + a * (1 - l * 0.3)) - l]"
  using assms
  by (simp_all add: gain_experience_def Let_def get_experience_dict_def
      ExperienceLevels_setattr_def experience_categories_def, auto)

lemma length_realized_gains [simp]: "length (realized_gains n a l) = n"
  by (induction n arbitrary: l) simp_all

lemma realized_gains_bounded:
  "0 \<le> a \<Longrightarrow> 0 \<le> l \<Longrightarrow> l \<le> 1 \<Longrightarrow> l0 \<le> l \<Longrightarrow>
   \<forall>d \<in> set (realized_gains n a l). d \<le> min 1 (l0 + a * (1 - l0 * 0.3)) - l0"
proof (induction n arbitrary: l)
  case 0
  show ?case by simp
next
  case (Suc n)
  let ?l' = "min 1 (l + a * (1 - l * 0.3))"
  have b: "l \<le> ?l'" "?l' \<le> 1"
    using gain_step_bounds [OF Suc.prems(2) Suc.prems(3) Suc.prems(1)] by simp_all
  have 1: "?l' - l \<le> min 1 (l0 + a * (1 - l0 * 0.3)) - l0"
    by (rule gain_delta_antimono [OF Suc.prems(4) Suc.prems(1)])
  have "0 \<le> ?l'" using b(1) Suc.prems(2) by linarith
  moreover have "l0 \<le> ?l'" using b(1) Suc.prems(4) by linarith
  ultimately have 2: "\<forall>d \<in> set (realized_gains n a ?l'). d \<le> min 1 (l0 + a * (1 - l0 * 0.3)) - l0"
    using Suc.IH [of ?l'] Suc.prems(1) b(2) by blast
  show ?case using 1 2 by simp
qed

lemma realized_gains_sorted:
  "0 \<le> a \<Longrightarrow> 0 \<le> l \<Longrightarrow> l \<le> 1 \<Longrightarrow>
   sorted_wrt (\<lambda>d d'. d' \<le> d) (realized_gains n a l)"
proof (induction n arbitrary: l)
  case 0
  show ?case by simp
next
  case (Suc n)
  let ?l' = "min 1 (l + a * (1 - l * 0.3))"
  have b: "l \<le> ?l'" "?l' \<le> 1"
    using gain_step_bounds [OF Suc.prems(2) Suc.prems(3) Suc.prems(1)] by simp_all
  have nn: "0 \<le> ?l'" using b(1) Suc.prems(2) by linarith
  have 1: "\<forall>d \<in> set (realized_gains n a ?l'). d \<le> ?l' - l"
    by (rule realized_gains_bounded [OF Suc.prems(1) nn b(2) b(1)])
  have 2: "sorted_wrt (\<lambda>d d'. d' \<le> d) (realized_gains n a ?l')"
    by (rule Suc.IH [OF Suc.prems(1) nn b(2)])
  show ?case using 1 2 by simp
qed

lemma gain_repeatedly_history:
  "cat \<in> set experience_categories \<Longrightarrow> 0 \<le> a \<Longrightarrow>
   map_of (get_experience_dict e) cat = Some l \<Longrightarrow>
   map amount_gained (experience_history (gain_repeatedly n cat a src ok e)) =
     map amount_gained (experience_history e) @ realized_gains n a l"
proof (induction n arbitrary: e l)
  case 0
  show ?case by simp
next
  case (Suc n)
  let ?e = "snd (gain_experience cat a src ok e)"
  let ?l' = "min 1 (l + a * (1 - l * 0.3))"
  have 1: "map_of (get_experience_dict ?e) cat = Some ?l'"
    and 2: "map amount_gained (experience_history ?e) =
              map amount_gained (experience_history e) @ [?l' - l]"
    using gain_experience_step [OF Suc.prems(3) Suc.prems(2) Suc.prems(1)] by simp_all
  show ?case
    using Suc.IH [OF Suc.prems(1) Suc.prems(2) 1] by (simp add: 2)
qed

lemma valid_level:
  "ExperienceLevels_post_init e = Inr e \<Longrightarrow> map_of (get_experience_dict e) cat = Some l \<Longrightarrow>
   0 \<le> l \<and> l \<le> 1"
  by (auto simp add: ExperienceLevels_post_init_def get_experience_dict_def in_unit_range_def
      split: if_splits)

text \<open>
  Without rounding: for a valid category, a non-negative amount and levels
  within [0, 1], \<open>n\<close> repeated calls with the same arguments append \<open>n\<close> history
  entries whose realized deltas never increase from one call to a later one.
\<close>

lemma exact_gains_diminish:
  assumes "ExperienceLevels_post_init e = Inr e"
    and "cat \<in> set experience_categories"
    and "0 \<le> amount"
  shows "length (gains_since e (gain_repeatedly n cat amount src ok e)) = n \<and>
         sorted_wrt (\<lambda>d d'. d' \<le> d) (gains_since e (gain_repeatedly n cat amount src ok e))"
proof -
  obtain l where l: "map_of (get_experience_dict e) cat = Some l"
    using map_of_category [OF assms(2)] by blast
  have b: "0 \<le> l" "l \<le> 1" using valid_level [OF assms(1) l] by simp_all
  have "map amount_gained (experience_history (gain_repeatedly n cat amount src ok e)) =
          map amount_gained (experience_history e) @ realized_gains n amount l"
    by (rule gain_repeatedly_history [OF assms(2) assms(3) l])
  then have "gains_since e (gain_repeatedly n cat amount src ok e) = realized_gains n amount l"
    by (simp add: gains_since_def drop_map [symmetric])
  then show ?thesis
    using realized_gains_sorted [OF assms(3) b] by simp
qed

subsection \<open>Rounding to binary64\<close>

text \<open>
  Three properties of the rounding carry the results on floats: it is monotone
  (\<open>binary64_mono\<close>), it leaves a binary64 number as it is (\<open>binary64_fixed\<close>,
  \<open>binary64_idem\<close>), and on a real whose binade is known it is the rounding of
  the significand to an integer (\<open>binary64_eval\<close>). They are proved for
  non-negative reals, the only ones \<^verbatim>\<open>gain_experience\<close> meets.
\<close>

lemma pow2_powr: "pow2 e = 2 powr (of_int e)"
  by (simp add: pow2_def powr_int)

lemma pow2_pos [simp]: "0 < pow2 e"
  by (simp add: pow2_powr)

lemma pow2_nonneg [simp]: "0 \<le> pow2 e"
  by (simp add: pow2_powr)

lemma pow2_nonzero [simp]: "pow2 e \<noteq> 0"
  by (simp add: pow2_powr)

lemma pow2_mono: "a \<le> b \<Longrightarrow> pow2 a \<le> pow2 b"
  by (simp add: pow2_powr)

lemma pow2_add: "pow2 (a + b) = pow2 a * pow2 b"
  by (simp add: pow2_powr powr_add)

lemma pow2_of_nat: "0 \<le> e \<Longrightarrow> pow2 e = of_int (2 ^ nat e)"
  by (simp add: pow2_def)

text \<open>\<open>floor_log2 x\<close> is the \<open>k\<close> with \<open>2 ^ k \<le> x < 2 ^ (k + 1)\<close>.\<close>

lemma floor_log2_bounds:
  assumes "0 < x"
  shows "pow2 (floor_log2 x) \<le> x" "x < pow2 (floor_log2 x + 1)"
proof -
  have "pow2 (floor_log2 x) \<le> x \<and> x < pow2 (floor_log2 x + 1)"
  proof (cases "1 \<le> x")
    case True
    let ?m = "\<lfloor>x\<rfloor>"
    have m: "0 < ?m" using True by simp
    have b: "1 \<le> bitlen ?m" using m by (simp add: bitlen_alt_def)
    have lo: "2 ^ nat (bitlen ?m - 1) \<le> ?m" and hi: "?m < 2 ^ nat (bitlen ?m)"
      using bitlen_bounds [OF m] by simp_all
    have fl: "floor_log2 x = bitlen ?m - 1" using True by (simp add: floor_log2_def)
    have "pow2 (bitlen ?m - 1) = of_int (2 ^ nat (bitlen ?m - 1))"
      using b by (intro pow2_of_nat) simp
    also have "\<dots> \<le> of_int ?m" using lo by (simp only: of_int_le_iff)
    also have "\<dots> \<le> x" by simp
    finally have 1: "pow2 (bitlen ?m - 1) \<le> x" .
    have "?m + 1 \<le> 2 ^ nat (bitlen ?m)" using hi by simp
    then have "real_of_int (?m + 1) \<le> of_int (2 ^ nat (bitlen ?m))"
      by (simp only: of_int_le_iff)
    moreover have "x < real_of_int (?m + 1)" by linarith
    moreover have "pow2 (bitlen ?m) = of_int (2 ^ nat (bitlen ?m))"
      using b by (intro pow2_of_nat) simp
    ultimately have 2: "x < pow2 (bitlen ?m)" by linarith
    show ?thesis using 1 2 by (simp add: fl)
  next
    case False
    let ?y = "1 / x"
    let ?m = "\<lceil>?y\<rceil> - 1"
    have y: "1 < ?y" using False assms by simp
    then have "2 \<le> \<lceil>?y\<rceil>" by linarith
    then have m: "0 < ?m" by simp
    have b: "1 \<le> bitlen ?m" using m by (simp add: bitlen_alt_def)
    have lo: "2 ^ nat (bitlen ?m - 1) \<le> ?m" and hi: "?m < 2 ^ nat (bitlen ?m)"
      using bitlen_bounds [OF m] by simp_all
    have fl: "floor_log2 x = - bitlen ?m" using False by (simp add: floor_log2_def)
    have my: "of_int ?m < ?y" by linarith
    have "real_of_int (2 ^ nat (bitlen ?m - 1)) \<le> of_int ?m"
      using lo by (simp only: of_int_le_iff)
    then have lo': "(2::real) ^ nat (bitlen ?m - 1) < ?y" using my by simp
    have c: "?y \<le> real_of_int \<lceil>?y\<rceil>" by (rule le_of_int_ceiling)
    have "\<lceil>?y\<rceil> \<le> 2 ^ nat (bitlen ?m)" using hi by simp
    then have "real_of_int \<lceil>?y\<rceil> \<le> of_int (2 ^ nat (bitlen ?m))"
      by (simp only: of_int_le_iff)
    then have "real_of_int \<lceil>?y\<rceil> \<le> 2 ^ nat (bitlen ?m)" by simp
    then have hi': "?y \<le> (2::real) ^ nat (bitlen ?m)" using c by linarith
    have 1: "pow2 (- bitlen ?m) \<le> x"
    proof -
      have "1 \<le> (2::real) ^ nat (bitlen ?m) * x"
        using hi' assms by (simp add: pos_divide_le_eq mult.commute)
      then have "1 / (2::real) ^ nat (bitlen ?m) \<le> x"
        by (simp add: pos_divide_le_eq mult.commute)
      then show ?thesis using b by (simp add: pow2_def)
    qed
    have 2: "x < pow2 (- bitlen ?m + 1)"
    proof -
      have "(2::real) ^ nat (bitlen ?m - 1) * x < 1"
        using lo' assms by (simp add: pos_less_divide_eq)
      then have "x < 1 / (2::real) ^ nat (bitlen ?m - 1)"
        by (simp add: pos_less_divide_eq mult.commute)
      moreover have "pow2 (- bitlen ?m + 1) = 1 / 2 ^ nat (bitlen ?m - 1)"
        using b by (cases "bitlen ?m = 1") (simp_all add: pow2_def)
      ultimately show ?thesis by simp
    qed
    show ?thesis using 1 2 by (simp add: fl)
  qed
  then show "pow2 (floor_log2 x) \<le> x" "x < pow2 (floor_log2 x + 1)" by simp_all
qed

lemma floor_log2_unique:
  assumes "pow2 k \<le> x" "x < pow2 (k + 1)"
  shows "floor_log2 x = k"
proof -
  have x: "0 < x" using assms(1) pow2_pos [of k] by linarith
  note b = floor_log2_bounds [OF x]
  have "\<not> floor_log2 x < k"
  proof
    assume "floor_log2 x < k"
    then have "pow2 (floor_log2 x + 1) \<le> pow2 k" by (intro pow2_mono) simp
    then show False using b(2) assms(1) by linarith
  qed
  moreover have "\<not> k < floor_log2 x"
  proof
    assume "k < floor_log2 x"
    then have "pow2 (k + 1) \<le> pow2 (floor_log2 x)" by (intro pow2_mono) simp
    then show False using b(1) assms(2) by linarith
  qed
  ultimately show ?thesis by linarith
qed

lemma floor_log2_mono:
  assumes "0 < x" "x \<le> y"
  shows "floor_log2 x \<le> floor_log2 y"
proof (rule ccontr)
  assume "\<not> floor_log2 x \<le> floor_log2 y"
  then have "pow2 (floor_log2 y + 1) \<le> pow2 (floor_log2 x)" by (intro pow2_mono) simp
  moreover have "0 < y" using assms by linarith
  ultimately show False
    using floor_log2_bounds(1) [OF assms(1)] floor_log2_bounds(2) [of y] assms(2) by linarith
qed

text \<open>Rounding to the nearest integer, ties to even.\<close>

lemma round_half_even_of_int [simp]: "round_half_even (of_int k) = k"
  by (simp add: round_half_even_def)

lemma round_half_even_zero [simp]: "round_half_even 0 = 0"
  by (simp add: round_half_even_def)

lemma round_half_even_mono:
  assumes "x \<le> y"
  shows "round_half_even x \<le> round_half_even y"
proof -
  have f: "\<lfloor>x\<rfloor> \<le> \<lfloor>y\<rfloor>" using assms by (rule floor_mono)
  have lo: "\<lfloor>y\<rfloor> \<le> round_half_even y" and hi: "round_half_even x \<le> \<lfloor>x\<rfloor> + 1"
    by (simp_all add: round_half_even_def Let_def)
  show ?thesis
  proof (cases "\<lfloor>x\<rfloor> = \<lfloor>y\<rfloor>")
    case True
    then show ?thesis using assms by (auto simp add: round_half_even_def Let_def)
  next
    case False
    then have "\<lfloor>x\<rfloor> + 1 \<le> \<lfloor>y\<rfloor>" using f by simp
    then show ?thesis using lo hi by linarith
  qed
qed

lemma round_half_even_ge: "of_int k \<le> y \<Longrightarrow> k \<le> round_half_even y"
  using round_half_even_mono [of "of_int k" y] by simp

lemma round_half_even_le: "y \<le> of_int k \<Longrightarrow> round_half_even y \<le> k"
  using round_half_even_mono [of y "of_int k"] by simp

lemma binary64_zero [simp]: "binary64 0 = 0"
  by (simp add: binary64_def)

lemma pow2_numeral: "pow2 52 = 2 ^ 52" "pow2 53 = 2 ^ 53"
  by (simp_all add: pow2_def)

text \<open>
  The significand \<open>x / 2 ^ e\<close> of a positive real lies below \<open>2 ^ 53\<close>, and at or above
  \<open>2 ^ 52\<close> outside the subnormal range.
\<close>

lemma scaled_less:
  assumes "0 < x"
  shows "x / pow2 (ulp_exponent x) < 2 ^ 53"
proof -
  have "floor_log2 x + 1 \<le> ulp_exponent x + 53"
    using assms by (simp add: ulp_exponent_def)
  then have "pow2 (floor_log2 x + 1) \<le> pow2 (ulp_exponent x + 53)" by (rule pow2_mono)
  then have "x < pow2 (ulp_exponent x + 53)"
    using floor_log2_bounds(2) [OF assms] by linarith
  then have "x < 2 ^ 53 * pow2 (ulp_exponent x)"
    by (simp add: pow2_add pow2_numeral mult.commute)
  then show ?thesis by (simp add: pos_divide_less_eq)
qed

lemma scaled_ge:
  assumes "0 < x" "- 1074 < ulp_exponent x"
  shows "2 ^ 52 \<le> x / pow2 (ulp_exponent x)"
proof -
  have "ulp_exponent x + 52 = floor_log2 x"
    using assms by (simp add: ulp_exponent_def split: if_splits)
  then have "pow2 (ulp_exponent x + 52) \<le> x"
    using floor_log2_bounds(1) [OF assms(1)] by simp
  then have "2 ^ 52 * pow2 (ulp_exponent x) \<le> x"
    by (simp add: pow2_add pow2_numeral mult.commute)
  then show ?thesis by (simp add: pos_le_divide_eq)
qed

lemma binary64_nonneg:
  assumes "0 \<le> x"
  shows "0 \<le> binary64 x"
proof (cases "x = 0")
  case True
  then show ?thesis by simp
next
  case False
  have "0 \<le> x / pow2 (ulp_exponent x)" using assms by simp
  then have "0 \<le> round_half_even (x / pow2 (ulp_exponent x))"
    using round_half_even_ge [of 0] by simp
  then show ?thesis using False by (simp add: binary64_def)
qed

lemma binary64_mono:
  assumes "0 \<le> x" "x \<le> y"
  shows "binary64 x \<le> binary64 y"
proof (cases "x = 0")
  case True
  then show ?thesis using binary64_nonneg [of y] assms by simp
next
  case False
  then have x: "0 < x" and y: "0 < y" using assms by linarith+
  let ?ex = "ulp_exponent x" and ?ey = "ulp_exponent y"
  have bx: "binary64 x = of_int (round_half_even (x / pow2 ?ex)) * pow2 ?ex"
    and by': "binary64 y = of_int (round_half_even (y / pow2 ?ey)) * pow2 ?ey"
    using x y by (simp_all add: binary64_def)
  have "floor_log2 x \<le> floor_log2 y" using x assms(2) by (rule floor_log2_mono)
  then have le: "?ex \<le> ?ey" using x y by (simp add: ulp_exponent_def)
  show ?thesis
  proof (cases "?ex = ?ey")
    case True
    have "x / pow2 ?ey \<le> y / pow2 ?ey" using assms(2) by (simp add: divide_right_mono)
    then have "round_half_even (x / pow2 ?ey) \<le> round_half_even (y / pow2 ?ey)"
      by (rule round_half_even_mono)
    then have "real_of_int (round_half_even (x / pow2 ?ey)) * pow2 ?ey \<le>
               real_of_int (round_half_even (y / pow2 ?ey)) * pow2 ?ey"
      by (intro mult_right_mono) simp_all
    then show ?thesis by (simp add: bx by' True)
  next
    case False
    then have lt: "?ex + 53 \<le> ?ey + 52" and ny: "- 1074 < ?ey"
      using le by (auto simp add: ulp_exponent_def max_def split: if_splits)
    have "x / pow2 ?ex \<le> real_of_int (2 ^ 53)" using scaled_less [OF x] by simp
    then have "round_half_even (x / pow2 ?ex) \<le> 2 ^ 53" by (rule round_half_even_le)
    then have "real_of_int (round_half_even (x / pow2 ?ex)) \<le> real_of_int (2 ^ 53)"
      by (simp only: of_int_le_iff)
    then have "real_of_int (round_half_even (x / pow2 ?ex)) * pow2 ?ex \<le> 2 ^ 53 * pow2 ?ex"
      by (intro mult_right_mono) simp_all
    then have 1: "binary64 x \<le> pow2 (?ex + 53)"
      by (simp add: bx pow2_add pow2_numeral mult.commute)
    have "real_of_int (2 ^ 52) \<le> y / pow2 ?ey" using scaled_ge [OF y ny] by simp
    then have "2 ^ 52 \<le> round_half_even (y / pow2 ?ey)" by (rule round_half_even_ge)
    then have "real_of_int (2 ^ 52) \<le> real_of_int (round_half_even (y / pow2 ?ey))"
      by (simp only: of_int_le_iff)
    then have "2 ^ 52 * pow2 ?ey \<le> real_of_int (round_half_even (y / pow2 ?ey)) * pow2 ?ey"
      by (intro mult_right_mono) simp_all
    then have 2: "pow2 (?ey + 52) \<le> binary64 y"
      by (simp add: by' pow2_add pow2_numeral mult.commute)
    have "pow2 (?ex + 53) \<le> pow2 (?ey + 52)" using lt by (rule pow2_mono)
    then show ?thesis using 1 2 by linarith
  qed
qed

lemma binary64_fixed_small:
  assumes e: "- 1074 \<le> e" and n: "0 < n" "n < 2 ^ 53"
  shows "binary64 (of_int n * pow2 e) = of_int n * pow2 e"
proof -
  let ?v = "real_of_int n * pow2 e"
  have v: "0 < ?v" using n(1) by simp
  let ?u = "ulp_exponent ?v"
  have "real_of_int n < real_of_int (2 ^ 53)" using n(2) by (simp only: of_int_less_iff)
  then have "?v < 2 ^ 53 * pow2 e" by simp
  then have "?v < pow2 (e + 53)" by (simp add: pow2_add pow2_numeral mult.commute)
  then have "pow2 (floor_log2 ?v) < pow2 (e + 53)"
    using floor_log2_bounds(1) [OF v] by linarith
  then have "floor_log2 ?v < e + 53"
    using pow2_mono [of "e + 53" "floor_log2 ?v"] by (cases "floor_log2 ?v < e + 53") simp_all
  then have u: "?u \<le> e" using e v by (simp add: ulp_exponent_def)
  have "pow2 e = pow2 ((e - ?u) + ?u)" by simp
  also have "\<dots> = pow2 (e - ?u) * pow2 ?u" by (rule pow2_add)
  also have "pow2 (e - ?u) = of_int (2 ^ nat (e - ?u))" using u by (intro pow2_of_nat) simp
  finally have p: "pow2 e = real_of_int (2 ^ nat (e - ?u)) * pow2 ?u" .
  have "?v / pow2 ?u = real_of_int n * real_of_int (2 ^ nat (e - ?u))"
    by (subst p) simp
  also have "\<dots> = real_of_int (n * 2 ^ nat (e - ?u))" by simp
  finally have s: "?v / pow2 ?u = real_of_int (n * 2 ^ nat (e - ?u))" .
  have nz: "?v \<noteq> 0" using v by linarith
  have "binary64 ?v = real_of_int (round_half_even (?v / pow2 ?u)) * pow2 ?u"
    by (simp only: binary64_def nz if_False)
  also have "\<dots> = real_of_int (n * 2 ^ nat (e - ?u)) * pow2 ?u"
    by (simp only: s round_half_even_of_int)
  also have "\<dots> = real_of_int n * (real_of_int (2 ^ nat (e - ?u)) * pow2 ?u)" by simp
  also have "\<dots> = ?v" by (simp only: p [symmetric])
  finally show ?thesis .
qed

lemma binary64_fixed:
  assumes e: "- 1074 \<le> e" and n: "0 \<le> n" "n \<le> 2 ^ 53"
  shows "binary64 (of_int n * pow2 e) = of_int n * pow2 e"
proof (cases "n = 0 \<or> n = 2 ^ 53")
  case False
  then show ?thesis using binary64_fixed_small [OF e, of n] n by simp
next
  case True
  then show ?thesis
  proof
    assume "n = 0"
    then show ?thesis by simp
  next
    assume top: "n = 2 ^ 53"
    have "real_of_int n * pow2 e = real_of_int (2 ^ 52) * (pow2 1 * pow2 e)"
      by (simp add: top pow2_def)
    also have "\<dots> = real_of_int (2 ^ 52) * pow2 (e + 1)"
      by (simp add: pow2_add mult.commute)
    finally have eq: "real_of_int n * pow2 e = real_of_int (2 ^ 52) * pow2 (e + 1)" .
    show ?thesis
      unfolding eq using e by (intro binary64_fixed_small) simp_all
  qed
qed

lemma binary64_idem:
  assumes "0 \<le> x"
  shows "binary64 (binary64 x) = binary64 x"
proof (cases "x = 0")
  case True
  then show ?thesis by simp
next
  case False
  then have x: "0 < x" using assms by simp
  let ?n = "round_half_even (x / pow2 (ulp_exponent x))"
  have b: "binary64 x = of_int ?n * pow2 (ulp_exponent x)"
    using False by (simp add: binary64_def)
  have "0 \<le> x / pow2 (ulp_exponent x)" using assms by simp
  then have lo: "0 \<le> ?n" using round_half_even_ge [of 0] by simp
  have "x / pow2 (ulp_exponent x) \<le> real_of_int (2 ^ 53)" using scaled_less [OF x] by simp
  then have hi: "?n \<le> 2 ^ 53" by (rule round_half_even_le)
  have "- 1074 \<le> ulp_exponent x" by (simp add: ulp_exponent_def)
  then show ?thesis unfolding b using lo hi by (rule binary64_fixed)
qed

lemma binary64_one [simp]: "binary64 1 = 1"
  using binary64_fixed [of 0 1] by (simp add: pow2_def)

lemma binary64_eval:
  assumes "pow2 (e + 52) \<le> x" "x < pow2 (e + 53)" "- 1074 \<le> e"
  shows "binary64 x = of_int (round_half_even (x / pow2 e)) * pow2 e"
proof -
  have x: "0 < x" using assms(1) pow2_pos [of "e + 52"] by linarith
  have "floor_log2 x = e + 52"
    using assms(1,2) by (intro floor_log2_unique) (simp_all add: add.commute add.left_commute)
  then have "ulp_exponent x = e" using x assms(3) by (simp add: ulp_exponent_def)
  then show ?thesis using x by (simp add: binary64_def)
qed

subsection \<open>Repeated gains on floats\<close>

text \<open>
  The factor and the computed gain never rise with the level, and a call leaves
  the level a binary64 number between the old level and 1.
\<close>

lemma c_bounds: "0 \<le> binary64 0.3" "binary64 0.3 \<le> 1"
proof -
  show "0 \<le> binary64 0.3" by (rule binary64_nonneg) simp
  have "binary64 0.3 \<le> binary64 1" by (rule binary64_mono) simp_all
  then show "binary64 0.3 \<le> 1" by simp
qed

lemma product_bounds:
  assumes "0 \<le> l" "l \<le> 1"
  shows "0 \<le> binary64 (l * binary64 0.3)" "binary64 (l * binary64 0.3) \<le> 1"
proof -
  have nn: "0 \<le> l * binary64 0.3" using assms(1) c_bounds(1) by simp
  then show "0 \<le> binary64 (l * binary64 0.3)" by (rule binary64_nonneg)
  have "l * binary64 0.3 \<le> 1 * 1"
    using assms c_bounds by (intro mult_mono) simp_all
  then have "binary64 (l * binary64 0.3) \<le> binary64 1"
    using nn by (intro binary64_mono) simp_all
  then show "binary64 (l * binary64 0.3) \<le> 1" by simp
qed

lemma diminishing_factor_nonneg:
  assumes "0 \<le> l" "l \<le> 1"
  shows "0 \<le> diminishing_factor_binary64 l"
  unfolding diminishing_factor_binary64_def
  using product_bounds [OF assms] by (intro binary64_nonneg) simp

lemma diminishing_factor_antimono:
  assumes "0 \<le> l" "l \<le> l'" "l' \<le> 1"
  shows "diminishing_factor_binary64 l' \<le> diminishing_factor_binary64 l"
proof -
  have "l * binary64 0.3 \<le> l' * binary64 0.3"
    using assms(2) c_bounds(1) by (intro mult_right_mono)
  moreover have "0 \<le> l * binary64 0.3" using assms(1) c_bounds(1) by simp
  ultimately have "binary64 (l * binary64 0.3) \<le> binary64 (l' * binary64 0.3)"
    by (intro binary64_mono)
  moreover have "binary64 (l' * binary64 0.3) \<le> 1"
    using assms by (intro product_bounds) simp_all
  ultimately show ?thesis
    unfolding diminishing_factor_binary64_def by (intro binary64_mono) simp_all
qed

lemma actual_gain_nonneg:
  assumes "0 \<le> a" "0 \<le> l" "l \<le> 1"
  shows "0 \<le> actual_gain_binary64 a l"
  unfolding actual_gain_binary64_def
  using assms(1) diminishing_factor_nonneg [OF assms(2,3)] by (intro binary64_nonneg) simp

lemma actual_gain_antimono:
  assumes "0 \<le> a" "0 \<le> l" "l \<le> l'" "l' \<le> 1"
  shows "actual_gain_binary64 a l' \<le> actual_gain_binary64 a l"
proof -
  have l': "0 \<le> l'" using assms by linarith
  have "a * diminishing_factor_binary64 l' \<le> a * diminishing_factor_binary64 l"
    using assms(1) diminishing_factor_antimono [OF assms(2,3,4)] by (intro mult_left_mono)
  moreover have "0 \<le> a * diminishing_factor_binary64 l'"
    using assms(1) diminishing_factor_nonneg [OF l' assms(4)] by simp
  ultimately show ?thesis
    unfolding actual_gain_binary64_def by (intro binary64_mono)
qed

lemma new_level_bounds:
  assumes "0 \<le> a" "0 \<le> l" "l \<le> 1" "binary64 l = l"
  shows "l \<le> new_level_binary64 a l" "new_level_binary64 a l \<le> 1"
    "binary64 (new_level_binary64 a l) = new_level_binary64 a l"
    "0 \<le> binary64 (new_level_binary64 a l - l)"
proof -
  have g: "0 \<le> actual_gain_binary64 a l" by (rule actual_gain_nonneg [OF assms(1,2,3)])
  have "binary64 l \<le> binary64 (l + actual_gain_binary64 a l)"
    using assms(2) g by (intro binary64_mono) simp_all
  then have s: "l \<le> binary64 (l + actual_gain_binary64 a l)" by (simp add: assms(4))
  then show 1: "l \<le> new_level_binary64 a l"
    using assms(3) by (simp add: new_level_binary64_def)
  show "new_level_binary64 a l \<le> 1" by (simp add: new_level_binary64_def)
  have "binary64 (binary64 (l + actual_gain_binary64 a l)) = binary64 (l + actual_gain_binary64 a l)"
    using assms(2) g by (intro binary64_idem) simp
  then show "binary64 (new_level_binary64 a l) = new_level_binary64 a l"
    by (simp add: new_level_binary64_def min_def)
  show "0 \<le> binary64 (new_level_binary64 a l - l)"
    using 1 by (intro binary64_nonneg) simp
qed

lemma length_gain_entries [simp]: "length (gain_entries n cat a src ok l) = n"
  by (induction n arbitrary: l) simp_all

lemma gain_entries_levels:
  assumes "0 \<le> a"
  shows "0 \<le> l \<Longrightarrow> l \<le> 1 \<Longrightarrow> binary64 l = l \<Longrightarrow>
   list_all (\<lambda>ev. l \<le> old_level ev \<and> old_level ev \<le> new_level ev \<and> new_level ev \<le> 1 \<and>
                  0 \<le> amount_gained ev \<and>
                  new_level ev = new_level_binary64 a (old_level ev))
     (gain_entries n cat a src ok l)"
proof (induction n arbitrary: l)
  case 0
  show ?case by simp
next
  case (Suc n)
  note b = new_level_bounds [OF assms Suc.prems]
  have nn: "0 \<le> new_level_binary64 a l" using b(1) Suc.prems(1) by linarith
  have "list_all (\<lambda>ev. new_level_binary64 a l \<le> old_level ev \<and> old_level ev \<le> new_level ev \<and>
                  new_level ev \<le> 1 \<and> 0 \<le> amount_gained ev \<and>
                  new_level ev = new_level_binary64 a (old_level ev))
          (gain_entries n cat a src ok (new_level_binary64 a l))"
    by (rule Suc.IH [OF nn b(2) b(3)])
  then have "list_all (\<lambda>ev. l \<le> old_level ev \<and> old_level ev \<le> new_level ev \<and>
                  new_level ev \<le> 1 \<and> 0 \<le> amount_gained ev \<and>
                  new_level ev = new_level_binary64 a (old_level ev))
          (gain_entries n cat a src ok (new_level_binary64 a l))"
    using b(1) by (auto simp add: list_all_iff)
  then show ?case using b by simp
qed

lemma gain_entries_sorted:
  assumes "0 \<le> a"
  shows "0 \<le> l \<Longrightarrow> l \<le> 1 \<Longrightarrow> binary64 l = l \<Longrightarrow>
   sorted (map old_level (gain_entries n cat a src ok l)) \<and>
   sorted_wrt (\<lambda>g g'. g' \<le> g)
     (map (\<lambda>ev. actual_gain_binary64 a (old_level ev)) (gain_entries n cat a src ok l))"
proof (induction n arbitrary: l)
  case 0
  show ?case by simp
next
  case (Suc n)
  note b = new_level_bounds [OF assms Suc.prems]
  have nn: "0 \<le> new_level_binary64 a l" using b(1) Suc.prems(1) by linarith
  note ih = Suc.IH [OF nn b(2) b(3)]
  have lv: "list_all (\<lambda>ev. new_level_binary64 a l \<le> old_level ev \<and> old_level ev \<le> new_level ev \<and>
                  new_level ev \<le> 1 \<and> 0 \<le> amount_gained ev \<and>
                  new_level ev = new_level_binary64 a (old_level ev))
          (gain_entries n cat a src ok (new_level_binary64 a l))"
    by (rule gain_entries_levels [OF assms nn b(2) b(3)])
  have 1: "\<forall>ev \<in> set (gain_entries n cat a src ok (new_level_binary64 a l)). l \<le> old_level ev"
    using lv b(1) by (auto simp add: list_all_iff)
  have 2: "\<forall>ev \<in> set (gain_entries n cat a src ok (new_level_binary64 a l)).
             actual_gain_binary64 a (old_level ev) \<le> actual_gain_binary64 a l"
  proof
    fix ev
    assume "ev \<in> set (gain_entries n cat a src ok (new_level_binary64 a l))"
    then have "l \<le> old_level ev" "old_level ev \<le> 1"
      using lv b(1) by (auto simp add: list_all_iff)
    then show "actual_gain_binary64 a (old_level ev) \<le> actual_gain_binary64 a l"
      using assms Suc.prems(1) by (intro actual_gain_antimono)
  qed
  show ?case using ih 1 2 by simp
qed

lemma gain_experience_binary64_step:
  assumes "map_of (get_experience_dict e) cat = Some l" "0 \<le> a" "cat \<in> set experience_categories"
  shows "map_of (get_experience_dict (snd (gain_experience_binary64 cat a src ok e))) cat =
           Some (new_level_binary64 a l)"
    and "experience_history (snd (gain_experience_binary64 cat a src ok e)) =
           experience_history e @ gain_entries 1 cat a src ok l"
  using assms
  by (simp_all add: gain_experience_binary64_def Let_def get_experience_dict_def
      ExperienceLevels_setattr_def experience_categories_def, auto)

lemma gain_repeatedly_binary64_history:
  "cat \<in> set experience_categories \<Longrightarrow> 0 \<le> a \<Longrightarrow>
   map_of (get_experience_dict e) cat = Some l \<Longrightarrow>
   experience_history (gain_repeatedly_binary64 n cat a src ok e) =
     experience_history e @ gain_entries n cat a src ok l"
proof (induction n arbitrary: e l)
  case 0
  show ?case by simp
next
  case (Suc n)
  let ?e = "snd (gain_experience_binary64 cat a src ok e)"
  have 1: "map_of (get_experience_dict ?e) cat = Some (new_level_binary64 a l)"
    and 2: "experience_history ?e = experience_history e @ gain_entries 1 cat a src ok l"
    using gain_experience_binary64_step [OF Suc.prems(3) Suc.prems(2) Suc.prems(1)] by simp_all
  show ?case
    using Suc.IH [OF Suc.prems(1) Suc.prems(2) 1] by (simp add: 2)
qed

text \<open>
  Two calls from the float below 0.125, operation by operation. The values are
  those CPython computes: \<^verbatim>\<open>0.3\<close> is \<open>5404319552844595 / 2 ^ 54\<close>, the factor is
  \<open>8669429282688205 / 2 ^ 53\<close> in both calls, the gain \<open>77 / 2 ^ 62\<close>.
\<close>

lemma binary64_evalI:
  assumes "pow2 (e + 52) \<le> x" "x < pow2 (e + 53)" "- 1074 \<le> e"
    and "round_half_even (x / pow2 e) = n" and "of_int n * pow2 e = v"
  shows "binary64 x = v"
  using binary64_eval [OF assms(1,2,3)] assms(4,5) by simp

lemma binary64_three_tenths: "binary64 0.3 = 5404319552844595 / 2 ^ 54"
  by (rule binary64_evalI [where e = "- 54" and n = 5404319552844595])
    (simp_all add: pow2_def round_half_even_def Let_def)

lemma low_level_step:
  "binary64 ((1 / 8 - 1 / 2 ^ 56) * (5404319552844595 / 2 ^ 54)) = 5404319552844594 / 2 ^ 57"
  "binary64 (1.0 - 5404319552844594 / 2 ^ 57) = 8669429282688205 / 2 ^ 53"
  "binary64 (5 / 2 ^ 58 * (8669429282688205 / 2 ^ 53)) = 77 / 2 ^ 62"
  "binary64 (1 / 8 - 1 / 2 ^ 56 + 77 / 2 ^ 62) = 1 / 8"
  "binary64 (1 / 8 - (1 / 8 - 1 / 2 ^ 56)) = 1 / 2 ^ 56"
proof -
  show "binary64 ((1 / 8 - 1 / 2 ^ 56) * (5404319552844595 / 2 ^ 54)) = 5404319552844594 / 2 ^ 57"
    by (rule binary64_evalI [where e = "- 57" and n = 5404319552844594])
      (simp_all add: pow2_def round_half_even_def Let_def)
  show "binary64 (1.0 - 5404319552844594 / 2 ^ 57) = 8669429282688205 / 2 ^ 53"
    by (rule binary64_evalI [where e = "- 53" and n = 8669429282688205])
      (simp_all add: pow2_def round_half_even_def Let_def)
  show "binary64 (5 / 2 ^ 58 * (8669429282688205 / 2 ^ 53)) = 77 / 2 ^ 62"
    by (rule binary64_evalI [where e = "- 108" and n = 5418393301680128])
      (simp_all add: pow2_def round_half_even_def Let_def)
  show "binary64 (1 / 8 - 1 / 2 ^ 56 + 77 / 2 ^ 62) = 1 / 8"
    by (rule binary64_evalI [where e = "- 55" and n = 4503599627370496])
      (simp_all add: pow2_def round_half_even_def Let_def)
  show "binary64 (1 / 8 - (1 / 8 - 1 / 2 ^ 56)) = 1 / 2 ^ 56"
    by (rule binary64_evalI [where e = "- 108" and n = 4503599627370496])
      (simp_all add: pow2_def round_half_even_def Let_def)
qed

lemma eighth_step:
  "binary64 (1 / 8 * (5404319552844595 / 2 ^ 54)) = 5404319552844595 / 2 ^ 57"
  "binary64 (1.0 - 5404319552844595 / 2 ^ 57) = 8669429282688205 / 2 ^ 53"
  "binary64 (1 / 8 + 77 / 2 ^ 62) = 1 / 8 + 1 / 2 ^ 55"
  "binary64 (1 / 8 + 1 / 2 ^ 55 - 1 / 8) = 1 / 2 ^ 55"
proof -
  show "binary64 (1 / 8 * (5404319552844595 / 2 ^ 54)) = 5404319552844595 / 2 ^ 57"
    by (rule binary64_evalI [where e = "- 57" and n = 5404319552844595])
      (simp_all add: pow2_def round_half_even_def Let_def)
  show "binary64 (1.0 - 5404319552844595 / 2 ^ 57) = 8669429282688205 / 2 ^ 53"
    by (rule binary64_evalI [where e = "- 53" and n = 8669429282688205])
      (simp_all add: pow2_def round_half_even_def Let_def)
  show "binary64 (1 / 8 + 77 / 2 ^ 62) = 1 / 8 + 1 / 2 ^ 55"
    by (rule binary64_evalI [where e = "- 55" and n = 4503599627370497])
      (simp_all add: pow2_def round_half_even_def Let_def)
  show "binary64 (1 / 8 + 1 / 2 ^ 55 - 1 / 8) = 1 / 2 ^ 55"
    by (rule binary64_evalI [where e = "- 107" and n = 4503599627370496])
      (simp_all add: pow2_def round_half_even_def Let_def)
qed

lemma low_level_new: "new_level_binary64 (5 / 2 ^ 58) (1 / 8 - 1 / 2 ^ 56) = 1 / 8"
proof -
  have "new_level_binary64 (5 / 2 ^ 58) (1 / 8 - 1 / 2 ^ 56) = min 1.0 (1 / 8)"
    unfolding new_level_binary64_def actual_gain_binary64_def diminishing_factor_binary64_def
    by (simp only: binary64_three_tenths low_level_step)
  then show ?thesis by simp
qed

lemma eighth_new: "new_level_binary64 (5 / 2 ^ 58) (1 / 8) = 1 / 8 + 1 / 2 ^ 55"
proof -
  have "new_level_binary64 (5 / 2 ^ 58) (1 / 8) = min 1.0 (1 / 8 + 1 / 2 ^ 55)"
    unfolding new_level_binary64_def actual_gain_binary64_def diminishing_factor_binary64_def
    by (simp only: binary64_three_tenths eighth_step low_level_step)
  then show ?thesis by simp
qed

lemma low_level_entries:
  "gain_entries 2 cat (5 / 2 ^ 58) src ok (1 / 8 - 1 / 2 ^ 56) =
     [\<lparr>category = cat, amount_attempted = 5 / 2 ^ 58, amount_gained = 1 / 2 ^ 56,
       source = src, success = ok, old_level = 1 / 8 - 1 / 2 ^ 56, new_level = 1 / 8\<rparr>,
      \<lparr>category = cat, amount_attempted = 5 / 2 ^ 58, amount_gained = 1 / 2 ^ 55,
       source = src, success = ok, old_level = 1 / 8, new_level = 1 / 8 + 1 / 2 ^ 55\<rparr>]"
proof -
  have 2: "gain_entries 2 cat (5 / 2 ^ 58) src ok (1 / 8 - 1 / 2 ^ 56) =
             gain_entries (Suc (Suc 0)) cat (5 / 2 ^ 58) src ok (1 / 8 - 1 / 2 ^ 56)"
    by (simp add: numeral_2_eq_2)
  show ?thesis
    unfolding 2 gain_entries.simps low_level_new eighth_new
    by (simp only: low_level_step(5) eighth_step(4))
qed

lemma binary64_level:
  "binary64_levels e \<Longrightarrow> map_of (get_experience_dict e) cat = Some l \<Longrightarrow> binary64 l = l"
  by (auto simp add: binary64_levels_def get_experience_dict_def split: if_splits)

lemma low_level_valid:
  "ExperienceLevels_post_init low_level = Inr low_level"
  "binary64_levels low_level"
proof -
  show "ExperienceLevels_post_init low_level = Inr low_level"
    by (simp add: ExperienceLevels_post_init_def low_level_def ExperienceLevels_default_def
        get_experience_dict_def in_unit_range_def)
  have "binary64 (of_int (2 ^ 53 - 1) * pow2 (- 56)) = of_int (2 ^ 53 - 1) * pow2 (- 56)"
    by (rule binary64_fixed) simp_all
  then have "binary64 (1 / 8 - 1 / 2 ^ 56) = 1 / 8 - 1 / 2 ^ 56"
    by (simp add: pow2_def)
  then show "binary64_levels low_level"
    by (simp add: binary64_levels_def low_level_def ExperienceLevels_default_def
        get_experience_dict_def)
qed

lemma low_level_history:
  "entries_since low_level
     (gain_repeatedly_binary64 2 ''leadership'' (5 / 2 ^ 58) ''practice'' True low_level) =
   gain_entries 2 ''leadership'' (5 / 2 ^ 58) ''practice'' True (1 / 8 - 1 / 2 ^ 56)"
proof -
  have "experience_history
          (gain_repeatedly_binary64 2 ''leadership'' (5 / 2 ^ 58) ''practice'' True low_level) =
        experience_history low_level @
        gain_entries 2 ''leadership'' (5 / 2 ^ 58) ''practice'' True (1 / 8 - 1 / 2 ^ 56)"
    by (rule gain_repeatedly_binary64_history)
      (simp_all add: experience_categories_def low_level_def get_experience_dict_def)
  then show ?thesis by (simp add: entries_since_def)
qed



section \<open>Relationships: the empty matrix and a rescue\<close>

text \<open>
  Claim C7: a RelationshipMatrix with no partner entries (\<^verbatim>\<open>RelationshipMatrix()\<close>)
  has social isolation exactly 1.0 and social influence exactly 0.0.
\<close>

theorem empty_matrix_isolated:
  "relationships RelationshipMatrix_default = [] \<and>
   calculate_social_isolation RelationshipMatrix_default = 1.0 \<and>
   calculate_social_influence RelationshipMatrix_default = 0.0"
  by (simp add: RelationshipMatrix_default_def calculate_social_isolation_def
      calculate_social_influence_def)

lemma update_dimension_trust:
  "update_dimension ''trust'' d why True now r =
     (Inr (),
      r\<lparr>trust := max 0 (min 1 (trust r + d * (1 + get_closeness r))),
        relationship_history := relationship_history r @
          [\<lparr>dimension = ''trust'', old_value = trust r,
            new_value = max 0 (min 1 (trust r + d * (1 + get_closeness r))),
            change = d * (1 + get_closeness r), reason = why, change_timestamp = now\<rparr>]\<rparr>)"
  by (simp add: update_dimension_def RelationshipDimensions_attributes_def dimension_names_def
      RelationshipDimensions_getattr_def RelationshipDimensions_setattr_def Let_def)

lemma update_dimension_respect:
  "update_dimension ''respect'' d why True now r =
     (Inr (),
      r\<lparr>respect := max 0 (min 1 (respect r + d * (1 + get_closeness r))),
        relationship_history := relationship_history r @
          [\<lparr>dimension = ''respect'', old_value = respect r,
            new_value = max 0 (min 1 (respect r + d * (1 + get_closeness r))),
            change = d * (1 + get_closeness r), reason = why, change_timestamp = now\<rparr>]\<rparr>)"
  by (simp add: update_dimension_def RelationshipDimensions_attributes_def dimension_names_def
      RelationshipDimensions_getattr_def RelationshipDimensions_setattr_def Let_def)

lemma update_dimension_affection:
  "update_dimension ''affection'' d why True now r =
     (Inr (),
      r\<lparr>affection := max 0 (min 1 (affection r + d * (1 + get_closeness r))),
        relationship_history := relationship_history r @
          [\<lparr>dimension = ''affection'', old_value = affection r,
            new_value = max 0 (min 1 (affection r + d * (1 + get_closeness r))),
            change = d * (1 + get_closeness r), reason = why, change_timestamp = now\<rparr>]\<rparr>)"
  by (simp add: update_dimension_def RelationshipDimensions_attributes_def dimension_names_def
      RelationshipDimensions_getattr_def RelationshipDimensions_setattr_def Let_def)

lemma update_dimension_dependency:
  "update_dimension ''dependency'' d why True now r =
     (Inr (),
      r\<lparr>dependency := max 0 (min 1 (dependency r + d * (1 + get_closeness r))),
        relationship_history := relationship_history r @
          [\<lparr>dimension = ''dependency'', old_value = dependency r,
            new_value = max 0 (min 1 (dependency r + d * (1 + get_closeness r))),
            change = d * (1 + get_closeness r), reason = why, change_timestamp = now\<rparr>]\<rparr>)"
  by (simp add: update_dimension_def RelationshipDimensions_attributes_def dimension_names_def
      RelationshipDimensions_getattr_def RelationshipDimensions_setattr_def Let_def)

lemma saved_from_danger_changes:
  "map_of relationship_events ''saved_from_danger'' =
     Some [(''trust'', 0.25), (''respect'', 0.2), (''affection'', 0.2), (''dependency'', 0.15)]"
  by (simp add: relationship_events_def)

lemma saved_from_danger_result:
  "apply_relationship_event ''saved_from_danger'' 1.0 clock RelationshipDimensions_default =
     (Inr (),
      \<lparr>trust = 5/6, respect = 71/90, affection = 71/90, dependency = 52/225, fear = 0,
       relationship_history =
         [\<lparr>dimension = ''trust'', old_value = 0.5, new_value = 5/6, change = 1/3,
           reason = ''saved_from_danger'', change_timestamp = clock 0\<rparr>,
          \<lparr>dimension = ''respect'', old_value = 0.5, new_value = 71/90, change = 13/45,
           reason = ''saved_from_danger'', change_timestamp = clock 1\<rparr>,
          \<lparr>dimension = ''affection'', old_value = 0.5, new_value = 71/90, change = 13/45,
           reason = ''saved_from_danger'', change_timestamp = clock 2\<rparr>,
          \<lparr>dimension = ''dependency'', old_value = 0, new_value = 52/225, change = 52/225,
           reason = ''saved_from_danger'', change_timestamp = clock 3\<rparr>]\<rparr>)"
proof -
  let ?why = "''saved_from_danger''"
  let ?h1 = "\<lparr>dimension = ''trust'', old_value = 0.5, new_value = 5/6, change = 1/3,
              reason = ?why, change_timestamp = clock 0\<rparr>"
  let ?h2 = "\<lparr>dimension = ''respect'', old_value = 0.5, new_value = 71/90, change = 13/45,
              reason = ?why, change_timestamp = clock 1\<rparr>"
  let ?h3 = "\<lparr>dimension = ''affection'', old_value = 0.5, new_value = 71/90, change = 13/45,
              reason = ?why, change_timestamp = clock 2\<rparr>"
  let ?h4 = "\<lparr>dimension = ''dependency'', old_value = 0, new_value = 52/225, change = 52/225,
              reason = ?why, change_timestamp = clock 3\<rparr>"
  let ?r0 = "\<lparr>trust = 1/2, respect = 1/2, affection = 1/2, dependency = 0, fear = 0,
              relationship_history = []\<rparr>"
  let ?r1 = "\<lparr>trust = 5/6, respect = 1/2, affection = 1/2, dependency = 0, fear = 0,
              relationship_history = [?h1]\<rparr>"
  let ?r2 = "\<lparr>trust = 5/6, respect = 71/90, affection = 1/2, dependency = 0, fear = 0,
              relationship_history = [?h1, ?h2]\<rparr>"
  let ?r3 = "\<lparr>trust = 5/6, respect = 71/90, affection = 71/90, dependency = 0, fear = 0,
              relationship_history = [?h1, ?h2, ?h3]\<rparr>"
  let ?r4 = "\<lparr>trust = 5/6, respect = 71/90, affection = 71/90, dependency = 52/225, fear = 0,
              relationship_history = [?h1, ?h2, ?h3, ?h4]\<rparr>"
  have d: "RelationshipDimensions_default = ?r0"
    by (simp add: RelationshipDimensions_default_def)
  have 1: "update_dimension ''trust'' (0.25 * 1.0) ?why True (clock 0) ?r0 = (Inr (), ?r1)"
    by (simp add: update_dimension_trust get_closeness_def)
  have 2: "update_dimension ''respect'' (0.2 * 1.0) ?why True (clock (Suc 0)) ?r1 = (Inr (), ?r2)"
    by (simp add: update_dimension_respect get_closeness_def)
  have 3: "update_dimension ''affection'' (0.2 * 1.0) ?why True (clock (Suc (Suc 0))) ?r2 =
             (Inr (), ?r3)"
    by (simp add: update_dimension_affection get_closeness_def numeral_2_eq_2)
  have 4: "update_dimension ''dependency'' (0.15 * 1.0) ?why True (clock (Suc (Suc (Suc 0)))) ?r3 =
             (Inr (), ?r4)"
    by (simp add: update_dimension_dependency get_closeness_def numeral_3_eq_3)
  show ?thesis
    unfolding apply_relationship_event_def saved_from_danger_changes d
    by (simp only: apply_changes.simps 1 2 3 4 prod.case sum.case option.case)
qed

text \<open>
  Claim C5: the default RelationshipDimensions has trust, respect and affection
  0.5, dependency and fear 0.0, and type "neutral"; after
  \<^verbatim>\<open>apply_relationship_event('saved_from_danger')\<close> with strength 1.0, which
  returns without raising, the type is "friend" (trust 5/6, respect and
  affection 71/90, dependency 52/225: sentiment about 0.607, closeness about
  0.618), whatever the clock reads.
\<close>

theorem saved_from_danger_makes_friend:
  "trust RelationshipDimensions_default = 0.5 \<and>
   respect RelationshipDimensions_default = 0.5 \<and>
   affection RelationshipDimensions_default = 0.5 \<and>
   dependency RelationshipDimensions_default = 0.0 \<and>
   fear RelationshipDimensions_default = 0.0 \<and>
   get_relationship_type RelationshipDimensions_default = ''neutral'' \<and>
   fst (apply_relationship_event ''saved_from_danger'' 1.0 clock RelationshipDimensions_default)
     = Inr () \<and>
   get_relationship_type
     (snd (apply_relationship_event ''saved_from_danger'' 1.0 clock
             RelationshipDimensions_default)) = ''friend''"
  unfolding saved_from_danger_result
  by (simp add: RelationshipDimensions_default_def get_relationship_type_def
      get_overall_sentiment_def get_closeness_def Let_def)

section \<open>Resting\<close>

lemma rest_gains_nothing: "gain_experience_from_action REST ok e = (Inr [], e)"
  by (simp add: gain_experience_from_action_def EXPERIENCE_MAPPINGS_def)

lemma rest_energy_cost: "energy_cost (get_action_metadata REST) = - 0.4"
  by (simp add: get_action_metadata_def ACTION_METADATA_def)

lemma rest_physical_effects:
  assumes "in_unit_range (health n)" "in_unit_range (hunger_level n)" "in_unit_range (energy_level n)"
  shows "energy_level (apply_action_physical_effects REST True outcome n) =
           min 1 (energy_level n + 0.8)"
    and "health (apply_action_physical_effects REST True outcome n) =
           (if health n < 0.8 then min 1 (health n + 0.1) else health n)"
    and "hunger_level (apply_action_physical_effects REST True outcome n) = hunger_level n"
  using assms
  by (simp_all add: apply_action_physical_effects_def rest_energy_cost update_physical_state_def
      in_unit_range_def Let_def min_def max_def)

lemma perform_rest:
  "outcome_opt = None \<or> outcome_opt = Some no_outcome \<Longrightarrow>
   perform_action REST ok outcome_opt clock now n =
     (Inr [],
      apply_action_physical_effects REST ok no_outcome
        (n\<lparr>last_action := Some ''rest'', last_action_success := Some ok,
           experience := experience n\<rparr>))"
  by (auto simp add: perform_action_def Let_def rest_gains_nothing no_outcome_def)

text \<open>
  Claim C9: for an NPCState whose vitals lie in [0, 1] (what \<^verbatim>\<open>__post_init__\<close>
  checks and \<^verbatim>\<open>update_physical_state\<close> keeps), \<^verbatim>\<open>perform_action(REST, True)\<close> with
  no outcome data or an empty dict returns an empty experience result and leaves
  energy at \<open>min 1 (e + 0.8)\<close>: the metadata cost -0.4 enters as +0.4, the REST
  branch adds 0.4. Health becomes \<open>min 1 (h + 0.1)\<close> when \<open>h < 0.8\<close> and is
  unchanged otherwise; hunger is unchanged.
\<close>

theorem rest_restores_energy:
  assumes "list_all in_unit_range [health n, hunger_level n, energy_level n]"
    and "outcome_opt = None \<or> outcome_opt = Some no_outcome"
  shows "fst (perform_action REST True outcome_opt clock now n) = Inr [] \<and>
         energy_level (snd (perform_action REST True outcome_opt clock now n)) =
           min 1 (energy_level n + 0.8) \<and>
         health (snd (perform_action REST True outcome_opt clock now n)) =
           (if health n < 0.8 then min 1 (health n + 0.1) else health n) \<and>
         hunger_level (snd (perform_action REST True outcome_opt clock now n)) = hunger_level n"
proof -
  let ?n = "n\<lparr>last_action := Some ''rest'', last_action_success := Some True,
              experience := experience n\<rparr>"
  have r: "in_unit_range (health ?n)" "in_unit_range (hunger_level ?n)"
    "in_unit_range (energy_level ?n)"
    using assms(1) by simp_all
  show ?thesis
    unfolding perform_rest [OF assms(2)]
    using rest_physical_effects [OF r, of no_outcome] by simp
qed

theorem rest_restores_energy_witness:
  "list_all in_unit_range [health example_npc, hunger_level example_npc, energy_level example_npc] \<and>
   ((None :: outcome_data option) = None \<or> None = Some no_outcome) \<and>
   fst (perform_action REST True None (\<lambda>k. ''2024-01-02T08:00:00'') ''2024-01-02T08:00:00'' example_npc) = Inr [] \<and>
   energy_level (snd (perform_action REST True None (\<lambda>k. ''2024-01-02T08:00:00'') ''2024-01-02T08:00:00'' example_npc)) = 1 \<and>
   health (snd (perform_action REST True None (\<lambda>k. ''2024-01-02T08:00:00'') ''2024-01-02T08:00:00'' example_npc)) = 0.8"
proof -
  have 1: "list_all in_unit_range
             [health example_npc, hunger_level example_npc, energy_level example_npc]"
    by (simp add: example_npc_def NPCState_defaults_def in_unit_range_def)
  have 2: "(None :: outcome_data option) = None \<or> None = Some no_outcome" by simp
  show ?thesis
    using 1 rest_restores_energy [OF 1 2, of "\<lambda>k. ''2024-01-02T08:00:00''" "''2024-01-02T08:00:00''"]
    by (simp add: example_npc_def NPCState_defaults_def)
qed

section \<open>Rejection of invalid input\<close>

text \<open>
  Where the rejection happens before any write, the object after the call is the
  object before it.
\<close>

lemma gain_experience_rejects:
  "cat \<notin> set experience_categories \<or> amount < 0 \<Longrightarrow>
   gain_experience cat amount src ok e = (Inl ValueError, e)"
  by (auto simp add: gain_experience_def experience_categories_def get_experience_dict_def)

lemma update_dimension_rejects:
  "dn \<notin> set dimension_names \<Longrightarrow>
   update_dimension dn delta why cm now r = (Inl ValueError, r) \<or>
   update_dimension dn delta why cm now r = (Inl TypeError, r)"
  by (auto simp add: update_dimension_def dimension_names_def RelationshipDimensions_getattr_def)

lemma apply_relationship_event_rejects:
  "ev \<notin> set (map fst relationship_events) \<Longrightarrow>
   apply_relationship_event ev strength clock r = (Inl ValueError, r)"
  by (simp add: apply_relationship_event_def map_of_eq_None_iff [THEN iffD2])

lemma add_trauma_rejects:
  "impact < 0 \<or> a < 0 \<Longrightarrow>
   add_trauma ev impact a descr related now s = (Inl ValueError, s)"
  by (auto simp add: add_trauma_def)

lemma set_trait_rejects_value:
  "\<not> (0 \<le> v \<and> v \<le> 1) \<Longrightarrow> set_trait n v p = (Inl ValueError, p)"
  by (auto simp add: set_trait_def)

lemma interact_with_npc_unknown_type:
  "interaction_type \<notin> set (map fst interaction_effects) \<Longrightarrow>
   interact_with_npc target interaction_type outcome clock now n =
     (Inr (Interaction_Error (''Unknown interaction type: '' @ interaction_type)), n)"
  by (simp add: interact_with_npc_def map_of_eq_None_iff [THEN iffD2])

text \<open>
  Claim C4 against the code: \<^verbatim>\<open>set_trait\<close> tests the name with \<^verbatim>\<open>hasattr\<close>, which
  holds for a method name as well as for a trait. \<^verbatim>\<open>'to_dict'\<close> is not a trait, yet
  \<^verbatim>\<open>PersonalityTraits().set_trait('to_dict', 0.5)\<close> returns normally and
  \<^verbatim>\<open>setattr\<close> stores 0.5 on the instance under that name (shadowing the method):
  the object has changed, and its \<^verbatim>\<open>to_dict()\<close>, which worked before, now raises
  TypeError. (\<^verbatim>\<open>gain_experience\<close> tests membership in the dict of
  categories instead, and rejects every name that is not a category.)
\<close>

theorem set_trait_accepts_method_name:
  "''to_dict'' \<notin> set trait_names \<and>
   set_trait ''to_dict'' 0.5 PersonalityTraits_default =
     (Inr (), PersonalityTraits_default\<lparr>instance_attrs := [(''to_dict'', 0.5)]\<rparr>) \<and>
   snd (set_trait ''to_dict'' 0.5 PersonalityTraits_default) \<noteq> PersonalityTraits_default \<and>
   PersonalityTraits_to_dict PersonalityTraits_default \<noteq> Inl TypeError \<and>
   PersonalityTraits_to_dict (snd (set_trait ''to_dict'' 0.5 PersonalityTraits_default)) =
     Inl TypeError"
  by (simp add: trait_names_def set_trait_def PersonalityTraits_hasattr_def
      PersonalityTraits_methods_def PersonalityTraits_setattr_def PersonalityTraits_default_def
      PersonalityTraits_to_dict_def)

text \<open>
  At the level of the matrix, \<^verbatim>\<open>apply_relationship_event(partner, event)\<close> fetches
  the partner's entry, creating it when absent, before the event name is
  checked: an unknown event raises and leaves the new neutral entry behind.
\<close>

lemma unknown_event_creates_entry:
  "''no_such_event'' \<notin> set (map fst relationship_events) \<and>
   matrix_apply_relationship_event ''bob'' ''no_such_event'' 1.0 clock RelationshipMatrix_default =
     (Inl ValueError, \<lparr>relationships = [(''bob'', RelationshipDimensions_default)]\<rparr>)"
  by (simp add: matrix_apply_relationship_event_def get_relationship_def
      RelationshipMatrix_default_def apply_relationship_event_def relationship_events_def)

section \<open>Serialization round trip\<close>

lemma and_then_Inr [simp]: "and_then (Inr x) f = f x"
  by (simp add: and_then_def)

lemma and_then_Inl [simp]: "and_then (Inl e) f = Inl e"
  by (simp add: and_then_def)

lemma dict_item_Some [simp]: "dict_item (Some x) = Inr x"
  by (simp add: dict_item_def)

lemma dict_item_None [simp]: "dict_item None = Inl KeyError"
  by (simp add: dict_item_def)

lemma dict_get_Some [simp]: "dict_get d (Some x) = x"
  by (simp add: dict_get_def)

lemma dict_get_None [simp]: "dict_get d None = d"
  by (simp add: dict_get_def)

lemma datetime_fromisoformat_Some [simp]:
  "fromisoformat t = Some x \<Longrightarrow> datetime_fromisoformat fromisoformat t = Inr x"
  by (simp add: datetime_fromisoformat_def)

lemma datetime_fromisoformat_None [simp]:
  "fromisoformat t = None \<Longrightarrow> datetime_fromisoformat fromisoformat t = Inl ValueError"
  by (simp add: datetime_fromisoformat_def)

text \<open>
  The round trip of each component, for a value that passes its own
  \<^verbatim>\<open>__post_init__\<close> and whose times are read back as written. For a personality
  and a character it gives back the fields, provided that no instance attribute
  shadows the method \<^verbatim>\<open>to_dict\<close>; when one does, \<^verbatim>\<open>to_dict\<close> raises TypeError.
\<close>

lemma personality_round_trip:
  assumes "PersonalityTraits_post_init p = Inr p"
    and "''to_dict'' \<notin> set (map fst (instance_attrs p))"
  shows "and_then (PersonalityTraits_to_dict p) PersonalityTraits_from_dict =
           Inr (PersonalityTraits_fields p)"
proof -
  have eq: "\<lparr>greed = greed p, sociability = sociability p, laziness = laziness p,
         ambition = ambition p, forgiveness = forgiveness p, courage = courage p,
         analytical = analytical p, impulsiveness = impulsiveness p,
         instance_attrs = []\<rparr> = PersonalityTraits_fields p"
    by (cases p) (simp add: PersonalityTraits_fields_def)
  have v: "list_all in_unit_range (PersonalityTraits_values p)"
    using assms(1) by (simp add: PersonalityTraits_post_init_def split: if_splits)
  have "PersonalityTraits_post_init (PersonalityTraits_fields p) =
          Inr (PersonalityTraits_fields p)"
    using v
    by (simp add: PersonalityTraits_post_init_def PersonalityTraits_values_def
        PersonalityTraits_fields_def)
  then show ?thesis
    using assms(2)
    by (simp add: PersonalityTraits_to_dict_def PersonalityTraits_from_dict_def eq)
qed

lemma personality_to_dict_raises:
  "''to_dict'' \<in> set (map fst (instance_attrs p)) \<Longrightarrow>
   PersonalityTraits_to_dict p = Inl TypeError"
  by (simp add: PersonalityTraits_to_dict_def)

lemma experience_round_trip:
  assumes "ExperienceLevels_post_init e = Inr e"
  shows "ExperienceLevels_from_dict (ExperienceLevels_to_dict e) = Inr e"
proof -
  let ?e0 = "\<lparr>leadership = leadership e, negotiation = negotiation e,
         resource_management = resource_management e, crafting = crafting e,
         social_manipulation = social_manipulation e, survival = survival e,
         combat = combat e, experience_history = []\<rparr>"
  have v: "list_all in_unit_range (map snd (get_experience_dict e))"
    using assms by (simp add: ExperienceLevels_post_init_def split: if_splits)
  have "get_experience_dict ?e0 = get_experience_dict e"
    by (simp add: get_experience_dict_def)
  then have 1: "ExperienceLevels_post_init ?e0 = Inr ?e0"
    using v by (simp add: ExperienceLevels_post_init_def)
  have 2: "?e0\<lparr>experience_history := experience_history e\<rparr> = e"
    by (cases e) simp
  show ?thesis
    unfolding ExperienceLevels_from_dict_def ExperienceLevels_to_dict_def Let_def
    by (simp add: 1 2)
qed

lemma memory_round_trip:
  assumes "TraumaMemory_post_init m = Inr m" and "printed fromisoformat (timestamp m)"
  shows "TraumaMemory_from_dict fromisoformat now (TraumaMemory_to_dict m) = Inr m"
proof -
  have eq: "\<lparr>event_type = event_type m, original_impact = original_impact m,
         current_impact = current_impact m, age_when_occurred = age_when_occurred m,
         description = description m, related_npcs = related_npcs m,
         healing_activities = healing_activities m, timestamp = timestamp m\<rparr> = m"
    by (cases m) simp
  show ?thesis
    using assms(2)
    by (simp add: TraumaMemory_from_dict_def TraumaMemory_to_dict_def printed_def eq assms(1))
qed

lemma memories_round_trip:
  "list_all (\<lambda>m. TraumaMemory_post_init m = Inr m) ms \<Longrightarrow>
   list_all (\<lambda>m. printed fromisoformat (timestamp m)) ms \<Longrightarrow>
   memories_from_dicts fromisoformat clock k (map TraumaMemory_to_dict ms) = Inr ms"
  by (induction ms arbitrary: k) (simp_all add: memory_round_trip)

lemma ledger_round_trip:
  assumes "TraumaState_valid s"
    and "list_all (\<lambda>m. printed fromisoformat (timestamp m)) (memories s)"
  shows "TraumaState_from_dict fromisoformat clock (TraumaState_to_dict s) = Inr s"
proof -
  have 1: "memories_from_dicts fromisoformat clock 0 (map TraumaMemory_to_dict (memories s)) =
             Inr (memories s)"
    using assms by (simp add: TraumaState_valid_def memories_round_trip)
  have 2: "\<lparr>memories = memories s, healing_progress = healing_progress s,
            last_healing_activity = last_healing_activity s,
            natural_healing_rate = natural_healing_rate s\<rparr> = s"
    by (cases s) simp
  show ?thesis
    unfolding TraumaState_from_dict_def TraumaState_to_dict_def Let_def
    by (simp add: 1 TraumaState_default_def 2)
qed

lemma dimensions_round_trip:
  assumes "RelationshipDimensions_post_init r = Inr r"
  shows "RelationshipDimensions_from_dict (RelationshipDimensions_to_dict r) = Inr r"
proof -
  have eq: "\<lparr>trust = trust r, respect = respect r, affection = affection r,
         dependency = dependency r, fear = fear r,
         relationship_history = relationship_history r\<rparr> = r"
    by (cases r) simp
  show ?thesis
    by (simp add: RelationshipDimensions_from_dict_def RelationshipDimensions_to_dict_def
        eq assms)
qed

lemma update_fresh_key:
  "k \<notin> fst ` set al \<Longrightarrow> AList.update k v al = al @ [(k, v)]"
  by (induction al) auto

lemma matrix_items_round_trip:
  "distinct (map fst (acc @ items)) \<Longrightarrow>
   list_all (\<lambda>r. RelationshipDimensions_post_init r = Inr r) (map snd items) \<Longrightarrow>
   matrix_from_items
     (map (\<lambda>(partner, rel). (partner, RelationshipDimensions_to_dict rel)) items)
     \<lparr>relationships = acc\<rparr> = Inr \<lparr>relationships = acc @ items\<rparr>"
proof (induction items arbitrary: acc)
  case Nil
  show ?case by simp
next
  case (Cons item items)
  obtain partner rel where item: "item = (partner, rel)" by (cases item)
  have fresh: "partner \<notin> fst ` set acc"
    using Cons.prems(1) by (auto simp add: item)
  have v: "RelationshipDimensions_post_init rel = Inr rel"
    and vs: "list_all (\<lambda>r. RelationshipDimensions_post_init r = Inr r) (map snd items)"
    using Cons.prems(2) by (simp_all add: item)
  have d: "distinct (map fst ((acc @ [(partner, rel)]) @ items))"
    using Cons.prems(1) by (simp add: item)
  show ?case
    using Cons.IH [OF d vs]
    by (simp add: item dimensions_round_trip [OF v] update_fresh_key [OF fresh])
qed

lemma matrix_round_trip:
  assumes "RelationshipMatrix_valid m"
  shows "RelationshipMatrix_from_dict (RelationshipMatrix_to_dict m) = Inr m"
proof -
  have "matrix_from_items
     (map (\<lambda>(partner, rel). (partner, RelationshipDimensions_to_dict rel)) (relationships m))
     \<lparr>relationships = []\<rparr> = Inr \<lparr>relationships = [] @ relationships m\<rparr>"
    using assms
    by (intro matrix_items_round_trip) (simp_all add: RelationshipMatrix_valid_def)
  moreover have "\<lparr>relationships = relationships m\<rparr> = m" by (cases m) simp
  ultimately show ?thesis
    by (simp add: RelationshipMatrix_from_dict_def RelationshipMatrix_to_dict_def
        RelationshipMatrix_default_def)
qed

lemma NPCState_post_init_fixed:
  "NPCState_post_init n = Inr n \<longleftrightarrow>
     (0 \<le> age n \<and> list_all in_unit_range [health n, hunger_level n, energy_level n] \<and>
      name n \<noteq> [])"
proof -
  have "n\<lparr>name := ''NPC_'' @ npc_id n\<rparr> \<noteq> n" if "name n = []"
  proof
    assume "n\<lparr>name := ''NPC_'' @ npc_id n\<rparr> = n"
    then have "name (n\<lparr>name := ''NPC_'' @ npc_id n\<rparr>) = name n" by simp
    then show False using that by simp
  qed
  then show ?thesis
    by (auto simp add: NPCState_post_init_def)
qed

lemma npc_to_dict_raises:
  "''to_dict'' \<in> set (map fst (instance_attrs (personality n))) \<Longrightarrow>
   NPCState_to_dict n = Inl TypeError"
  by (simp add: NPCState_to_dict_def personality_to_dict_raises)

lemma npc_round_trip:
  assumes "NPCState_valid n"
    and na: "''to_dict'' \<notin> set (map fst (instance_attrs (personality n)))"
    and pc: "printed fromisoformat (creation_timestamp n)"
    and pm: "list_all (\<lambda>m. printed fromisoformat (timestamp m)) (memories (trauma n))"
  shows "\<exists>d. NPCState_to_dict n = Inr d \<and>
             NPCState_from_dict fromisoformat now clock d = Inr (NPCState_fields n)"
proof -
  have v: "0 \<le> age n" "list_all in_unit_range [health n, hunger_level n, energy_level n]"
    "name n \<noteq> []"
    using assms by (simp_all add: NPCState_valid_def NPCState_post_init_fixed)
  have p: "and_then (PersonalityTraits_to_dict (personality n)) PersonalityTraits_from_dict =
             Inr (PersonalityTraits_fields (personality n))"
    using assms(1) na by (intro personality_round_trip) (simp_all add: NPCState_valid_def)
  obtain pd where pd: "PersonalityTraits_to_dict (personality n) = Inr pd"
    using na by (simp add: PersonalityTraits_to_dict_def)
  have p': "PersonalityTraits_from_dict pd = Inr (PersonalityTraits_fields (personality n))"
    using p by (simp add: pd)
  have e: "ExperienceLevels_from_dict (ExperienceLevels_to_dict (experience n)) =
             Inr (experience n)"
    using assms by (intro experience_round_trip) (simp add: NPCState_valid_def)
  have t: "TraumaState_from_dict fromisoformat clock (TraumaState_to_dict (trauma n)) =
             Inr (trauma n)"
    using assms(1) pm by (intro ledger_round_trip) (simp_all add: NPCState_valid_def)
  have m: "RelationshipMatrix_from_dict (RelationshipMatrix_to_dict (relationship_matrix n)) =
             Inr (relationship_matrix n)"
    using assms by (intro matrix_round_trip) (simp add: NPCState_valid_def)
  let ?n0 = "(NPCState_defaults (npc_id n) (creation_timestamp n))
             \<lparr>name := name n, age := age n, health := health n,
              hunger_level := hunger_level n, energy_level := energy_level n,
              last_action := last_action n, last_action_success := last_action_success n,
              days_alive := days_alive n\<rparr>"
  have i: "NPCState_post_init ?n0 = Inr ?n0"
    using v by (simp add: NPCState_post_init_fixed)
  have eq: "?n0\<lparr>personality := PersonalityTraits_fields (personality n),
               experience := experience n, trauma := trauma n,
               relationship_matrix := relationship_matrix n\<rparr> = NPCState_fields n"
    by (cases n) (simp add: NPCState_defaults_def NPCState_fields_def)
  let ?d = "\<lparr>nd_npc_id = Some (npc_id n), nd_name = Some (name n), nd_age = Some (age n),
            nd_health = Some (health n), nd_hunger_level = Some (hunger_level n),
            nd_energy_level = Some (energy_level n),
            nd_personality = Some pd,
            nd_experience = Some (ExperienceLevels_to_dict (experience n)),
            nd_trauma = Some (TraumaState_to_dict (trauma n)),
            nd_relationships = Some (RelationshipMatrix_to_dict (relationship_matrix n)),
            nd_last_action = Some (last_action n),
            nd_last_action_success = Some (last_action_success n),
            nd_days_alive = Some (days_alive n),
            nd_creation_timestamp = Some (creation_timestamp n)\<rparr>"
  have 1: "NPCState_to_dict n = Inr ?d"
    by (simp add: NPCState_to_dict_def pd)
  have c: "fromisoformat (creation_timestamp n) = Some (creation_timestamp n)"
    using pc by (simp add: printed_def)
  have 2: "NPCState_from_dict fromisoformat now clock ?d = Inr (NPCState_fields n)"
    unfolding NPCState_from_dict_def
    by (simp add: c i p' e t m eq)
  show ?thesis using 1 2 by blast
qed

lemma default_experience_valid:
  "ExperienceLevels_post_init ExperienceLevels_default = Inr ExperienceLevels_default"
  by (simp add: ExperienceLevels_post_init_def ExperienceLevels_default_def
      get_experience_dict_def in_unit_range_def)

lemma default_personality_valid:
  "PersonalityTraits_post_init PersonalityTraits_default = Inr PersonalityTraits_default"
  by (simp add: PersonalityTraits_post_init_def PersonalityTraits_default_def
      PersonalityTraits_values_def in_unit_range_def)

lemma default_dimensions_valid:
  "RelationshipDimensions_post_init RelationshipDimensions_default =
     Inr RelationshipDimensions_default"
  by (simp add: RelationshipDimensions_post_init_def RelationshipDimensions_default_def
      in_unit_range_def)

lemma betrayal_ledger_valid: "TraumaState_valid betrayal_ledger"
  by (simp add: TraumaState_valid_def betrayal_ledger_def betrayal_memory_def
      TraumaState_default_def TraumaMemory_post_init_def)

lemma alice_matrix_valid: "RelationshipMatrix_valid alice_matrix"
  by (simp add: RelationshipMatrix_valid_def alice_matrix_def default_dimensions_valid)

lemma example_time_printed: "printed example_fromisoformat ''2024-01-01T00:00:00''"
  by (simp add: printed_def example_fromisoformat_def)

lemma example_npc_valid: "NPCState_valid example_npc"
  unfolding NPCState_valid_def
  by (simp add: example_npc_def NPCState_defaults_def NPCState_post_init_fixed in_unit_range_def
      default_experience_valid default_personality_valid TraumaState_valid_def
      TraumaState_default_def RelationshipMatrix_valid_def RelationshipMatrix_default_def)

lemma seasoned_npc_valid: "NPCState_valid seasoned_npc"
  unfolding NPCState_valid_def
  by (simp add: seasoned_npc_def example_npc_def NPCState_defaults_def
      NPCState_post_init_fixed in_unit_range_def default_experience_valid
      default_personality_valid betrayal_ledger_valid alice_matrix_valid)

text \<open>
  The round trip at a character with one trauma and one relationship, read back
  at a later time.
\<close>

lemma seasoned_npc_fields: "NPCState_fields seasoned_npc = seasoned_npc"
  by (simp add: NPCState_fields_def PersonalityTraits_fields_def seasoned_npc_def example_npc_def
      NPCState_defaults_def PersonalityTraits_default_def)

lemma example_npc_fields: "NPCState_fields example_npc = example_npc"
  by (simp add: NPCState_fields_def PersonalityTraits_fields_def example_npc_def
      NPCState_defaults_def PersonalityTraits_default_def)

lemma seasoned_npc_round_trip:
  "\<exists>d. NPCState_to_dict seasoned_npc = Inr d \<and>
       NPCState_from_dict example_fromisoformat ''2024-01-02T08:00:00''
         (\<lambda>k. ''2024-01-02T08:00:00'') d = Inr seasoned_npc"
proof (rule npc_round_trip [OF seasoned_npc_valid, unfolded seasoned_npc_fields])
  show "''to_dict'' \<notin> set (map fst (instance_attrs (personality seasoned_npc)))"
    by (simp add: seasoned_npc_def example_npc_def NPCState_defaults_def
        PersonalityTraits_default_def)
  show "printed example_fromisoformat (creation_timestamp seasoned_npc)"
    by (simp add: seasoned_npc_def example_npc_def NPCState_defaults_def example_time_printed)
  show "list_all (\<lambda>m. printed example_fromisoformat (timestamp m))
          (memories (trauma seasoned_npc))"
    by (simp add: seasoned_npc_def betrayal_ledger_def betrayal_memory_def
        example_time_printed)
qed

lemma shadowed_personality:
  "set_trait ''to_dict'' 0.5 (personality example_npc) =
     (Inr (), PersonalityTraits_default\<lparr>instance_attrs := [(''to_dict'', 0.5)]\<rparr>)"
  by (simp add: example_npc_def NPCState_defaults_def trait_names_def set_trait_def
      PersonalityTraits_hasattr_def PersonalityTraits_methods_def PersonalityTraits_setattr_def
      PersonalityTraits_default_def)

text \<open>
  Claim C6 against the code: the round trip does not hold of every character.
  \<^verbatim>\<open>set_trait\<close> accepts the name of a method (\<^verbatim>\<open>hasattr\<close> holds of it) and stores
  the number on the instance. Take \<^verbatim>\<open>npc = NPCState(npc_id='npc_1')\<close>, whose round
  trip works, and call \<^verbatim>\<open>npc.personality.set_trait('to_dict', 0.5)\<close>: the call
  returns normally, the character still passes every \<^verbatim>\<open>__post_init__\<close> check, and
  \<^verbatim>\<open>npc.to_dict()\<close> raises TypeError at \<^verbatim>\<open>self.personality.to_dict()\<close>, so there is
  nothing to reconstruct.
\<close>

theorem to_dict_fails_after_set_trait:
  "(\<exists>d. NPCState_to_dict example_npc = Inr d \<and>
        NPCState_from_dict example_fromisoformat ''2024-01-02T08:00:00''
          (\<lambda>k. ''2024-01-02T08:00:00'') d = Inr example_npc) \<and>
   fst (set_trait ''to_dict'' 0.5 (personality example_npc)) = Inr () \<and>
   NPCState_valid shadowed_npc \<and>
   NPCState_to_dict shadowed_npc = Inl TypeError"
proof (intro conjI)
  show "\<exists>d. NPCState_to_dict example_npc = Inr d \<and>
        NPCState_from_dict example_fromisoformat ''2024-01-02T08:00:00''
          (\<lambda>k. ''2024-01-02T08:00:00'') d = Inr example_npc"
  proof (rule npc_round_trip [OF example_npc_valid, unfolded example_npc_fields])
    show "''to_dict'' \<notin> set (map fst (instance_attrs (personality example_npc)))"
      by (simp add: example_npc_def NPCState_defaults_def PersonalityTraits_default_def)
    show "printed example_fromisoformat (creation_timestamp example_npc)"
      by (simp add: example_npc_def NPCState_defaults_def example_time_printed)
    show "list_all (\<lambda>m. printed example_fromisoformat (timestamp m))
            (memories (trauma example_npc))"
      by (simp add: example_npc_def NPCState_defaults_def TraumaState_default_def)
  qed
  show "fst (set_trait ''to_dict'' 0.5 (personality example_npc)) = Inr ()"
    using shadowed_personality by simp
  have p: "personality shadowed_npc =
             PersonalityTraits_default\<lparr>instance_attrs := [(''to_dict'', 0.5)]\<rparr>"
    using shadowed_personality by (simp add: shadowed_npc_def)
  have rest: "NPCState_post_init shadowed_npc = Inr shadowed_npc"
    "experience shadowed_npc = experience example_npc"
    "trauma shadowed_npc = trauma example_npc"
    "relationship_matrix shadowed_npc = relationship_matrix example_npc"
    by (simp_all add: shadowed_npc_def NPCState_post_init_fixed example_npc_def
        NPCState_defaults_def in_unit_range_def)
  show "NPCState_valid shadowed_npc"
    using example_npc_valid
    by (simp add: NPCState_valid_def rest p PersonalityTraits_post_init_def
        PersonalityTraits_values_def PersonalityTraits_default_def in_unit_range_def)
  show "NPCState_to_dict shadowed_npc = Inl TypeError"
    by (simp add: NPCState_to_dict_def p PersonalityTraits_to_dict_def)
qed
section \<open>Reconstruction of records with missing fields\<close>

lemma dict_get_in_range:
  "pred_option in_unit_range x \<Longrightarrow> in_unit_range (dict_get 0 x)"
  "pred_option in_unit_range x \<Longrightarrow> in_unit_range (dict_get (1 / 2) x)"
  "pred_option in_unit_range x \<Longrightarrow> in_unit_range (dict_get (4 / 5) x)"
  "pred_option in_unit_range x \<Longrightarrow> in_unit_range (dict_get (7 / 10) x)"
  by (cases x; simp add: in_unit_range_def)+

lemma dimensions_defaults:
  "dimensions_dict_ok d \<Longrightarrow>
   RelationshipDimensions_from_dict d = Inr (dimensions_with_defaults d)"
  by (simp add: dimensions_dict_ok_def dimensions_with_defaults_def
      RelationshipDimensions_from_dict_def RelationshipDimensions_post_init_def
      dict_get_in_range)

lemma matrix_items_defaults:
  "distinct (map fst acc @ map fst items) \<Longrightarrow>
   list_all dimensions_dict_ok (map snd items) \<Longrightarrow>
   matrix_from_items items \<lparr>relationships = acc\<rparr> =
     Inr \<lparr>relationships =
            acc @ map (\<lambda>(partner, rel). (partner, dimensions_with_defaults rel)) items\<rparr>"
proof (induction items arbitrary: acc)
  case Nil
  show ?case by simp
next
  case (Cons item items)
  obtain partner rel where item: "item = (partner, rel)" by (cases item)
  have fresh: "partner \<notin> fst ` set acc"
    using Cons.prems(1) by (auto simp add: item)
  have v: "dimensions_dict_ok rel" and vs: "list_all dimensions_dict_ok (map snd items)"
    using Cons.prems(2) by (simp_all add: item)
  have d: "distinct (map fst (acc @ [(partner, dimensions_with_defaults rel)]) @ map fst items)"
    using Cons.prems(1) by (simp add: item)
  show ?case
    using Cons.IH [OF d vs]
    by (simp add: item dimensions_defaults [OF v] update_fresh_key [OF fresh])
qed

lemma matrix_defaults:
  assumes "matrix_dict_ok d"
  shows "RelationshipMatrix_from_dict d = Inr (matrix_with_defaults d)"
proof -
  have "matrix_from_items d \<lparr>relationships = []\<rparr> =
          Inr \<lparr>relationships =
                 [] @ map (\<lambda>(partner, rel). (partner, dimensions_with_defaults rel)) d\<rparr>"
    using assms by (intro matrix_items_defaults) (simp_all add: matrix_dict_ok_def)
  then show ?thesis
    by (simp add: RelationshipMatrix_from_dict_def RelationshipMatrix_default_def
        matrix_with_defaults_def)
qed

lemma personality_defaults:
  "personality_dict_ok d \<Longrightarrow>
   PersonalityTraits_from_dict d = Inr (personality_with_defaults d)"
  by (simp add: personality_dict_ok_def personality_with_defaults_def
      PersonalityTraits_from_dict_def PersonalityTraits_post_init_def
      PersonalityTraits_values_def dict_get_in_range)

lemma no_levels_ok: "levels_dict_ok no_levels"
  by (simp add: levels_dict_ok_def no_levels_def)

lemma experience_defaults:
  assumes "experience_dict_ok d"
  shows "ExperienceLevels_from_dict d = Inr (experience_with_defaults d)"
proof -
  have "levels_dict_ok (dict_get no_levels (ed_experience_levels d))"
    using assms by (cases "ed_experience_levels d") (simp_all add: experience_dict_ok_def no_levels_ok)
  then show ?thesis
    by (simp add: levels_dict_ok_def experience_with_defaults_def ExperienceLevels_from_dict_def
        ExperienceLevels_post_init_def get_experience_dict_def dict_get_in_range Let_def)
qed

lemma memory_defaults:
  assumes "memory_dict_ok fromisoformat now d"
  shows "TraumaMemory_from_dict fromisoformat now d =
           Inr (memory_with_defaults fromisoformat now d)"
proof -
  obtain stamp ev original current a descr where k:
    "fromisoformat (dict_get now (md_timestamp d)) = Some stamp"
    "md_event_type d = Some ev" "md_original_impact d = Some original"
    "md_current_impact d = Some current" "md_age_when_occurred d = Some a"
    "md_description d = Some descr"
    using assms by (auto simp add: memory_dict_ok_def memory_required_keys_def)
  have "0 \<le> current" "current \<le> original" "0 \<le> a"
    using assms by (simp_all add: memory_dict_ok_def k)
  then show ?thesis
    by (simp add: TraumaMemory_from_dict_def memory_with_defaults_def k
        TraumaMemory_post_init_def)
qed

lemma memory_malformed_timestamp:
  "fromisoformat (dict_get now (md_timestamp d)) = None \<Longrightarrow>
   TraumaMemory_from_dict fromisoformat now d = Inl ValueError"
  by (simp add: TraumaMemory_from_dict_def)

lemma memory_missing_key:
  assumes "fromisoformat (dict_get now (md_timestamp d)) \<noteq> None"
    and "\<not> memory_required_keys d"
  shows "TraumaMemory_from_dict fromisoformat now d = Inl KeyError"
proof -
  obtain stamp where s: "fromisoformat (dict_get now (md_timestamp d)) = Some stamp"
    using assms(1) by auto
  show ?thesis
    using assms(2)
    by (auto simp add: TraumaMemory_from_dict_def s memory_required_keys_def and_then_def
        dict_item_def split: option.splits)
qed

lemma memories_defaults:
  "memory_dicts_ok fromisoformat clock k ds \<Longrightarrow>
   memories_from_dicts fromisoformat clock k ds =
     Inr (memories_with_defaults fromisoformat clock k ds)"
  by (induction ds arbitrary: k) (simp_all add: memory_defaults)

lemma ledger_defaults:
  "ledger_dict_ok fromisoformat clock d \<Longrightarrow>
   TraumaState_from_dict fromisoformat clock d =
     Inr (ledger_with_defaults fromisoformat clock d)"
  by (simp add: ledger_dict_ok_def ledger_with_defaults_def TraumaState_from_dict_def
      TraumaState_default_def Let_def memories_defaults)

lemma npc_required_key:
  "nd_npc_id d = None \<Longrightarrow> NPCState_from_dict fromisoformat now clock d = Inl KeyError"
  by (simp add: NPCState_from_dict_def)

lemma npc_defaults:
  assumes ok: "npc_dict_ok fromisoformat now clock d"
  shows "NPCState_from_dict fromisoformat now clock d =
           Inr (npc_with_defaults fromisoformat now clock d)"
proof -
  obtain i created where k: "nd_npc_id d = Some i"
    "fromisoformat (dict_get now (nd_creation_timestamp d)) = Some created"
    using ok by (auto simp add: npc_dict_ok_def)
  have a: "0 \<le> dict_get 25 (nd_age d)"
    using ok by (cases "nd_age d") (simp_all add: npc_dict_ok_def)
  have r: "in_unit_range (dict_get 0.8 (nd_health d))"
    "in_unit_range (dict_get 0.5 (nd_hunger_level d))"
    "in_unit_range (dict_get 0.7 (nd_energy_level d))"
    using ok by (simp_all add: npc_dict_ok_def dict_get_in_range)
  have p: "\<And>pd. nd_personality d = Some pd \<Longrightarrow>
             PersonalityTraits_from_dict pd = Inr (personality_with_defaults pd)"
    using ok by (simp add: npc_dict_ok_def personality_defaults)
  have e: "\<And>ed. nd_experience d = Some ed \<Longrightarrow>
             ExperienceLevels_from_dict ed = Inr (experience_with_defaults ed)"
    using ok by (simp add: npc_dict_ok_def experience_defaults)
  have t: "\<And>td. nd_trauma d = Some td \<Longrightarrow>
             TraumaState_from_dict fromisoformat clock td =
               Inr (ledger_with_defaults fromisoformat clock td)"
    using ok by (simp add: npc_dict_ok_def ledger_defaults)
  have m: "\<And>rd. nd_relationships d = Some rd \<Longrightarrow>
             RelationshipMatrix_from_dict rd = Inr (matrix_with_defaults rd)"
    using ok by (simp add: npc_dict_ok_def matrix_defaults)
  show ?thesis
    using a r
    by (simp add: NPCState_from_dict_def npc_with_defaults_def k NPCState_post_init_def
        NPCState_defaults_def p e t m split: option.splits)
qed

text \<open>
  Claim C8, as stated, fails: \<^verbatim>\<open>TraumaMemory.from_dict\<close> reads five keys with
  \<^verbatim>\<open>data[...]\<close> and \<^verbatim>\<open>NPCState.from_dict\<close> reads \<^verbatim>\<open>data['npc_id']\<close>; these fields have
  no default in their dataclass. The dict of a memory without its description
  (its timestamp well-formed), and the empty dict for a character, raise
  KeyError.
\<close>

theorem from_dict_needs_required_keys_counterexample:
  "TraumaMemory_from_dict example_fromisoformat ''2024-01-02T08:00:00''
     ((TraumaMemory_to_dict betrayal_memory)\<lparr>md_description := None\<rparr>) = Inl KeyError \<and>
   NPCState_from_dict example_fromisoformat ''2024-01-02T08:00:00''
     (\<lambda>k. ''2024-01-02T08:00:00'') no_npc_fields = Inl KeyError"
  by (simp add: TraumaMemory_from_dict_def TraumaMemory_to_dict_def betrayal_memory_def
      example_fromisoformat_def NPCState_from_dict_def no_npc_fields_def)

text \<open>
  Claim C8, amended. For every component, reconstruction of a record succeeds
  and gives the record with every missing optional field at its default,
  provided that the fields without a default are present (\<^verbatim>\<open>npc_id\<close> of a
  character; \<^verbatim>\<open>event_type\<close>, \<^verbatim>\<open>original_impact\<close>, \<^verbatim>\<open>current_impact\<close>,
  \<^verbatim>\<open>age_when_occurred\<close> and \<^verbatim>\<open>description\<close> of a memory), that the values present
  pass the validation of the constructor, and that the times present are
  well-formed; this holds through the nesting (the memories of a ledger, the
  entries of a relationships dict, the four nested dicts of a character).
  The defaults: of a relationship entry 0.5, 0.5, 0.5, 0.0, 0.0 and no history;
  of a personality 0.5 each; of an experience tracker 0.0 each and no history;
  of a ledger no memories, rate 0.001, no last activity; of a memory no related
  NPCs, no healing activities and the clock reading; of a character the name
  \<^verbatim>\<open>NPC_<id>\<close>, age 25, health 0.8, hunger 0.5, energy 0.7, no last action, day
  0, the clock reading, and each subsystem as in a new character. A character
  without \<^verbatim>\<open>npc_id\<close> raises KeyError; a memory with a malformed timestamp raises
  ValueError, and one with a well-formed or missing timestamp that lacks one of
  its five keys raises KeyError.
\<close>

theorem from_dict_fills_optional_fields:
  "(dimensions_dict_ok rd \<longrightarrow>
      RelationshipDimensions_from_dict rd = Inr (dimensions_with_defaults rd)) \<and>
   (matrix_dict_ok gd \<longrightarrow>
      RelationshipMatrix_from_dict gd = Inr (matrix_with_defaults gd)) \<and>
   (personality_dict_ok pd \<longrightarrow>
      PersonalityTraits_from_dict pd = Inr (personality_with_defaults pd)) \<and>
   (experience_dict_ok ed \<longrightarrow>
      ExperienceLevels_from_dict ed = Inr (experience_with_defaults ed)) \<and>
   (memory_dict_ok fromisoformat now md \<longrightarrow>
      TraumaMemory_from_dict fromisoformat now md =
        Inr (memory_with_defaults fromisoformat now md)) \<and>
   (ledger_dict_ok fromisoformat clock ld \<longrightarrow>
      TraumaState_from_dict fromisoformat clock ld =
        Inr (ledger_with_defaults fromisoformat clock ld)) \<and>
   (npc_dict_ok fromisoformat now clock nd \<longrightarrow>
      NPCState_from_dict fromisoformat now clock nd =
        Inr (npc_with_defaults fromisoformat now clock nd)) \<and>
   (nd_npc_id nd = None \<longrightarrow>
      NPCState_from_dict fromisoformat now clock nd = Inl KeyError) \<and>
   (fromisoformat (dict_get now (md_timestamp md)) = None \<longrightarrow>
      TraumaMemory_from_dict fromisoformat now md = Inl ValueError) \<and>
   (fromisoformat (dict_get now (md_timestamp md)) \<noteq> None \<and> \<not> memory_required_keys md \<longrightarrow>
      TraumaMemory_from_dict fromisoformat now md = Inl KeyError)"
  by (simp add: dimensions_defaults matrix_defaults personality_defaults experience_defaults
      memory_defaults ledger_defaults npc_defaults npc_required_key memory_malformed_timestamp
      memory_missing_key)

lemma sparse_dicts_ok:
  "dimensions_dict_ok no_dimension_fields"
  "matrix_dict_ok [(''alice'', no_dimension_fields)]"
  "personality_dict_ok no_personality_fields"
  "experience_dict_ok no_experience_fields"
  "memory_dict_ok example_fromisoformat ''2024-01-01T00:00:00'' no_memory_optional_fields"
  "ledger_dict_ok example_fromisoformat (\<lambda>k. ''2024-01-01T00:00:00'') sparse_ledger_dict"
  "npc_dict_ok example_fromisoformat ''2024-01-01T00:00:00'' (\<lambda>k. ''2024-01-01T00:00:00'')
     sparse_npc_dict"
proof -
  show 1: "dimensions_dict_ok no_dimension_fields"
    by (simp add: dimensions_dict_ok_def no_dimension_fields_def)
  show 2: "matrix_dict_ok [(''alice'', no_dimension_fields)]"
    by (simp add: matrix_dict_ok_def 1)
  show 3: "personality_dict_ok no_personality_fields"
    by (simp add: personality_dict_ok_def no_personality_fields_def)
  show 4: "experience_dict_ok no_experience_fields"
    by (simp add: experience_dict_ok_def no_experience_fields_def)
  show 5: "memory_dict_ok example_fromisoformat ''2024-01-01T00:00:00'' no_memory_optional_fields"
    by (simp add: memory_dict_ok_def memory_required_keys_def no_memory_optional_fields_def
        example_fromisoformat_def)
  show 6: "ledger_dict_ok example_fromisoformat (\<lambda>k. ''2024-01-01T00:00:00'') sparse_ledger_dict"
    by (simp add: ledger_dict_ok_def sparse_ledger_dict_def no_ledger_fields_def 5)
  show "npc_dict_ok example_fromisoformat ''2024-01-01T00:00:00'' (\<lambda>k. ''2024-01-01T00:00:00'')
     sparse_npc_dict"
    by (simp add: npc_dict_ok_def sparse_npc_dict_def no_npc_fields_def 2 3 4 6
        example_fromisoformat_def)
qed

lemma sparse_dicts_with_defaults:
  "dimensions_with_defaults no_dimension_fields = RelationshipDimensions_default"
  "matrix_with_defaults [(''alice'', no_dimension_fields)] = alice_matrix"
  "personality_with_defaults no_personality_fields = PersonalityTraits_default"
  "experience_with_defaults no_experience_fields = ExperienceLevels_default"
  "memory_with_defaults example_fromisoformat ''2024-01-01T00:00:00'' no_memory_optional_fields =
     betrayal_memory"
  "ledger_with_defaults example_fromisoformat (\<lambda>k. ''2024-01-01T00:00:00'') sparse_ledger_dict =
     betrayal_ledger"
  "npc_with_defaults example_fromisoformat ''2024-01-01T00:00:00''
     (\<lambda>k. ''2024-01-01T00:00:00'') sparse_npc_dict = seasoned_npc"
proof -
  show 1: "dimensions_with_defaults no_dimension_fields = RelationshipDimensions_default"
    by (simp add: dimensions_with_defaults_def no_dimension_fields_def
        RelationshipDimensions_default_def)
  show 2: "matrix_with_defaults [(''alice'', no_dimension_fields)] = alice_matrix"
    by (simp add: matrix_with_defaults_def alice_matrix_def 1)
  show 3: "personality_with_defaults no_personality_fields = PersonalityTraits_default"
    by (simp add: personality_with_defaults_def no_personality_fields_def
        PersonalityTraits_default_def)
  show 4: "experience_with_defaults no_experience_fields = ExperienceLevels_default"
    by (simp add: experience_with_defaults_def no_experience_fields_def no_levels_def
        ExperienceLevels_default_def)
  show 5: "memory_with_defaults example_fromisoformat ''2024-01-01T00:00:00''
             no_memory_optional_fields = betrayal_memory"
    by (simp add: memory_with_defaults_def no_memory_optional_fields_def betrayal_memory_def
        example_fromisoformat_def)
  show 6: "ledger_with_defaults example_fromisoformat (\<lambda>k. ''2024-01-01T00:00:00'')
             sparse_ledger_dict = betrayal_ledger"
    by (simp add: ledger_with_defaults_def sparse_ledger_dict_def no_ledger_fields_def 5
        betrayal_ledger_def TraumaState_default_def)
  show "npc_with_defaults example_fromisoformat ''2024-01-01T00:00:00''
     (\<lambda>k. ''2024-01-01T00:00:00'') sparse_npc_dict = seasoned_npc"
    by (simp add: npc_with_defaults_def sparse_npc_dict_def no_npc_fields_def 2 3 4 6
        example_fromisoformat_def seasoned_npc_def example_npc_def NPCState_defaults_def)
qed

lemma malformed_memory_dicts:
  "example_fromisoformat
     (dict_get ''2024-01-01T00:00:00''
        (md_timestamp (no_memory_optional_fields\<lparr>md_timestamp := Some ''yesterday''\<rparr>))) = None"
  "example_fromisoformat
     (dict_get ''2024-01-01T00:00:00''
        (md_timestamp (no_memory_optional_fields\<lparr>md_description := None\<rparr>))) \<noteq> None"
  "\<not> memory_required_keys (no_memory_optional_fields\<lparr>md_description := None\<rparr>)"
  by (simp_all add: example_fromisoformat_def no_memory_optional_fields_def
      memory_required_keys_def)

theorem from_dict_fills_optional_fields_witness:
  "dimensions_dict_ok no_dimension_fields \<and>
   RelationshipDimensions_from_dict no_dimension_fields = Inr RelationshipDimensions_default \<and>
   matrix_dict_ok [(''alice'', no_dimension_fields)] \<and>
   RelationshipMatrix_from_dict [(''alice'', no_dimension_fields)] = Inr alice_matrix \<and>
   personality_dict_ok no_personality_fields \<and>
   PersonalityTraits_from_dict no_personality_fields = Inr PersonalityTraits_default \<and>
   experience_dict_ok no_experience_fields \<and>
   ExperienceLevels_from_dict no_experience_fields = Inr ExperienceLevels_default \<and>
   memory_dict_ok example_fromisoformat ''2024-01-01T00:00:00'' no_memory_optional_fields \<and>
   TraumaMemory_from_dict example_fromisoformat ''2024-01-01T00:00:00''
     no_memory_optional_fields = Inr betrayal_memory \<and>
   ledger_dict_ok example_fromisoformat (\<lambda>k. ''2024-01-01T00:00:00'') sparse_ledger_dict \<and>
   TraumaState_from_dict example_fromisoformat (\<lambda>k. ''2024-01-01T00:00:00'')
     sparse_ledger_dict = Inr betrayal_ledger \<and>
   npc_dict_ok example_fromisoformat ''2024-01-01T00:00:00'' (\<lambda>k. ''2024-01-01T00:00:00'')
     sparse_npc_dict \<and>
   NPCState_from_dict example_fromisoformat ''2024-01-01T00:00:00''
     (\<lambda>k. ''2024-01-01T00:00:00'') sparse_npc_dict = Inr seasoned_npc \<and>
   nd_npc_id no_npc_fields = None \<and>
   NPCState_from_dict example_fromisoformat ''2024-01-01T00:00:00''
     (\<lambda>k. ''2024-01-01T00:00:00'') no_npc_fields = Inl KeyError \<and>
   TraumaMemory_from_dict example_fromisoformat ''2024-01-01T00:00:00''
     (no_memory_optional_fields\<lparr>md_timestamp := Some ''yesterday''\<rparr>) = Inl ValueError \<and>
   TraumaMemory_from_dict example_fromisoformat ''2024-01-01T00:00:00''
     (no_memory_optional_fields\<lparr>md_description := None\<rparr>) = Inl KeyError"
proof -
  let ?now = "''2024-01-01T00:00:00''"
  let ?clock = "\<lambda>k::nat. ''2024-01-01T00:00:00''"
  note sparse = from_dict_fills_optional_fields
    [of no_dimension_fields "[(''alice'', no_dimension_fields)]" no_personality_fields
        no_experience_fields example_fromisoformat ?now no_memory_optional_fields ?clock
        sparse_ledger_dict sparse_npc_dict]
  note missing = from_dict_fills_optional_fields
    [of no_dimension_fields "[(''alice'', no_dimension_fields)]" no_personality_fields
        no_experience_fields example_fromisoformat ?now
        "no_memory_optional_fields\<lparr>md_description := None\<rparr>" ?clock
        sparse_ledger_dict no_npc_fields]
  note malformed = from_dict_fills_optional_fields
    [of no_dimension_fields "[(''alice'', no_dimension_fields)]" no_personality_fields
        no_experience_fields example_fromisoformat ?now
        "no_memory_optional_fields\<lparr>md_timestamp := Some ''yesterday''\<rparr>" ?clock
        sparse_ledger_dict no_npc_fields]
  have n: "nd_npc_id no_npc_fields = None"
    by (simp add: no_npc_fields_def)
  have a: "RelationshipDimensions_from_dict no_dimension_fields =
             Inr RelationshipDimensions_default"
    using sparse sparse_dicts_ok(1) by (simp only: sparse_dicts_with_defaults)
  have b: "RelationshipMatrix_from_dict [(''alice'', no_dimension_fields)] = Inr alice_matrix"
    using sparse sparse_dicts_ok(2) by (simp only: sparse_dicts_with_defaults)
  have c: "PersonalityTraits_from_dict no_personality_fields = Inr PersonalityTraits_default"
    using sparse sparse_dicts_ok(3) by (simp only: sparse_dicts_with_defaults)
  have d: "ExperienceLevels_from_dict no_experience_fields = Inr ExperienceLevels_default"
    using sparse sparse_dicts_ok(4) by (simp only: sparse_dicts_with_defaults)
  have e: "TraumaMemory_from_dict example_fromisoformat ?now no_memory_optional_fields =
             Inr betrayal_memory"
    using sparse sparse_dicts_ok(5) by (simp only: sparse_dicts_with_defaults)
  have f: "TraumaState_from_dict example_fromisoformat ?clock sparse_ledger_dict =
             Inr betrayal_ledger"
    using sparse sparse_dicts_ok(6) by (simp only: sparse_dicts_with_defaults)
  have g: "NPCState_from_dict example_fromisoformat ?now ?clock sparse_npc_dict =
             Inr seasoned_npc"
    using sparse sparse_dicts_ok(7) by (simp only: sparse_dicts_with_defaults)
  have h: "NPCState_from_dict example_fromisoformat ?now ?clock no_npc_fields = Inl KeyError"
    using missing n by blast
  have i: "TraumaMemory_from_dict example_fromisoformat ?now
             (no_memory_optional_fields\<lparr>md_timestamp := Some ''yesterday''\<rparr>) = Inl ValueError"
    using malformed malformed_memory_dicts(1) by blast
  have j: "TraumaMemory_from_dict example_fromisoformat ?now
             (no_memory_optional_fields\<lparr>md_description := None\<rparr>) = Inl KeyError"
    using missing malformed_memory_dicts(2,3) by blast
  show ?thesis
    using sparse_dicts_ok n a b c d e f g h i j by simp
qed
end
